theory Spec2Isabelle
  imports Complex_Main "HOL-Library.Word" "HOL-Library.FSet"
begin

unbundle bit_operations_syntax

chapter \<open>A-SWARM: sentinel scoring, fast-path transport, quorum and micro-acts\<close>

text \<open>
  A shallow embedding of the detection-and-response core of A-SWARM. Every definition
  names the Python function it is taken from. A Python float is the real number it stands
  for; the rounded arithmetic of doubles on which the quorum mean, the window cutoff and
  the listener's clocks depend is a parameter of the library record. Python's unbounded
  integers are \<open>int\<close>; clocks, random draws and the results of external calls (control
  plane, kubectl) are explicit arguments.
\<close>

section \<open>Definitions\<close>

subsection \<open>Sentinel scoring (prototype/sentinel/telemetry_v2.py)\<close>

text \<open>\<open>d.get(k, default)\<close> on a dictionary with numeric values.\<close>

definition dget :: "(string \<rightharpoonup> real) \<Rightarrow> string \<Rightarrow> real \<Rightarrow> real" where
  "dget d k dflt = (case d k of None \<Rightarrow> dflt | Some v \<Rightarrow> v)"

text \<open>
  \<open>random.randint(a, b)\<close> as a function of a raw draw \<open>r\<close>: every value of the closed
  range is reached and no other. \<open>random.uniform(a, b)\<close> likewise from a fraction.
\<close>

definition randint :: "int \<Rightarrow> int \<Rightarrow> nat \<Rightarrow> real" where
  "randint a b r = real_of_int (a + int (r mod nat (b - a + 1)))"

definition uniform :: "real \<Rightarrow> real \<Rightarrow> nat \<Rightarrow> real" where
  "uniform a b r = a + (b - a) * (real (r mod 1001) / 1000)"

text \<open>
  The mutable attributes of \<open>DualPathTelemetry\<close> that scoring touches:
  \<open>anomaly_signals\<close> and the attribute \<open>_ewma\<close>, absent until the first call.
\<close>

record telemetry =
  anomaly_signals :: int
  ewma :: "real option"

text \<open>\<open>DualPathTelemetry.generate_packet_sketch\<close>; \<open>r\<close> gives the draw made for each key.\<close>

definition generate_packet_sketch ::
  "(string \<Rightarrow> nat) \<Rightarrow> telemetry \<Rightarrow> (string \<rightharpoonup> real) \<times> telemetry" where
  "generate_packet_sketch r t =
     (let normal_sketch =
            [''tcp_22'' \<mapsto> randint 0 5 (r ''tcp_22''),
             ''tcp_80'' \<mapsto> randint 5 20 (r ''tcp_80''),
             ''tcp_443'' \<mapsto> randint 10 30 (r ''tcp_443''),
             ''tcp_6443'' \<mapsto> randint 0 8 (r ''tcp_6443''),
             ''udp_53'' \<mapsto> randint 2 10 (r ''udp_53''),
             ''tcp_other'' \<mapsto> randint 0 5 (r ''tcp_other'')]
      in if anomaly_signals t > 0
         then (normal_sketch ++
                 [''tcp_3306'' \<mapsto> randint 5 15 (r ''tcp_3306''),
                  ''tcp_5432'' \<mapsto> randint 3 12 (r ''tcp_5432''),
                  ''tcp_6379'' \<mapsto> randint 2 8 (r ''tcp_6379''),
                  ''tcp_8080'' \<mapsto> randint 4 16 (r ''tcp_8080''),
                  ''tcp_9200'' \<mapsto> randint 1 6 (r ''tcp_9200''),
                  ''scan_ports'' \<mapsto> randint 8 25 (r ''scan_ports'')],
               t\<lparr>anomaly_signals := anomaly_signals t - 1\<rparr>)
         else (normal_sketch, t))"

text \<open>\<open>DualPathTelemetry.generate_process_graph\<close>.\<close>

definition generate_process_graph ::
  "(string \<Rightarrow> nat) \<Rightarrow> telemetry \<Rightarrow> (string \<rightharpoonup> real)" where
  "generate_process_graph r t =
     (let base_graph =
            [''nodes'' \<mapsto> randint 15 25 (r ''nodes''),
             ''edges'' \<mapsto> randint 12 22 (r ''edges''),
             ''new_procs'' \<mapsto> randint 0 3 (r ''new_procs''),
             ''term_procs'' \<mapsto> randint 0 2 (r ''term_procs'')]
      in if anomaly_signals t > 0
         then base_graph ++
                [''new_procs'' \<mapsto> randint 3 8 (r ''new_procs_anomaly''),
                 ''network_procs'' \<mapsto> randint 2 5 (r ''network_procs''),
                 ''anomaly_score'' \<mapsto> uniform 0.7 0.9 (r ''anomaly_score'')]
         else base_graph)"

text \<open>\<open>DualPathTelemetry.score_signal\<close>: returns the score and stores it in \<open>_ewma\<close>.\<close>

definition score_signal ::
  "(string \<rightharpoonup> real) \<Rightarrow> (string \<rightharpoonup> real) \<Rightarrow> telemetry \<Rightarrow> real \<times> telemetry" where
  "score_signal sketch graph t =
     (let ports = dget sketch ''scan_ports'' 0;
          churn = dget graph ''new_procs'' 0 + dget graph ''network_procs'' 0;
          raw = 0.7 * min (ports / 10.0) 1.0 + 0.3 * min (churn / 8.0) 1.0;
          alpha = 0.4;
          prev = (case ewma t of None \<Rightarrow> 0.0 | Some e \<Rightarrow> e);
          ewma' = alpha * raw + (1 - alpha) * prev
      in (ewma', t\<lparr>ewma := Some ewma'\<rparr>))"

text \<open>
  One iteration of \<open>run_telemetry_loop\<close> up to the call of \<open>update_lease\<close>: the sketch,
  the graph, and the score that is published.
\<close>

definition tick :: "(string \<Rightarrow> nat) \<Rightarrow> telemetry \<Rightarrow> real \<times> telemetry" where
  "tick r t =
     (let (sketch, t1) = generate_packet_sketch r t;
          graph = generate_process_graph r t1
      in score_signal sketch graph t1)"

text \<open>The scores published by successive iterations, one list of draws per iteration.\<close>

fun published_scores :: "telemetry \<Rightarrow> (string \<Rightarrow> nat) list \<Rightarrow> real list" where
  "published_scores t [] = []"
| "published_scores t (r # rs) = (let (s, t') = tick r t in s # published_scores t' rs)"

text \<open>The state of a new \<open>DualPathTelemetry\<close> object.\<close>

definition telemetry_init :: telemetry where
  "telemetry_init = \<lparr>anomaly_signals = 0, ewma = None\<rparr>"

subsection \<open>Python values shared by the components\<close>

text \<open>
  Exceptions that the modelled code can raise. A function that can raise returns
  \<open>py_exn + 'a\<close>, with \<open>Inl\<close> for the exception.
\<close>

datatype py_exn =
    TypeError | AttributeError | ValueError | KeyError | StructError | OSError
  | ZeroDivisionError | OverflowError | JSONDecodeError | UnicodeDecodeError | RecursionError

text \<open>
  A decoded JSON document, as \<open>json.loads\<close> returns it: a dictionary keeps its keys in
  insertion order, so it is an association list. A float is finite: the values \<open>NaN\<close>
  and \<open>Infinity\<close>, which \<open>json.loads\<close> also accepts, have no counterpart here.
\<close>

datatype json =
    JNull
  | JBool bool
  | JInt int
  | JFloat real
  | JStr string
  | JArr "json list"
  | JObj "(string \<times> json) list"

text \<open>Truthiness of a decoded value (\<open>if v:\<close>).\<close>

fun jtruthy :: "json \<Rightarrow> bool" where
  "jtruthy JNull = False"
| "jtruthy (JBool b) = b"
| "jtruthy (JInt i) = (i \<noteq> 0)"
| "jtruthy (JFloat r) = (r \<noteq> 0)"
| "jtruthy (JStr s) = (s \<noteq> [])"
| "jtruthy (JArr xs) = (xs \<noteq> [])"
| "jtruthy (JObj kvs) = (kvs \<noteq> [])"

text \<open>
  \<open>v.get(k, default)\<close>: defined on dictionaries only; any other value has no attribute
  \<open>get\<close>.
\<close>

definition jget :: "json \<Rightarrow> string \<Rightarrow> json \<Rightarrow> py_exn + json" where
  "jget v k dflt =
     (case v of
        JObj kvs \<Rightarrow> Inr (case map_of kvs k of None \<Rightarrow> dflt | Some x \<Rightarrow> x)
      | _ \<Rightarrow> Inl AttributeError)"

text \<open>\<open>d[k] = v\<close> on a dictionary: an existing key keeps its position, a new key goes last.\<close>

fun dict_set :: "(string \<times> 'v) list \<Rightarrow> string \<Rightarrow> 'v \<Rightarrow> (string \<times> 'v) list" where
  "dict_set [] k v = [(k, v)]"
| "dict_set ((k', v') # kvs) k v =
     (if k' = k then (k, v) # kvs else (k', v') # dict_set kvs k v)"

text \<open>The number a value stands for in a comparison with a float; \<open>None\<close> is a \<open>TypeError\<close>.\<close>

fun jnum :: "json \<Rightarrow> real option" where
  "jnum (JInt i) = Some (real_of_int i)"
| "jnum (JFloat r) = Some r"
| "jnum (JBool b) = Some (if b then 1 else 0)"
| "jnum _ = None"

text \<open>Decimal digits of a natural number and \<open>str\<close> of an integer.\<close>

fun str_nat :: "nat \<Rightarrow> string" where
  "str_nat n =
     (if n < 10 then [''0123456789'' ! n]
      else str_nat (n div 10) @ [''0123456789'' ! (n mod 10)])"

declare str_nat.simps [simp del]

definition str_int :: "int \<Rightarrow> string" where
  "str_int i = (if i < 0 then CHR ''-'' # str_nat (nat (- i)) else str_nat (nat i))"

text \<open>\<open>int(x)\<close> of a float truncates towards zero.\<close>

definition int_of_float :: "real \<Rightarrow> int" where
  "int_of_float x = (if 0 \<le> x then \<lfloor>x\<rfloor> else \<lceil>x\<rceil>)"

text \<open>\<open>sub in s\<close> on strings.\<close>

fun str_contains :: "string \<Rightarrow> string \<Rightarrow> bool" where
  "str_contains sub [] = (sub = [])"
| "str_contains sub (c # cs) = (take (length sub) (c # cs) = sub \<or> str_contains sub cs)"

text \<open>
  Library functions the code calls and this development does not define: \<open>repr\<close> of
  a float and its \<open>:.3f\<close> format, HMAC-SHA-256, SHA-256, \<open>json.loads\<close> on UTF-8 bytes
  (the decoded document or the exception raised: \<open>UnicodeDecodeError\<close>, \<open>JSONDecodeError\<close>,
  or \<open>RecursionError\<close> on a text nested too deeply), the epoch
  seconds \<open>datetime.fromisoformat(s).timestamp()\<close> or the exception that raises, and the
  arithmetic of doubles: a float is the real number it stands for, and the rounded sum,
  difference, product and quotient of two floats and the conversion \<open>float(i)\<close> of an
  integer (\<open>None\<close> when it raises \<open>OverflowError\<close>) are functions of the library. They are
  passed to the functions that use them.
\<close>

type_synonym byte = "8 word"

record pylib =
  float_repr :: "real \<Rightarrow> string"
  format_3f :: "real \<Rightarrow> string"
  hmac_sha256 :: "byte list \<Rightarrow> byte list \<Rightarrow> byte list"
  sha256 :: "byte list \<Rightarrow> byte list"
  json_loads :: "byte list \<Rightarrow> py_exn + json"
  fromisoformat :: "string \<Rightarrow> py_exn + real"
  float_add :: "real \<Rightarrow> real \<Rightarrow> real"
  float_sub :: "real \<Rightarrow> real \<Rightarrow> real"
  float_mul :: "real \<Rightarrow> real \<Rightarrow> real"
  float_div :: "real \<Rightarrow> real \<Rightarrow> real"
  float_of_int :: "int \<Rightarrow> real option"

text \<open>
  \<open>sum(xs)\<close> on floats: the additions are made from the left, starting from the
  integer 0, and \<open>float(v)\<close> on a decoded value that is not a string.
\<close>

definition float_sum :: "pylib \<Rightarrow> real list \<Rightarrow> real" where
  "float_sum L xs = foldl (float_add L) 0 xs"

definition to_float :: "pylib \<Rightarrow> json \<Rightarrow> py_exn + real" where
  "to_float L v =
     (case v of
        JInt i \<Rightarrow> (case float_of_int L i of None \<Rightarrow> Inl OverflowError | Some x \<Rightarrow> Inr x)
      | JFloat r \<Rightarrow> Inr r
      | JBool b \<Rightarrow> Inr (if b then 1 else 0)
      | _ \<Rightarrow> Inl TypeError)"

text \<open>
  \<open>str(v)\<close> as an f-string renders a decoded value. Containers are rendered by
  \<open>repr\<close> of their elements, which this development does not spell out: they are given
  a fixed placeholder, and no theorem below depends on it.
\<close>

fun jstr :: "pylib \<Rightarrow> json \<Rightarrow> string" where
  "jstr L JNull = ''None''"
| "jstr L (JBool b) = (if b then ''True'' else ''False'')"
| "jstr L (JInt i) = str_int i"
| "jstr L (JFloat r) = float_repr L r"
| "jstr L (JStr s) = s"
| "jstr L (JArr xs) = ''[...]''"
| "jstr L (JObj kvs) = ''{...}''"

subsection \<open>Pheromone aggregator (prototype/pheromone/signal_types.py, gossip_v2.py)\<close>

text \<open>\<open>LeaseSignal\<close>; timestamps are epoch seconds (\<open>datetime.timestamp()\<close>).\<close>

record LeaseSignal =
  sig_node :: string
  sig_seq :: int
  sig_score :: real
  sig_elevate :: bool
  sig_client_ts :: "real option"
  sig_server_ts :: "real option"
  sig_elevate_ts :: "real option"
  sig_run_id :: "string option"

record QuorumMetrics =
  witness_count :: int
  total_samples :: int
  mean_score :: real
  p95_score :: real
  window_start_ts :: real
  window_end_ts :: real
  confidence :: real

text \<open>The constructor of \<open>QuorumMetrics\<close> with its \<open>__post_init__\<close>.\<close>

definition QuorumMetrics_init ::
  "int \<Rightarrow> int \<Rightarrow> real \<Rightarrow> real \<Rightarrow> real \<Rightarrow> real \<Rightarrow> QuorumMetrics" where
  "QuorumMetrics_init wc ts ms p95 ws we =
     \<lparr>witness_count = wc, total_samples = ts, mean_score = ms, p95_score = p95,
      window_start_ts = ws, window_end_ts = we,
      confidence =
        (if wc > 0 \<and> ms > 0
         then (let witness_factor = min 1.0 (real_of_int wc / 3.0);
                   score_factor = min 1.0 (ms / 0.8)
               in witness_factor * score_factor)
         else 0.0)\<rparr>"

text \<open>The attributes of \<open>DualPathWatcher\<close> that the decision path reads and writes.\<close>

record watcher =
  namespace :: string
  window_s :: real
  quorum_threshold :: int
  node_score_threshold :: real
  fast_path_score :: real
  signals :: "LeaseSignal list"
  last_elevation :: real
  elevation_backoff :: real
  consecutive_elevations :: int
  elevated :: bool

text \<open>\<open>DualPathWatcher.__init__\<close> with its default arguments overridable.\<close>

definition DualPathWatcher_init :: "string \<Rightarrow> real \<Rightarrow> int \<Rightarrow> real \<Rightarrow> real \<Rightarrow> watcher" where
  "DualPathWatcher_init ns window_ms quorum nst fps =
     \<lparr>namespace = ns, window_s = window_ms / 1000.0, quorum_threshold = quorum,
      node_score_threshold = nst, fast_path_score = fps, signals = [],
      last_elevation = 0.0, elevation_backoff = 2.0, consecutive_elevations = 0,
      elevated = False\<rparr>"

definition DualPathWatcher_default :: watcher where
  "DualPathWatcher_default = DualPathWatcher_init ''aswarm'' 80 3 0.7 0.90"

text \<open>
  The filter loop of \<open>compute_sliding_window_quorum\<close>: signals without a server timestamp
  are skipped, a signal is kept when its timestamp is at or after the cutoff and the run id
  is not asked for or equal.
\<close>

definition window_signals ::
  "pylib \<Rightarrow> watcher \<Rightarrow> real \<Rightarrow> string option \<Rightarrow> LeaseSignal list" where
  "window_signals L w now rid =
     (let cutoff = float_sub L now (window_s w)
      in filter (\<lambda>s. case sig_server_ts s of
                        None \<Rightarrow> False
                      | Some signal_ts \<Rightarrow> signal_ts \<ge> cutoff \<and> (rid = None \<or> sig_run_id s = rid))
                (signals w))"

text \<open>
  \<open>int(0.95 * n)\<close> for a list length \<open>n\<close>. In double precision the product is rounded
  before it is truncated; for every \<open>n\<close> up to 5000 the result is \<open>95 n div 100\<close>
  (\<open>0.95 * 20\<close> is \<open>19.0\<close>), and the watcher never holds more than 1000 signals.
\<close>

definition p95_index :: "nat \<Rightarrow> nat" where
  "p95_index n = (95 * n) div 100"

text \<open>\<open>DualPathWatcher.compute_sliding_window_quorum\<close>; \<open>now\<close> is the wall clock.\<close>

definition compute_sliding_window_quorum ::
  "pylib \<Rightarrow> watcher \<Rightarrow> real \<Rightarrow> string option \<Rightarrow> QuorumMetrics option" where
  "compute_sliding_window_quorum L w now rid =
     (let cutoff = float_sub L now (window_s w);
          ws = window_signals L w now rid
      in if ws = [] then None
         else
           (let scores = map sig_score ws;
                witnesses = length (remdups (map sig_node ws))
            in Some (QuorumMetrics_init (int witnesses) (int (length ws))
                       (float_div L (float_sum L scores) (real (length scores)))
                       (sort scores ! p95_index (length scores))
                       cutoff now)))"


text \<open>
  The reason string returned by \<open>should_elevate\<close>, with the numbers it formats kept as
  arguments.
\<close>

datatype reason =
    NoMetrics
  | Backoff
  | AlreadyElevated
  | QuorumShort int int
  | FastPath int real
  | Hysteresis int real int
  | Building int
  | ResetHysteresis

text \<open>\<open>DualPathWatcher.should_elevate\<close>; \<open>now\<close> is \<open>time.perf_counter()\<close>.\<close>

definition should_elevate ::
  "watcher \<Rightarrow> QuorumMetrics option \<Rightarrow> real \<Rightarrow> (bool \<times> reason) \<times> watcher" where
  "should_elevate w metrics now =
     (case metrics of
        None \<Rightarrow> ((False, NoMetrics), w)
      | Some m \<Rightarrow>
          if now - last_elevation w < elevation_backoff w then ((False, Backoff), w)
          else if elevated w then ((False, AlreadyElevated), w)
          else if witness_count m < quorum_threshold w
          then ((False, QuorumShort (witness_count m) (quorum_threshold w)), w)
          else
            (let fast_path = (witness_count m \<ge> quorum_threshold w
                              \<and> p95_score m \<ge> fast_path_score w)
             in if fast_path
                then ((True, FastPath (witness_count m) (p95_score m)), w\<lparr>elevated := True\<rparr>)
                else
                  (let high_signal = (witness_count m \<ge> quorum_threshold w
                                      \<and> mean_score m \<ge> node_score_threshold w)
                   in if high_signal
                      then
                        (let w1 = w\<lparr>consecutive_elevations := consecutive_elevations w + 1\<rparr>
                         in if consecutive_elevations w1 \<ge> 2
                            then ((True, Hysteresis (witness_count m) (mean_score m)
                                           (consecutive_elevations w1)),
                                  w1\<lparr>elevated := True\<rparr>)
                            else ((False, Building (consecutive_elevations w1)), w1))
                      else ((False, ResetHysteresis), w\<lparr>consecutive_elevations := 0\<rparr>))))"

text \<open>
  Concrete signals, windows and metrics used to evaluate the definitions. The scores of
  the windows are multiples of \<open>1/4\<close>, on which the sum and the mean are exact in doubles.
\<close>

definition example_signal :: "string \<Rightarrow> real \<Rightarrow> real \<Rightarrow> LeaseSignal" where
  "example_signal n sc ts =
     \<lparr>sig_node = n, sig_seq = 1, sig_score = sc, sig_elevate = False, sig_client_ts = None,
      sig_server_ts = Some ts, sig_elevate_ts = None, sig_run_id = Some ''run-1''\<rparr>"




definition example_metrics :: "int \<Rightarrow> real \<Rightarrow> real \<Rightarrow> QuorumMetrics" where
  "example_metrics wc mean p95 = QuorumMetrics_init wc wc mean p95 0 1"

subsection \<open>Elevation artifacts (prototype/pheromone/gossip_v2.py)\<close>

text \<open>
  The reason string that \<open>should_elevate\<close> formats; scores are printed with \<open>:.3f\<close>.
\<close>

definition reason_str :: "pylib \<Rightarrow> reason \<Rightarrow> string" where
  "reason_str L r =
     (case r of
        NoMetrics \<Rightarrow> ''no_metrics''
      | Backoff \<Rightarrow> ''backoff''
      | AlreadyElevated \<Rightarrow> ''already_elevated''
      | QuorumShort wc thr \<Rightarrow> ''quorum('' @ str_int wc @ ''<'' @ str_int thr @ '')''
      | FastPath wc p \<Rightarrow> ''fast_path(w='' @ str_int wc @ '',p95='' @ format_3f L p @ '')''
      | Hysteresis wc s c \<Rightarrow>
          ''hysteresis(w='' @ str_int wc @ '',s='' @ format_3f L s @ '',consec=''
            @ str_int c @ '')''
      | Building c \<Rightarrow> ''building('' @ str_int c @ ''/2)''
      | ResetHysteresis \<Rightarrow> ''reset_hysteresis'')"

text \<open>
  \<open>V1ConfigMap\<close> with the metadata the code sets. The value of a data field is the
  document handed to \<open>json.dumps(..., indent=2)\<close>; the serialisation itself is not
  modelled. A label or a field whose Python value is \<open>None\<close> is \<open>JNull\<close>.
\<close>

record V1ConfigMap =
  cm_name :: string
  cm_namespace :: string
  cm_labels :: "(string \<times> json) list"
  cm_data :: "(string \<times> json) list"

text \<open>The two calls of \<open>CoreV1Api\<close> that write a config map.\<close>

datatype api_call =
    create_namespaced_config_map string V1ConfigMap
  | patch_namespaced_config_map string string V1ConfigMap

text \<open>
  What a call can raise: the client's \<open>ApiException\<close> with its HTTP status, or any other
  exception. \<open>str\<close> of an \<open>ApiException\<close> starts with the status in parentheses,
  followed by the reason, headers and body, here one string.
\<close>

datatype api_exn = ApiException int string | OtherException string

fun exn_str :: "api_exn \<Rightarrow> string" where
  "exn_str (ApiException status rest) = ''('' @ str_int status @ '')'' @ rest"
| "exn_str (OtherException msg) = msg"

text \<open>
  What running a piece of code did to the outside: the API calls it made, the error lines
  it printed or logged, and the exception that left it uncaught, if any.
\<close>

record io_trace =
  io_calls :: "api_call list"
  io_errors :: "string list"
  io_uncaught :: "api_exn option"

text \<open>
  The name and the \<open>V1ConfigMap\<close> that \<open>create_elevation_artifact_bg\<close> builds.
\<close>

definition elevation_config_map ::
  "watcher \<Rightarrow> QuorumMetrics \<Rightarrow> string option \<Rightarrow> string \<Rightarrow> string \<Rightarrow> V1ConfigMap" where
  "elevation_config_map w metrics run_id decision_ts_server reason =
     (let run_id_value = (case run_id of None \<Rightarrow> JNull | Some r \<Rightarrow> JStr r);
          cm_name = (case run_id of
                       None \<Rightarrow> ''aswarm-elevated''
                     | Some r \<Rightarrow> if r \<noteq> [] then ''aswarm-elevated-'' @ r else ''aswarm-elevated'');
          elevation_data =
            [(''run_id'', run_id_value),
             (''decision_ts_server'', JStr decision_ts_server),
             (''witness_count'', JInt (witness_count metrics)),
             (''mean_score'', JFloat (mean_score metrics)),
             (''p95_score'', JFloat (p95_score metrics)),
             (''threshold'', JInt (quorum_threshold w)),
             (''window_ms'', JInt (int_of_float (window_s w * 1000))),
             (''reason'', JStr reason)]
      in \<lparr>cm_name = cm_name, cm_namespace = namespace w,
          cm_labels = [(''type'', JStr ''elevation''),
                       (''aswarm.ai/component'', JStr ''pheromone''),
                       (''aswarm.ai/run-id'', run_id_value)],
          cm_data = [(''elevation.json'', JObj elevation_data)]\<rparr>)"

text \<open>
  \<open>DualPathWatcher.create_elevation_artifact_bg\<close>. The control plane is the function
  \<open>api\<close>, which answers a call with \<open>None\<close> or with the exception it raises. Any
  exception is caught; one whose text contains \<open>409\<close> is passed over in silence.
\<close>

definition create_elevation_artifact_bg ::
  "watcher \<Rightarrow> QuorumMetrics \<Rightarrow> string option \<Rightarrow> string \<Rightarrow> string
     \<Rightarrow> (api_call \<Rightarrow> api_exn option) \<Rightarrow> io_trace" where
  "create_elevation_artifact_bg w metrics run_id decision_ts_server reason api =
     (let cm = elevation_config_map w metrics run_id decision_ts_server reason;
          call = create_namespaced_config_map (namespace w) cm
      in case api call of
           None \<Rightarrow> \<lparr>io_calls = [call], io_errors = [], io_uncaught = None\<rparr>
         | Some e \<Rightarrow>
             if str_contains ''409'' (exn_str e)
             then \<lparr>io_calls = [call], io_errors = [], io_uncaught = None\<rparr>
             else \<lparr>io_calls = [call],
                   io_errors = [''Background artifact creation error: '' @ exn_str e],
                   io_uncaught = None\<rparr>)"

text \<open>
  The name and the \<open>V1ConfigMap\<close> that \<open>create_fastpath_elevation_artifact\<close> builds;
  \<open>elevation_event\<close> is the dictionary built by \<open>handle_fastpath_signal\<close>.
\<close>

definition fastpath_config_map :: "pylib \<Rightarrow> watcher \<Rightarrow> (string \<times> json) list \<Rightarrow> V1ConfigMap" where
  "fastpath_config_map L w elevation_event =
     (let run_id = (case map_of elevation_event ''run_id'' of None \<Rightarrow> JStr [] | Some v \<Rightarrow> v);
          cm_name = (if jtruthy run_id then ''aswarm-elevated-fastpath-'' @ jstr L run_id
                     else ''aswarm-elevated-fastpath'')
      in \<lparr>cm_name = cm_name, cm_namespace = namespace w,
          cm_labels = [(''type'', JStr ''elevation''),
                       (''aswarm.ai/component'', JStr ''pheromone''),
                       (''aswarm.ai/source'', JStr ''fastpath''),
                       (''aswarm.ai/run-id'', run_id)],
          cm_data = [(''elevation.json'', JObj elevation_event)]\<rparr>)"

text \<open>
  \<open>DualPathWatcher.create_fastpath_elevation_artifact\<close>. Only \<open>ApiException\<close> is
  caught: status 409 is passed over in silence, any other status is logged.
\<close>

definition create_fastpath_elevation_artifact ::
  "pylib \<Rightarrow> watcher \<Rightarrow> (string \<times> json) list \<Rightarrow> (api_call \<Rightarrow> api_exn option) \<Rightarrow> io_trace" where
  "create_fastpath_elevation_artifact L w elevation_event api =
     (let cm = fastpath_config_map L w elevation_event;
          call = create_namespaced_config_map (namespace w) cm
      in case api call of
           None \<Rightarrow> \<lparr>io_calls = [call], io_errors = [], io_uncaught = None\<rparr>
         | Some (ApiException status rest) \<Rightarrow>
             if status = 409
             then \<lparr>io_calls = [call], io_errors = [], io_uncaught = None\<rparr>
             else \<lparr>io_calls = [call],
                   io_errors = [''Failed to create fast-path artifact: ''
                                  @ exn_str (ApiException status rest)],
                   io_uncaught = None\<rparr>
         | Some (OtherException msg) \<Rightarrow>
             \<lparr>io_calls = [call], io_errors = [], io_uncaught = Some (OtherException msg)\<rparr>)"

text \<open>The trace of code that did nothing, and of a handler that logged one error.\<close>

definition io_none :: io_trace where
  "io_none = \<lparr>io_calls = [], io_errors = [], io_uncaught = None\<rparr>"

definition io_error :: "string \<Rightarrow> io_trace" where
  "io_error msg = \<lparr>io_calls = [], io_errors = [msg], io_uncaught = None\<rparr>"

text \<open>
  The dictionary \<open>elevation_event\<close> that \<open>handle_fastpath_signal\<close> builds from the
  decoded payload, its \<open>anomaly\<close> entry and the score; the entries are evaluated in the
  order of the dictionary display, and the first failing \<open>get\<close> raises.
\<close>

definition fastpath_elevation_event ::
  "json \<Rightarrow> json \<Rightarrow> json \<Rightarrow> string \<Rightarrow> py_exn + (string \<times> json) list" where
  "fastpath_elevation_event elevation_data anomaly score decision_ts =
     (case jget elevation_data ''node_id'' (JStr ''unknown'') of
        Inl e \<Rightarrow> Inl e
      | Inr node \<Rightarrow>
     (case jget anomaly ''witness_count'' (JInt 1) of
        Inl e \<Rightarrow> Inl e
      | Inr wc \<Rightarrow>
     (case jget anomaly ''selector'' (JStr []) of
        Inl e \<Rightarrow> Inl e
      | Inr selector \<Rightarrow>
     (case jget anomaly ''event_type'' (JStr ''fastpath'') of
        Inl e \<Rightarrow> Inl e
      | Inr event_type \<Rightarrow>
     (case jget elevation_data ''_fastpath'' (JObj []) of
        Inl e \<Rightarrow> Inl e
      | Inr fp \<Rightarrow>
     (case jget fp ''approx_age_ms'' (JInt 0) of
        Inl e \<Rightarrow> Inl e
      | Inr latency_ms \<Rightarrow>
     (case jget elevation_data ''run_id'' (JStr []) of
        Inl e \<Rightarrow> Inl e
      | Inr run_id \<Rightarrow>
          Inr [(''elevation'', JBool True),
               (''decision_ts_server'', JStr decision_ts),
               (''source'', JStr ''fastpath''),
               (''node'', node),
               (''score'', score),
               (''witness_count'', wc),
               (''selector'', selector),
               (''event_type'', event_type),
               (''latency_ms'', latency_ms),
               (''run_id'', run_id)])))))))"

text \<open>
  \<open>DualPathWatcher.handle_fastpath_signal\<close>. \<open>now_iso\<close> is
  \<open>datetime.now(timezone.utc).isoformat()\<close>, \<open>perf\<close> is \<open>time.perf_counter()\<close>. The
  artifact is written by a thread started here; its trace is returned with the new state.
  Every exception raised in the body is caught and logged.
\<close>

definition handle_fastpath_signal ::
  "pylib \<Rightarrow> watcher \<Rightarrow> json \<Rightarrow> string \<Rightarrow> real \<Rightarrow> (api_call \<Rightarrow> api_exn option)
     \<Rightarrow> watcher \<times> io_trace" where
  "handle_fastpath_signal L w elevation_data now_iso perf api =
     (case jget elevation_data ''anomaly'' (JObj []) of
        Inl e \<Rightarrow> (w, io_error ''Fast-path handler error'')
      | Inr anomaly \<Rightarrow>
     (case jget anomaly ''score'' (JInt 0) of
        Inl e \<Rightarrow> (w, io_error ''Fast-path handler error'')
      | Inr score \<Rightarrow>
     (case jnum score of
        None \<Rightarrow> (w, io_error ''Fast-path handler error'')
      | Some score_value \<Rightarrow>
          if score_value < fast_path_score w then (w, io_none)
          else
            (case fastpath_elevation_event elevation_data anomaly score now_iso of
               Inl e \<Rightarrow> (w, io_error ''Fast-path handler error'')
             | Inr elevation_event \<Rightarrow>
                 (w\<lparr>last_elevation := perf, elevated := True\<rparr>,
                  create_fastpath_elevation_artifact L w elevation_event api)))))"

text \<open>
  The body of the watch loop of \<open>watch_leases\<close> for one parsed signal: the signal is
  appended (the list is cut to its last 500 entries once it exceeds 1000), the quorum is
  computed and, when \<open>should_elevate\<close> grants, the artifact is written by a thread.
  \<open>wall\<close> is the wall clock, \<open>perf\<close> and \<open>perf'\<close> are the two readings of
  \<open>time.perf_counter()\<close>.
\<close>

definition on_lease_signal ::
  "pylib \<Rightarrow> watcher \<Rightarrow> LeaseSignal \<Rightarrow> string option \<Rightarrow> real \<Rightarrow> string \<Rightarrow> real \<Rightarrow> real
     \<Rightarrow> (api_call \<Rightarrow> api_exn option) \<Rightarrow> watcher \<times> io_trace" where
  "on_lease_signal L w signal run_id wall now_iso perf perf' api =
     (let sigs = signals w @ [signal];
          sigs' = (if length sigs > 1000 then drop (length sigs - 500) sigs else sigs);
          w1 = w\<lparr>signals := sigs'\<rparr>
      in case compute_sliding_window_quorum L w1 wall run_id of
           None \<Rightarrow> (w1, io_none)
         | Some metrics \<Rightarrow>
             (case should_elevate w1 (Some metrics) perf of
                ((True, reason), w2) \<Rightarrow>
                  (w2\<lparr>last_elevation := perf'\<rparr>,
                   create_elevation_artifact_bg w2 metrics run_id now_iso (reason_str L reason) api)
              | ((False, reason), w2) \<Rightarrow> (w2, io_none)))"

text \<open>The config maps a trace created, and the keys of the \<open>elevation.json\<close> document.\<close>

fun created_maps :: "api_call list \<Rightarrow> V1ConfigMap list" where
  "created_maps [] = []"
| "created_maps (create_namespaced_config_map ns cm # cs) = cm # created_maps cs"
| "created_maps (patch_namespaced_config_map ns n cm # cs) = created_maps cs"

fun is_create :: "api_call \<Rightarrow> bool" where
  "is_create (create_namespaced_config_map ns cm) = True"
| "is_create (patch_namespaced_config_map ns n cm) = False"

definition elevation_json_keys :: "V1ConfigMap \<Rightarrow> string list" where
  "elevation_json_keys cm =
     (case map_of (cm_data cm) ''elevation.json'' of
        Some (JObj kvs) \<Rightarrow> map fst kvs
      | _ \<Rightarrow> [])"

text \<open>
  Stand-ins for the library functions, used only to evaluate at concrete inputs. The
  arithmetic is exact, which is what doubles give on the inputs used with it (integers
  below \<open>2^53\<close> and sums and quotients that are multiples of \<open>1/4\<close>); \<open>float(i)\<close>
  overflows from \<open>2^1024 - 2^970\<close> on.
\<close>

definition example_lib :: pylib where
  "example_lib =
     \<lparr>float_repr = (\<lambda>r. ''<float>''),
      format_3f = (\<lambda>r. ''<float>''),
      hmac_sha256 = (\<lambda>key msg. replicate 32 0),
      sha256 = (\<lambda>msg. take 32 (msg @ replicate 32 0)),
      json_loads = (\<lambda>bs. Inl JSONDecodeError),
      fromisoformat = (\<lambda>s. Inl ValueError),
      float_add = (\<lambda>x y. x + y),
      float_sub = (\<lambda>x y. x - y),
      float_mul = (\<lambda>x y. x * y),
      float_div = (\<lambda>x y. x / y),
      float_of_int = (\<lambda>i. if \<bar>i\<bar> < 2 ^ 1024 - 2 ^ 970 then Some (real_of_int i) else None)\<rparr>"

definition example_fastpath_payload :: json where
  "example_fastpath_payload =
     JObj [(''node_id'', JStr ''node-a''),
           (''anomaly'', JObj [(''score'', JFloat 0.95), (''witness_count'', JInt 4),
                              (''selector'', JStr ''app=web'')]),
           (''run_id'', JStr ''run-1'')]"

definition example_watcher1 :: watcher where
  "example_watcher1 = DualPathWatcher_init ''aswarm'' 80 1 0.7 0.90"

definition example_api_conflict :: "api_call \<Rightarrow> api_exn option" where
  "example_api_conflict c = Some (ApiException 409 ''Conflict'')"

definition example_api_ok :: "api_call \<Rightarrow> api_exn option" where
  "example_api_ok c = None"

subsection \<open>Fast-path packets (prototype/sentinel/fast_path_v4.py)\<close>

text \<open>
  \<open>struct.pack\<close> of one unsigned field in network byte order: \<open>pack_be k v\<close> is the
  \<open>k\<close> bytes of \<open>v\<close>, most significant first; \<open>pack_field\<close> raises \<open>struct.error\<close>
  when the value does not fit, as the format codes \<open>B\<close>, \<open>H\<close>, \<open>L\<close>, \<open>Q\<close>
  (1, 2, 4, 8 bytes) do. \<open>unpack_be\<close> reads such a field back.
\<close>

fun pack_be :: "nat \<Rightarrow> int \<Rightarrow> byte list" where
  "pack_be 0 v = []"
| "pack_be (Suc k) v = pack_be k (v div 256) @ [word_of_int v]"

definition pack_field :: "nat \<Rightarrow> int \<Rightarrow> py_exn + byte list" where
  "pack_field k v = (if 0 \<le> v \<and> v < 256 ^ k then Inr (pack_be k v) else Inl StructError)"

definition unpack_be :: "byte list \<Rightarrow> int" where
  "unpack_be bs = foldl (\<lambda>acc b. acc * 256 + uint b) 0 bs"

text \<open>The \<open>n\<close> bytes at offset \<open>off\<close>: the slice \<open>bs[off:off + n]\<close>.\<close>

definition field :: "nat \<Rightarrow> nat \<Rightarrow> byte list \<Rightarrow> byte list" where
  "field off n bs = take n (drop off bs)"

text \<open>The protocol constants of both files.\<close>

definition MAGIC :: "byte list" where
  "MAGIC = [0x41, 0x53, 0x57, 0x4D]"

definition V2 :: int where "V2 = 2"
definition V3 :: int where "V3 = 3"
definition TYPE_ELEVATION :: int where "TYPE_ELEVATION = 1"
definition HMAC_SIZE :: nat where "HMAC_SIZE = 32"
definition MAX_PACKET_SIZE :: nat where "MAX_PACKET_SIZE = 1200"

text \<open>\<open>struct.calcsize\<close> of \<open>'!4sBBQLHLHB'\<close> and of \<open>'!4sBBQHHB'\<close>.\<close>

definition V3_HEADER_SIZE :: nat where "V3_HEADER_SIZE = 4 + 1 + 1 + 8 + 4 + 2 + 4 + 2 + 1"
definition V2_HEADER_SIZE :: nat where "V2_HEADER_SIZE = 4 + 1 + 1 + 8 + 2 + 2 + 1"

text \<open>The attributes of \<open>FastPathSender\<close> that building a packet reads and writes.\<close>

record sender =
  snd_key_id :: int
  snd_protocol_version :: int
  snd_sequence :: int
  snd_src_id :: int
  snd_hmac_key :: "byte list"

definition header_size :: "sender \<Rightarrow> nat" where
  "header_size s = (if snd_protocol_version s = V3 then V3_HEADER_SIZE else V2_HEADER_SIZE)"

definition payload_budget :: "sender \<Rightarrow> int" where
  "payload_budget s = int MAX_PACKET_SIZE - int (header_size s) - int HMAC_SIZE"

text \<open>\<open>secrets.randbits(32)\<close> as a function of a raw draw.\<close>

definition randbits32 :: "nat \<Rightarrow> int" where
  "randbits32 r = int (r mod 2 ^ 32)"

text \<open>
  The nonce computed by \<open>_build_packet\<close>: \<open>seq32\<close> is \<open>self.sequence - 1\<close>, read after
  \<open>send_elevation\<close> has incremented the counter.
\<close>

definition nonce32 :: "sender \<Rightarrow> int \<Rightarrow> nat \<Rightarrow> int" where
  "nonce32 s seq16 r = (let seq32 = snd_sequence s - 1
                        in randbits32 r XOR (seq16 OR push_bit 16 seq32))"

text \<open>
  Packing a list of fields: the first field that does not fit raises.
\<close>

fun pack_fields :: "(nat \<times> int) list \<Rightarrow> py_exn + byte list" where
  "pack_fields [] = Inr []"
| "pack_fields ((k, v) # fs) =
     (case pack_field k v of
        Inl e \<Rightarrow> Inl e
      | Inr bs \<Rightarrow> (case pack_fields fs of Inl e \<Rightarrow> Inl e | Inr rest \<Rightarrow> Inr (bs @ rest)))"

text \<open>
  \<open>FastPathSender._build_packet\<close>. \<open>ts\<close> is the clock reading the branch uses
  (\<open>int(time.time() * 1000)\<close> for version 3, nanoseconds for version 2), \<open>r\<close> the raw random
  draw.
\<close>

definition build_packet ::
  "pylib \<Rightarrow> sender \<Rightarrow> int \<Rightarrow> byte list \<Rightarrow> int \<Rightarrow> nat \<Rightarrow> py_exn + byte list" where
  "build_packet L s seq16 payload ts r =
     (let fields =
            (if snd_protocol_version s = V3
             then [(1, V3), (1, TYPE_ELEVATION), (8, ts), (4, snd_src_id s), (2, seq16),
                   (4, nonce32 s seq16 r), (2, int (length payload)), (1, snd_key_id s)]
             else [(1, V2), (1, TYPE_ELEVATION), (8, ts), (2, seq16),
                   (2, int (length payload)), (1, snd_key_id s)])
      in case pack_fields fields of
           Inl e \<Rightarrow> Inl e
         | Inr packed \<Rightarrow>
             (let packet_data = (MAGIC @ packed) @ payload;
                  packet_hmac = hmac_sha256 L (snd_hmac_key s) packet_data
              in Inr (packet_data @ packet_hmac)))"

text \<open>
  \<open>FastPathSender.send_elevation\<close> up to the packet handed to the socket. The sequence
  counter is read and incremented first. \<open>payload\<close> is the compact JSON encoding that the
  body arrives at; the body raises \<open>ValueError\<close> when the base payload exceeds the budget
  and otherwise only accepts optional fields that keep the encoding within it, so the check
  is made on \<open>payload\<close>. The new state is returned also when the call raises.
\<close>

definition send_elevation ::
  "pylib \<Rightarrow> sender \<Rightarrow> byte list \<Rightarrow> int \<Rightarrow> nat \<Rightarrow> (py_exn + byte list) \<times> sender" where
  "send_elevation L s payload ts r =
     (let seq16 = snd_sequence s AND 0xFFFF;
          s' = s\<lparr>snd_sequence := snd_sequence s + 1\<rparr>
      in if int (length payload) > payload_budget s' then (Inl ValueError, s')
         else (build_packet L s' seq16 payload ts r, s'))"

text \<open>Successive calls of \<open>send_elevation\<close>, each with its payload, clock and draw.\<close>

fun send_all ::
  "pylib \<Rightarrow> sender \<Rightarrow> (byte list \<times> int \<times> nat) list \<Rightarrow> (py_exn + byte list) list" where
  "send_all L s [] = []"
| "send_all L s ((payload, ts, r) # rest) =
     (let (res, s') = send_elevation L s payload ts r in res # send_all L s' rest)"

text \<open>
  A concrete sender, and the UTF-8 bytes of the JSON text \<open>{"wall_ts":1}\<close>.
\<close>

definition example_sender :: sender where
  "example_sender =
     \<lparr>snd_key_id = 1, snd_protocol_version = 3, snd_sequence = 5, snd_src_id = 0x0A0B0C0D,
      snd_hmac_key = [0x6B, 0x65, 0x79]\<rparr>"

definition example_payload :: "byte list" where
  "example_payload =
     [0x7B, 0x22, 0x77, 0x61, 0x6C, 0x6C, 0x5F, 0x74, 0x73, 0x22, 0x3A, 0x31, 0x7D]"

subsection \<open>Fast-path listener (prototype/pheromone/udp_listener_v4.py)\<close>

definition HEADER_SIZE :: nat where "HEADER_SIZE = 4 + 1 + 1 + 8 + 4 + 2 + 4 + 2 + 1"
definition MAX_PAYLOAD :: nat where "MAX_PAYLOAD = 1200 - HEADER_SIZE - HMAC_SIZE"
definition VERSION :: int where "VERSION = 3"

text \<open>The keys of \<open>Stats.counters\<close>.\<close>

datatype counter =
    Received | Valid | Invalid_magic | Invalid_version | Invalid_type | Invalid_key
  | Invalid_hmac | Invalid_json | Replays | Stale | Dropped_queue_full | Dropped_oldest
  | Rate_limited

record Stats =
  counters :: "counter \<Rightarrow> nat"
  window_received :: nat
  window_dropped :: nat

text \<open>\<open>Stats.increment\<close>.\<close>

definition increment :: "counter \<Rightarrow> nat \<Rightarrow> Stats \<Rightarrow> Stats" where
  "increment c n st =
     (let st1 = st\<lparr>counters := (counters st)(c := counters st c + n)\<rparr>
      in if c = Received then st1\<lparr>window_received := window_received st1 + n\<rparr>
         else if c \<in> {Dropped_queue_full, Dropped_oldest, Rate_limited}
         then st1\<lparr>window_dropped := window_dropped st1 + n\<rparr>
         else st1)"

text \<open>The counters that the specification calls terminal: all but \<open>received\<close>.\<close>

definition terminal_counters :: "counter list" where
  "terminal_counters =
     [Valid, Invalid_magic, Invalid_version, Invalid_type, Invalid_key, Invalid_hmac,
      Invalid_json, Replays, Stale, Dropped_queue_full, Dropped_oldest, Rate_limited]"

datatype SystemMode = NORMAL | DEGRADED | OVERLOAD

record RingBufferEntry =
  entry_data :: "byte list"
  entry_addr :: "string \<times> int"
  entry_recv_time :: real

text \<open>\<open>RingBuffer\<close>: a \<open>deque\<close> with \<open>maxlen = capacity\<close>, which drops from the left.\<close>

record RingBuffer =
  capacity :: nat
  buffer :: "RingBufferEntry list"
  dropped_count :: nat

definition push :: "RingBufferEntry \<Rightarrow> RingBuffer \<Rightarrow> bool \<times> RingBuffer" where
  "push entry rb =
     (let was_full = (length (buffer rb) \<ge> capacity rb);
          rb1 = (if was_full then rb\<lparr>dropped_count := dropped_count rb + 1\<rparr> else rb);
          appended = buffer rb1 @ [entry]
      in (\<not> was_full, rb1\<lparr>buffer := drop (length appended - capacity rb) appended\<rparr>))"

text \<open>
  The attributes of \<open>FastPathListener\<close> that receiving and processing a datagram read
  and write. A network of \<open>allowed_networks\<close> is the set of addresses it contains.
\<close>

record listener =
  lsn_stats :: Stats
  lsn_hmac_keys :: "int \<rightharpoonup> byte list"
  lsn_stale_window_sec :: real
  lsn_src_sequences :: "int \<rightharpoonup> (int \<times> int fset)"
  lsn_replay_cache :: "(byte list) fset"
  lsn_replay_expire :: "(byte list \<times> real) list"
  lsn_allowed_networks :: "(string \<Rightarrow> bool) list"
  lsn_rate_capacity :: real
  lsn_rate_fill_per_sec :: real
  lsn_buckets :: "string \<rightharpoonup> (real \<times> real)"
  lsn_ring_buffer :: RingBuffer
  lsn_system_mode :: SystemMode
  lsn_sample_divisor :: int

text \<open>\<open>FastPathListener._allow_ip\<close>; \<open>now\<close> is \<open>time.time()\<close>.\<close>

definition allow_ip :: "real \<Rightarrow> string \<Rightarrow> listener \<Rightarrow> bool \<times> listener" where
  "allow_ip now ip l =
     (let (tokens, last) = (case lsn_buckets l ip of
                              None \<Rightarrow> (lsn_rate_capacity l, now)
                            | Some b \<Rightarrow> b);
          delta = max 0.0 (now - last);
          tokens1 = min (lsn_rate_capacity l) (tokens + delta * lsn_rate_fill_per_sec l)
      in if tokens1 < 1.0
         then (False, l\<lparr>lsn_stats := increment Rate_limited 1 (lsn_stats l),
                          lsn_buckets := (lsn_buckets l)(ip \<mapsto> (tokens1, now))\<rparr>)
         else (True, l\<lparr>lsn_buckets := (lsn_buckets l)(ip \<mapsto> (tokens1 - 1.0, now))\<rparr>))"

text \<open>
  One iteration of \<open>_receive_loop\<close> for a datagram that \<open>recvfrom\<close> returned: the
  result tells whether the datagram was put on the ring buffer.
\<close>

definition receive_datagram ::
  "real \<Rightarrow> byte list \<Rightarrow> string \<times> int \<Rightarrow> listener \<Rightarrow> bool \<times> listener" where
  "receive_datagram now data addr l =
     (let l1 = l\<lparr>lsn_stats := increment Received 1 (lsn_stats l)\<rparr>;
          src_ip = fst addr
      in if lsn_allowed_networks l1 \<noteq> [] \<and> \<not> (\<exists>net \<in> set (lsn_allowed_networks l1). net src_ip)
         then (False, l1)
         else
           (case allow_ip now src_ip l1 of
              (False, l2) \<Rightarrow> (False, l2)
            | (True, l2) \<Rightarrow>
                (let entry = \<lparr>entry_data = data, entry_addr = addr, entry_recv_time = now\<rparr>;
                     (added, rb) = push entry (lsn_ring_buffer l2)
                 in (True, l2\<lparr>lsn_ring_buffer := rb\<rparr>))))"

text \<open>
  The per-source replay check of \<open>_process_packet\<close> (the block under \<open>seq_lock\<close>):
  \<open>None\<close> when the sequence is counted as a replay, otherwise the updated table.
\<close>

definition check_sequence ::
  "(int \<rightharpoonup> (int \<times> int fset)) \<Rightarrow> int \<Rightarrow> int \<Rightarrow> (int \<rightharpoonup> (int \<times> int fset)) option" where
  "check_sequence seqs src_id seq16 =
     (let (highest_seq, seen_seqs) = (case seqs src_id of None \<Rightarrow> (0, {||}) | Some p \<Rightarrow> p)
      in if seq16 \<le> highest_seq - 256 then None
         else if seq16 |\<in>| seen_seqs then None
         else
           (let highest1 = (if seq16 > highest_seq then seq16 else highest_seq);
                seen1 = finsert seq16 seen_seqs;
                seen2 = (if fcard seen1 > 256
                         then (let min_keep = highest1 - 255 in ffilter (\<lambda>s. s \<ge> min_keep) seen1)
                         else seen1)
            in Some (seqs(src_id \<mapsto> (highest1, seen2)))))"

text \<open>\<open>f"{x:08x}"\<close>: lower-case hexadecimal, padded with zeros to eight digits.\<close>

fun hex_nat :: "nat \<Rightarrow> string" where
  "hex_nat n =
     (if n < 16 then [''0123456789abcdef'' ! n]
      else hex_nat (n div 16) @ [''0123456789abcdef'' ! (n mod 16)])"

declare hex_nat.simps [simp del]

definition hex08 :: "int \<Rightarrow> string" where
  "hex08 x = (let h = hex_nat (nat x) in replicate (8 - length h) CHR ''0'' @ h)"

text \<open>\<open>s.replace('Z', '+00:00')\<close>.\<close>

definition replace_Z :: "string \<Rightarrow> string" where
  "replace_Z s = concat (map (\<lambda>c. if c = CHR ''Z'' then ''+00:00'' else [c]) s)"

text \<open>
  The secondary staleness check of \<open>_process_packet\<close> on the decoded \<open>wall_ts\<close>: whether
  the packet is counted as stale. A string is parsed as an ISO date, any other value is
  converted by \<open>float\<close>. The \<open>except\<close> clause passes over \<open>ValueError\<close> and
  \<open>TypeError\<close> only: any other exception of the conversion, such as the \<open>OverflowError\<close>
  of an integer beyond the range of a double, leaves the function.
\<close>

definition wall_ts_stale :: "pylib \<Rightarrow> real \<Rightarrow> real \<Rightarrow> json \<Rightarrow> py_exn + bool" where
  "wall_ts_stale L now stale_window_sec wall_ts =
     (if jtruthy wall_ts
      then (case (case wall_ts of JStr s \<Rightarrow> fromisoformat L (replace_Z s) | v \<Rightarrow> to_float L v) of
              Inl e \<Rightarrow> (if e = ValueError \<or> e = TypeError then Inr False else Inl e)
            | Inr wall_epoch \<Rightarrow>
                (let approx_age_ms = max 0 (float_mul L (float_sub L now wall_epoch) 1000)
                 in Inr (approx_age_ms > stale_window_sec * 1000)))
      else Inr False)"

text \<open>
  What \<open>_process_packet\<close> did with a datagram: returned without touching a counter,
  incremented a rejection counter, raised, or incremented \<open>valid\<close> and invoked the
  elevation callback with the decoded payload and the address.
\<close>

datatype outcome =
    Silent
  | Counted counter
  | Raised py_exn
  | Delivered json "string \<times> int"

text \<open>
  The tuple that \<open>struct.unpack(HEADER_FMT, header)\<close> returns: the fields of the format
  \<open>'!4sBBQLHLHB'\<close> at their offsets in the first \<open>HEADER_SIZE\<close> bytes. It cannot
  raise, since the datagram is known to be long enough.
\<close>

record header =
  hdr_magic :: "byte list"
  hdr_version :: int
  hdr_pkt_type :: int
  hdr_ts_unix_ms :: int
  hdr_src_id :: int
  hdr_seq16 :: int
  hdr_nonce32 :: int
  hdr_payload_len :: int
  hdr_key_id :: int

definition unpack_header :: "byte list \<Rightarrow> header" where
  "unpack_header data =
     (let hd_bytes = take HEADER_SIZE data
      in \<lparr>hdr_magic = field 0 4 hd_bytes,
          hdr_version = unpack_be (field 4 1 hd_bytes),
          hdr_pkt_type = unpack_be (field 5 1 hd_bytes),
          hdr_ts_unix_ms = unpack_be (field 6 8 hd_bytes),
          hdr_src_id = unpack_be (field 14 4 hd_bytes),
          hdr_seq16 = unpack_be (field 18 2 hd_bytes),
          hdr_nonce32 = unpack_be (field 20 4 hd_bytes),
          hdr_payload_len = unpack_be (field 24 2 hd_bytes),
          hdr_key_id = unpack_be (field 26 1 hd_bytes)\<rparr>)"

text \<open>
  \<open>FastPathListener._process_packet\<close> is one function; it is cut here into three at its
  own comments. This is its last part, from \<open># Parse JSON payload\<close> on: decoding, the
  secondary staleness check on \<open>wall_ts\<close>, and the delivery to the callback with the
  transport metadata attached. The \<open>except\<close> clause of the decoding catches
  \<open>JSONDecodeError\<close> and \<open>UnicodeDecodeError\<close> only. A decoded payload that is not a
  dictionary has no \<open>get\<close>.
  The three readings of \<open>time.time()\<close> within one call are the one value \<open>now\<close>.
\<close>

definition deliver_payload ::
  "pylib \<Rightarrow> real \<Rightarrow> string \<times> int \<Rightarrow> header \<Rightarrow> int \<Rightarrow> byte list \<Rightarrow> listener
     \<Rightarrow> outcome \<times> listener" where
  "deliver_payload L now addr h age_ms payload l =
     (case json_loads L payload of
        Inl e \<Rightarrow>
          (if e = JSONDecodeError \<or> e = UnicodeDecodeError
           then (Counted Invalid_json, l\<lparr>lsn_stats := increment Invalid_json 1 (lsn_stats l)\<rparr>)
           else (Raised e, l))
      | Inr payload_data \<Rightarrow>
          (case payload_data of
             JObj kvs \<Rightarrow>
               (let wall_ts = (case map_of kvs ''wall_ts'' of None \<Rightarrow> JNull | Some v \<Rightarrow> v)
                in case wall_ts_stale L now (lsn_stale_window_sec l) wall_ts of
                     Inl e \<Rightarrow> (Raised e, l)
                   | Inr True \<Rightarrow>
                       (Counted Stale, l\<lparr>lsn_stats := increment Stale 1 (lsn_stats l)\<rparr>)
                   | Inr False \<Rightarrow>
                     (Delivered
                        (JObj (dict_set kvs ''_fastpath''
                           (JObj [(''source_ip'', JStr (fst addr)),
                                  (''source_port'', JInt (snd addr)),
                                  (''src_id'', JStr (hex08 (hdr_src_id h))),
                                  (''seq16'', JInt (hdr_seq16 h)),
                                  (''nonce32'', JStr (hex08 (hdr_nonce32 h))),
                                  (''key_id'', JInt (hdr_key_id h)),
                                  (''ts_unix_ms'', JInt (hdr_ts_unix_ms h)),
                                  (''age_ms'', JInt age_ms)])))
                        addr,
                      l\<lparr>lsn_stats := increment Valid 1 (lsn_stats l)\<rparr>))
           | _ \<Rightarrow> (Raised AttributeError, l)))"

text \<open>
  The middle part of \<open>_process_packet\<close>: the per-source sequence check and the
  packet-hash check against the replay cache.
\<close>

definition check_replay ::
  "pylib \<Rightarrow> real \<Rightarrow> byte list \<Rightarrow> string \<times> int \<Rightarrow> header \<Rightarrow> int \<Rightarrow> byte list \<Rightarrow> listener
     \<Rightarrow> outcome \<times> listener" where
  "check_replay L now data addr h age_ms payload l =
     (case check_sequence (lsn_src_sequences l) (hdr_src_id h) (hdr_seq16 h) of
        None \<Rightarrow> (Counted Replays, l\<lparr>lsn_stats := increment Replays 1 (lsn_stats l)\<rparr>)
      | Some seqs \<Rightarrow>
          (let l1 = l\<lparr>lsn_src_sequences := seqs\<rparr>;
               packet_hash = take 16 (sha256 L data)
           in if packet_hash |\<in>| lsn_replay_cache l1
              then (Counted Replays, l1\<lparr>lsn_stats := increment Replays 1 (lsn_stats l1)\<rparr>)
              else
                deliver_payload L now addr h age_ms payload
                  (l1\<lparr>lsn_replay_cache := finsert packet_hash (lsn_replay_cache l1),
                      lsn_replay_expire :=
                        lsn_replay_expire l1 @ [(packet_hash, now + lsn_stale_window_sec l1)]\<rparr>)))"

text \<open>
  The first part of \<open>_process_packet\<close>: size, header, magic, version, type, payload
  length, packet size, key, age and HMAC.
\<close>

definition process_packet ::
  "pylib \<Rightarrow> real \<Rightarrow> byte list \<Rightarrow> string \<times> int \<Rightarrow> listener \<Rightarrow> outcome \<times> listener" where
  "process_packet L now data addr l =
     (if length data < HEADER_SIZE + HMAC_SIZE then (Silent, l)
      else
        (let h = unpack_header data;
             payload_len = nat (hdr_payload_len h)
         in if hdr_magic h \<noteq> MAGIC
            then (Counted Invalid_magic, l\<lparr>lsn_stats := increment Invalid_magic 1 (lsn_stats l)\<rparr>)
            else if hdr_version h \<noteq> VERSION
            then (Counted Invalid_version, l\<lparr>lsn_stats := increment Invalid_version 1 (lsn_stats l)\<rparr>)
            else if hdr_pkt_type h \<noteq> TYPE_ELEVATION
            then (Counted Invalid_type, l\<lparr>lsn_stats := increment Invalid_type 1 (lsn_stats l)\<rparr>)
            else if payload_len > MAX_PAYLOAD then (Silent, l)
            else if length data \<noteq> HEADER_SIZE + payload_len + HMAC_SIZE then (Silent, l)
            else
              (let payload = take payload_len (drop HEADER_SIZE data);
                   received_hmac = drop (HEADER_SIZE + payload_len) data
               in case lsn_hmac_keys l (hdr_key_id h) of
                    None \<Rightarrow> (Counted Invalid_key,
                             l\<lparr>lsn_stats := increment Invalid_key 1 (lsn_stats l)\<rparr>)
                  | Some key \<Rightarrow>
                      (let now_ms = int_of_float (float_mul L now 1000);
                           age_ms = \<bar>now_ms - hdr_ts_unix_ms h\<bar>
                       in if age_ms > 5000
                          then (Counted Stale, l\<lparr>lsn_stats := increment Stale 1 (lsn_stats l)\<rparr>)
                          else if received_hmac
                                  \<noteq> hmac_sha256 L key (take (HEADER_SIZE + payload_len) data)
                          then (Counted Invalid_hmac,
                                l\<lparr>lsn_stats := increment Invalid_hmac 1 (lsn_stats l)\<rparr>)
                          else check_replay L now data addr h age_ms payload l))))"

text \<open>
  One iteration of \<open>_process_loop\<close> for an entry popped from the ring buffer: in
  overload only the entries whose receive time and port hash to zero are processed; the
  hash is computed in doubles. The fill ratio of a buffer of capacity 0 and the remainder
  by a divisor 0 are divisions by zero. The loop catches and logs what is raised.
\<close>

definition process_entry :: "pylib \<Rightarrow> real \<Rightarrow> RingBufferEntry \<Rightarrow> listener \<Rightarrow> outcome \<times> listener" where
  "process_entry L now entry l =
     (if lsn_system_mode l = DEGRADED \<and> capacity (lsn_ring_buffer l) = 0
      then (Raised ZeroDivisionError, l)
      else
      let overload = (lsn_system_mode l = DEGRADED
                      \<and> float_div L (real (length (buffer (lsn_ring_buffer l))))
                            (real (capacity (lsn_ring_buffer l))) > 0.98)
      in if overload \<and> lsn_sample_divisor l = 0 then (Raised ZeroDivisionError, l)
         else if overload
            \<and> int_of_float
                  (float_add L (float_mul L (entry_recv_time entry) 1000000000)
                     (real_of_int (snd (entry_addr entry))))
                mod lsn_sample_divisor l \<noteq> 0
         then (Silent, l)
         else process_packet L now (entry_data entry) (entry_addr entry) l)"

text \<open>A sequence table in which source 7 has highest sequence 300, seen alone.\<close>

definition example_sequences :: "int \<rightharpoonup> (int \<times> int fset)" where
  "example_sequences = [7 \<mapsto> (300, {|300|})]"

text \<open>
  The counter that goes with an outcome, and the statistics after it: \<open>valid\<close> for a
  delivery, none for a silent return or an exception.
\<close>

fun counter_of :: "outcome \<Rightarrow> counter option" where
  "counter_of Silent = None"
| "counter_of (Raised e) = None"
| "counter_of (Counted c) = Some c"
| "counter_of (Delivered p a) = Some Valid"

fun stats_after :: "outcome \<Rightarrow> Stats \<Rightarrow> Stats" where
  "stats_after Silent st = st"
| "stats_after (Raised e) st = st"
| "stats_after (Counted c) st = increment c 1 st"
| "stats_after (Delivered p a) st = increment Valid 1 st"

text \<open>A listener as \<open>__init__\<close> leaves it, with one key under id 1 and no allow-list.\<close>

definition example_listener :: listener where
  "example_listener =
     \<lparr>lsn_stats = \<lparr>counters = (\<lambda>c. 0), window_received = 0, window_dropped = 0\<rparr>,
      lsn_hmac_keys = [1 \<mapsto> [0x6B, 0x65, 0x79]],
      lsn_stale_window_sec = 60,
      lsn_src_sequences = Map.empty,
      lsn_replay_cache = {||},
      lsn_replay_expire = [],
      lsn_allowed_networks = [],
      lsn_rate_capacity = 100,
      lsn_rate_fill_per_sec = 50,
      lsn_buckets = Map.empty,
      lsn_ring_buffer = \<lparr>capacity = 10000, buffer = [], dropped_count = 0\<rparr>,
      lsn_system_mode = NORMAL,
      lsn_sample_divisor = 8\<rparr>"

text \<open>
  A library whose \<open>json.loads\<close> is given on the two texts used below, \<open>{"wall_ts":1}\<close>
  and \<open>{}\<close>, a receiver address, and the packets that the example sender builds from the
  two texts with sequence number 4, clock 1700000000000 ms and random draw 7: the header
  is \<open>struct.pack('!4sBBQLHLHB', b'ASWM', 3, 1, 1700000000000, 0x0A0B0C0D, 4, 0x40003,
  len, 1)\<close>, and the HMAC of the example library is 32 zero bytes.
\<close>

definition example_json_lib :: pylib where
  "example_json_lib =
     example_lib\<lparr>json_loads :=
       (\<lambda>bs. if bs = example_payload then Inr (JObj [(''wall_ts'', JInt 1)])
             else if bs = [0x7B, 0x7D] then Inr (JObj [])
             else Inl JSONDecodeError)\<rparr>"

text \<open>
  The text \<open>{"wall_ts":1\<close> followed by 309 zeros and \<open>}\<close>, and a library whose
  \<open>json.loads\<close> is given on it: the integer \<open>10^309\<close> is beyond the range of a double.
\<close>

definition example_payload_overflow :: "byte list" where
  "example_payload_overflow =
     [0x7B, 0x22, 0x77, 0x61, 0x6C, 0x6C, 0x5F, 0x74, 0x73, 0x22, 0x3A, 0x31]
       @ replicate 309 0x30 @ [0x7D]"

definition example_overflow_lib :: pylib where
  "example_overflow_lib =
     example_lib\<lparr>json_loads :=
       (\<lambda>bs. if bs = example_payload_overflow then Inr (JObj [(''wall_ts'', JInt (10 ^ 309))])
             else Inl JSONDecodeError)\<rparr>"

definition example_addr :: "string \<times> int" where
  "example_addr = (''10.0.0.5'', 40000)"

definition example_header :: "int \<Rightarrow> byte list" where
  "example_header payload_len =
     [0x41, 0x53, 0x57, 0x4D, 0x03, 0x01,
      0x00, 0x00, 0x01, 0x8B, 0xCF, 0xE5, 0x68, 0x00,
      0x0A, 0x0B, 0x0C, 0x0D, 0x00, 0x04, 0x00, 0x04, 0x00, 0x03,
      0x00, word_of_int payload_len, 0x01]"

definition example_packet_empty :: "byte list" where
  "example_packet_empty = example_header 2 @ [0x7B, 0x7D] @ replicate 32 0"

definition example_packet_stale :: "byte list" where
  "example_packet_stale = example_header 13 @ example_payload @ replicate 32 0"

subsection \<open>Micro-act catalog (prototype/actuators/microact_catalog_v2.py)\<close>

text \<open>
  \<open>microact_catalog_v2.py\<close>. A parameter dictionary is an association list of decoded
  values. The module constants \<open>DRY_RUN\<close> and \<open>MAX_RING\<close>, the clocks, the formatting of
  values that have no fixed text, the effects on the file system and on \<open>kubectl\<close>, and
  the library with the arithmetic of doubles are the fields of an environment.
\<close>

datatype Ring = RING_1 | RING_2 | RING_3 | RING_4 | RING_5

fun ring_value :: "Ring \<Rightarrow> int" where
  "ring_value RING_1 = 1"
| "ring_value RING_2 = 2"
| "ring_value RING_3 = 3"
| "ring_value RING_4 = 4"
| "ring_value RING_5 = 5"

record MicroAct =
  act_id :: string
  act_ring :: Ring
  act_name :: string
  act_description :: string
  act_ttl_seconds :: int
  act_supports_probe :: bool
  act_requires_params :: "string list"
  act_optional_params :: "string list"

record ActuationResult =
  success :: bool
  message :: string
  revert_handle :: "string option"
  probe_endpoint :: "string option"
  applied_at :: "string option"
  expires_at :: "string option"
  proof_dict :: "(string \<times> json) list option"

record actuator_env =
  DRY_RUN :: bool
  MAX_RING :: int
  time_time :: real
  time_monotonic :: real
  now_isoformat :: string
  fromtimestamp_isoformat :: "real \<Rightarrow> py_exn + string"
  repr_value :: "json \<Rightarrow> string"
  int_of_str :: "string \<Rightarrow> int option"
  json_dumps_sorted :: "(string \<times> json) list \<Rightarrow> string"
  sha256_hexdigest :: "string \<Rightarrow> string"
  exn_text :: "py_exn \<Rightarrow> string"
  write_policy_file :: "py_exn + string"
  subprocess_run :: "string list \<Rightarrow> bool \<times> string"
  os_unlink :: "string \<Rightarrow> py_exn option"
  lib :: pylib

text \<open>
  An entry of \<open>active_ttls\<close>, and the two dictionaries of a \<open>MicroActCatalog\<close>. The two
  readings of \<open>time.monotonic()\<close> in \<open>_schedule_ttl_revert\<close> are one value.
\<close>

record ttl_entry =
  ttl_action_id :: string
  expire_mono :: real
  applied_mono :: real
  ttl_applied_at :: string

record MicroActCatalog =
  actions :: "(string \<times> MicroAct) list"
  active_ttls :: "(string \<times> ttl_entry) list"

text \<open>\<open>d[k]\<close>, \<open>d.get(k, default)\<close>, \<open>k in d\<close> and \<open>d.pop(k, None)\<close>.\<close>

definition getitem :: "(string \<times> 'v) list \<Rightarrow> string \<Rightarrow> py_exn + 'v" where
  "getitem d k = (case map_of d k of None \<Rightarrow> Inl KeyError | Some v \<Rightarrow> Inr v)"

definition dict_get :: "(string \<times> 'v) list \<Rightarrow> string \<Rightarrow> 'v \<Rightarrow> 'v" where
  "dict_get d k dflt = (case map_of d k of None \<Rightarrow> dflt | Some v \<Rightarrow> v)"

definition dict_in :: "string \<Rightarrow> (string \<times> 'v) list \<Rightarrow> bool" where
  "dict_in k d = (map_of d k \<noteq> None)"


text \<open>
  Sequencing of a step that may raise with the rest of a method that also returns the
  catalog: the exception leaves with the catalog as it is.
\<close>

definition try_value ::
  "(py_exn + 'a) \<Rightarrow> 's \<Rightarrow> ('a \<Rightarrow> (py_exn + 'b) \<times> 's) \<Rightarrow> (py_exn + 'b) \<times> 's" where
  "try_value x st f = (case x of Inl e \<Rightarrow> (Inl e, st) | Inr v \<Rightarrow> f v)"

text \<open>
  A value inside an f-string: a string as it is, an integer in decimal, \<open>None\<close>, \<open>True\<close>
  and \<open>False\<close> by name, anything else by the environment.
\<close>

definition format_value :: "actuator_env \<Rightarrow> json \<Rightarrow> string" where
  "format_value env v =
     (case v of
        JStr s \<Rightarrow> s
      | JInt i \<Rightarrow> str_int i
      | JNull \<Rightarrow> ''None''
      | JBool b \<Rightarrow> (if b then ''True'' else ''False'')
      | _ \<Rightarrow> repr_value env v)"

text \<open>
  \<open>repr\<close> of a list of parameter names, which are identifiers: each in single quotes,
  separated by a comma and a space.
\<close>

fun join_str :: "string \<Rightarrow> string list \<Rightarrow> string" where
  "join_str sep [] = []"
| "join_str sep [x] = x"
| "join_str sep (x # y # ys) = x @ sep @ join_str sep (y # ys)"

definition repr_str_list :: "string list \<Rightarrow> string" where
  "repr_str_list xs =
     ''['' @ join_str '', '' (map (\<lambda>s. [CHR 0x27] @ s @ [CHR 0x27]) xs) @ '']''"

text \<open>
  \<open>v <= 0\<close>, \<open>v > 0.8\<close> and \<open>not v.strip()\<close> on a parameter value. Ordering a value that is
  not a number against a number raises \<open>TypeError\<close>; only a string has \<open>strip\<close>, which
  removes the white space of \<open>str.isspace\<close> from both ends.
\<close>

definition le_zero :: "json \<Rightarrow> py_exn + bool" where
  "le_zero v = (case jnum v of None \<Rightarrow> Inl TypeError | Some x \<Rightarrow> Inr (x \<le> 0))"

definition gt_real :: "json \<Rightarrow> real \<Rightarrow> py_exn + bool" where
  "gt_real v c = (case jnum v of None \<Rightarrow> Inl TypeError | Some x \<Rightarrow> Inr (x > c))"

definition is_space :: "char \<Rightarrow> bool" where
  "is_space c = (of_char c \<in> {9, 10, 11, 12, 13, 28, 29, 30, 31, 32, 133, 160 :: nat})"

definition not_strip :: "json \<Rightarrow> py_exn + bool" where
  "not_strip v = (case v of JStr s \<Rightarrow> Inr (list_all is_space s) | _ \<Rightarrow> Inl AttributeError)"

text \<open>\<open>int(v)\<close>: a string is parsed, a float truncated, no other value converts.\<close>

definition int_conv :: "actuator_env \<Rightarrow> json \<Rightarrow> py_exn + int" where
  "int_conv env v =
     (case v of
        JInt i \<Rightarrow> Inr i
      | JBool b \<Rightarrow> Inr (if b then 1 else 0)
      | JFloat r \<Rightarrow> Inr (int_of_float r)
      | JStr s \<Rightarrow> (case int_of_str env s of None \<Rightarrow> Inl ValueError | Some i \<Rightarrow> Inr i)
      | _ \<Rightarrow> Inl TypeError)"

text \<open>\<open>_run\<close>: the command is not run in dry-run mode; \<open>subprocess\<close> errors are caught.\<close>

definition run_command :: "actuator_env \<Rightarrow> string list \<Rightarrow> bool \<times> string" where
  "run_command env cmd = (if DRY_RUN env then (True, ''[dry-run]'') else subprocess_run env cmd)"

text \<open>\<open>_compute_proof\<close>.\<close>

definition compute_proof ::
  "actuator_env \<Rightarrow> string \<Rightarrow> (string \<times> json) list \<Rightarrow> (string \<times> json) list" where
  "compute_proof env action_id params =
     (let proof_data = action_id @ '':'' @ json_dumps_sorted env params;
          proof_hash = sha256_hexdigest env proof_data
      in [(''action_id'', JStr action_id),
          (''params_hash'', JStr (take 16 proof_hash)),
          (''controller'', JStr ''microact-v2''),
          (''dry_run'', JBool (DRY_RUN env)),
          (''timestamp'', JStr (now_isoformat env))])"

text \<open>
  \<open>MicroActCatalog._register_actions\<close> and \<open>__init__\<close>: the seven registered actions and
  an empty TTL table.
\<close>

definition registered_actions :: "MicroAct list" where
  "registered_actions =
     [\<lparr>act_id = ''log_anomaly'', act_ring = RING_1, act_name = ''Log Anomaly'',
       act_description = ''Write structured anomaly event to SIEM'',
       act_ttl_seconds = 0, act_supports_probe = False,
       act_requires_params = [''asset_id'', ''anomaly_type'', ''score''],
       act_optional_params = []\<rparr>,
      \<lparr>act_id = ''networkpolicy_isolate'', act_ring = RING_2, act_name = ''Pod Network Isolation'',
       act_description = ''Apply NetworkPolicy to isolate pod traffic'',
       act_ttl_seconds = 300, act_supports_probe = True,
       act_requires_params = [''namespace'', ''selector''],
       act_optional_params = [''ttl_seconds'']\<rparr>,
      \<lparr>act_id = ''egress_rate_limit'', act_ring = RING_2, act_name = ''Egress Rate Limit'',
       act_description = ''Apply per-host egress bandwidth limit via tc/eBPF'',
       act_ttl_seconds = 300, act_supports_probe = True,
       act_requires_params = [''host'', ''rate_mbps''],
       act_optional_params = [''interface'', ''ttl_seconds'']\<rparr>,
      \<lparr>act_id = ''dns_sinkhole'', act_ring = RING_2, act_name = ''DNS Sinkhole'',
       act_description = ''Redirect DNS queries to sinkhole for analysis'',
       act_ttl_seconds = 600, act_supports_probe = True,
       act_requires_params = [''namespace'', ''selector''],
       act_optional_params = [''sinkhole_ip'', ''ttl_seconds'']\<rparr>,
      \<lparr>act_id = ''process_freeze'', act_ring = RING_3, act_name = ''Process Freeze'',
       act_description = ''Freeze process execution via cgroups freezer'',
       act_ttl_seconds = 120, act_supports_probe = True,
       act_requires_params = [''host'', ''pid''],
       act_optional_params = [''ttl_seconds'']\<rparr>,
      \<lparr>act_id = ''token_revoke'', act_ring = RING_3, act_name = ''IdP Token Revoke'',
       act_description = ''Revoke OAuth/SAML tokens for compromised identity'',
       act_ttl_seconds = 3600, act_supports_probe = True,
       act_requires_params = [''provider'', ''user_id''],
       act_optional_params = [''scope'', ''ttl_seconds'']\<rparr>,
      \<lparr>act_id = ''container_pause'', act_ring = RING_3, act_name = ''Container Pause'',
       act_description = ''Pause container execution preserving state'',
       act_ttl_seconds = 180, act_supports_probe = True,
       act_requires_params = [''namespace'', ''pod'', ''container''],
       act_optional_params = [''ttl_seconds'']\<rparr>]"

definition register :: "MicroAct \<Rightarrow> MicroActCatalog \<Rightarrow> MicroActCatalog" where
  "register action cat = cat\<lparr>actions := dict_set (actions cat) (act_id action) action\<rparr>"

definition MicroActCatalog_init :: MicroActCatalog where
  "MicroActCatalog_init = fold register registered_actions \<lparr>actions = [], active_ttls = []\<rparr>"

definition get_action :: "MicroActCatalog \<Rightarrow> string \<Rightarrow> MicroAct option" where
  "get_action cat action_id = map_of (actions cat) action_id"

text \<open>
  \<open>_schedule_ttl_revert\<close>. The TTL is whatever \<open>params.get("ttl_seconds", ...)\<close> gave:
  comparing a value that is not a number with 0 raises \<open>TypeError\<close>, and adding an integer
  to the clock converts it to a double first.
\<close>

definition schedule_ttl_revert ::
  "actuator_env \<Rightarrow> string \<Rightarrow> string \<Rightarrow> json \<Rightarrow> MicroActCatalog \<Rightarrow> py_exn + MicroActCatalog" where
  "schedule_ttl_revert env action_id handle ttl_seconds cat =
     (case le_zero ttl_seconds of
        Inl e \<Rightarrow> Inl e
      | Inr True \<Rightarrow> Inr cat
      | Inr False \<Rightarrow>
          (case to_float (lib env) ttl_seconds of
             Inl e \<Rightarrow> Inl e
           | Inr t \<Rightarrow>
               Inr (cat\<lparr>active_ttls :=
                          dict_set (active_ttls cat) handle
                            \<lparr>ttl_action_id = action_id,
                             expire_mono = float_add (lib env) (time_monotonic env) t,
                             applied_mono = time_monotonic env,
                             ttl_applied_at = now_isoformat env\<rparr>\<rparr>)))"

text \<open>
  The result that a primitive returns without a handle, and the block that six of the
  seven primitives end with after a successful application: schedule the revert, add the
  resource to the proof, and return the result with its handle, probe and expiry.
\<close>

definition failure :: "string \<Rightarrow> ActuationResult" where
  "failure msg =
     \<lparr>success = False, message = msg, revert_handle = None, probe_endpoint = None,
      applied_at = None, expires_at = None, proof_dict = None\<rparr>"

definition applied_result ::
  "actuator_env \<Rightarrow> string \<Rightarrow> string \<Rightarrow> string \<Rightarrow> string \<Rightarrow> string \<Rightarrow> json
     \<Rightarrow> (string \<times> json) list \<Rightarrow> MicroActCatalog \<Rightarrow> (py_exn + ActuationResult) \<times> MicroActCatalog" where
  "applied_result env action_id handle resource msg probe ttl pdict cat =
     (case schedule_ttl_revert env action_id handle ttl cat of
        Inl e \<Rightarrow> (Inl e, cat)
      | Inr cat' \<Rightarrow>
          (case to_float (lib env) ttl of
             Inl e \<Rightarrow> (Inl e, cat')
           | Inr t \<Rightarrow>
               (case fromtimestamp_isoformat env (float_add (lib env) (time_time env) t) of
                  Inl e \<Rightarrow> (Inl e, cat')
                | Inr expires \<Rightarrow>
                    (Inr \<lparr>success = True, message = msg, revert_handle = Some handle,
                          probe_endpoint = Some probe, applied_at = Some (now_isoformat env),
                          expires_at = Some expires,
                          proof_dict = Some (dict_set pdict ''resource'' (JStr resource))\<rparr>,
                     cat'))))"

text \<open>
  The primitives. Each reads its parameters by subscript, which raises \<open>KeyError\<close> on a
  missing key. Outside dry-run mode all but the network policy return a failure.
\<close>

definition execute_egress_limit ::
  "actuator_env \<Rightarrow> (string \<times> json) list \<Rightarrow> json \<Rightarrow> (string \<times> json) list \<Rightarrow> MicroActCatalog
     \<Rightarrow> (py_exn + ActuationResult) \<times> MicroActCatalog" where
  "execute_egress_limit env params ttl pdict cat =
     try_value (getitem params ''host'') cat (\<lambda>host.
     try_value (getitem params ''rate_mbps'') cat (\<lambda>rate_mbps.
       let interface = dict_get params ''interface'' (JStr ''eth0'')
       in if DRY_RUN env
          then applied_result env ''egress_rate_limit''
                 (format_value env host @ ''/'' @ format_value env interface @ ''/''
                    @ format_value env rate_mbps)
                 (''tc/'' @ format_value env host @ ''/'' @ format_value env interface)
                 (''[DRY_RUN] Would apply '' @ format_value env rate_mbps @ ''Mbps egress limit'')
                 (''http://'' @ format_value env host @ '':9100/metrics'')
                 ttl pdict cat
          else (Inr (failure ''Egress rate limiting requires node agent (not implemented)''),
                cat)))"

definition execute_token_revoke ::
  "actuator_env \<Rightarrow> (string \<times> json) list \<Rightarrow> json \<Rightarrow> (string \<times> json) list \<Rightarrow> MicroActCatalog
     \<Rightarrow> (py_exn + ActuationResult) \<times> MicroActCatalog" where
  "execute_token_revoke env params ttl pdict cat =
     try_value (getitem params ''provider'') cat (\<lambda>provider.
     try_value (getitem params ''user_id'') cat (\<lambda>user_id.
       let scope = dict_get params ''scope'' (JStr ''all'')
       in if DRY_RUN env
          then applied_result env ''token_revoke''
                 (format_value env provider @ ''/'' @ format_value env user_id @ ''/''
                    @ format_value env scope)
                 (''idp/'' @ format_value env provider @ ''/user/'' @ format_value env user_id)
                 (''[DRY_RUN] Would revoke tokens for '' @ format_value env user_id)
                 (''https://'' @ format_value env provider @ ''/api/v1/users/''
                    @ format_value env user_id @ ''/status'')
                 ttl pdict cat
          else (Inr (failure ''Token revocation requires IdP integration (not implemented)''),
                cat)))"

definition execute_log_anomaly ::
  "actuator_env \<Rightarrow> (string \<times> json) list \<Rightarrow> (string \<times> json) list \<Rightarrow> MicroActCatalog
     \<Rightarrow> (py_exn + ActuationResult) \<times> MicroActCatalog" where
  "execute_log_anomaly env params pdict cat =
     try_value (getitem params ''asset_id'') cat (\<lambda>asset_id.
     try_value (getitem params ''anomaly_type'') cat (\<lambda>anomaly_type.
     try_value (getitem params ''score'') cat (\<lambda>score.
     try_value (gt_real score 0.8) cat (\<lambda>high.
       (Inr \<lparr>success = True, message = ''Logged anomaly for '' @ format_value env asset_id,
             revert_handle = None, probe_endpoint = None,
             applied_at = Some (now_isoformat env), expires_at = None,
             proof_dict = Some pdict\<rparr>,
        cat)))))"

definition execute_dns_sinkhole ::
  "actuator_env \<Rightarrow> (string \<times> json) list \<Rightarrow> json \<Rightarrow> (string \<times> json) list \<Rightarrow> MicroActCatalog
     \<Rightarrow> (py_exn + ActuationResult) \<times> MicroActCatalog" where
  "execute_dns_sinkhole env params ttl pdict cat =
     try_value (getitem params ''namespace'') cat (\<lambda>ns.
     try_value (getitem params ''selector'') cat (\<lambda>selector.
       let sinkhole_ip = dict_get params ''sinkhole_ip'' (JStr ''10.0.0.254'')
       in if DRY_RUN env
          then applied_result env ''dns_sinkhole''
                 (format_value env ns @ ''/'' @ format_value env selector @ ''/''
                    @ format_value env sinkhole_ip)
                 (''coredns/'' @ format_value env ns)
                 ''[DRY_RUN] Would apply DNS sinkhole''
                 (''http://dns-probe.'' @ format_value env ns @ ''.svc:8053/metrics'')
                 ttl pdict cat
          else (Inr (failure ''DNS sinkhole requires CoreDNS integration (not implemented)''),
                cat)))"

definition execute_process_freeze ::
  "actuator_env \<Rightarrow> (string \<times> json) list \<Rightarrow> json \<Rightarrow> (string \<times> json) list \<Rightarrow> MicroActCatalog
     \<Rightarrow> (py_exn + ActuationResult) \<times> MicroActCatalog" where
  "execute_process_freeze env params ttl pdict cat =
     try_value (getitem params ''host'') cat (\<lambda>host.
     try_value (getitem params ''pid'') cat (\<lambda>pid.
       if DRY_RUN env
       then applied_result env ''process_freeze''
              (format_value env host @ ''/'' @ format_value env pid)
              (''cgroup/'' @ format_value env host @ ''/pid/'' @ format_value env pid)
              (''[DRY_RUN] Would freeze process '' @ format_value env pid)
              (''http://'' @ format_value env host @ '':9100/metrics'')
              ttl pdict cat
       else (Inr (failure ''Process freeze requires node agent (not implemented)''), cat)))"

definition execute_container_pause ::
  "actuator_env \<Rightarrow> (string \<times> json) list \<Rightarrow> json \<Rightarrow> (string \<times> json) list \<Rightarrow> MicroActCatalog
     \<Rightarrow> (py_exn + ActuationResult) \<times> MicroActCatalog" where
  "execute_container_pause env params ttl pdict cat =
     try_value (getitem params ''namespace'') cat (\<lambda>ns.
     try_value (getitem params ''pod'') cat (\<lambda>pod.
     try_value (getitem params ''container'') cat (\<lambda>container.
       if DRY_RUN env
       then applied_result env ''container_pause''
              (format_value env ns @ ''/'' @ format_value env pod @ ''/''
                 @ format_value env container)
              (''container/'' @ format_value env ns @ ''/'' @ format_value env pod @ ''/''
                 @ format_value env container)
              (''[DRY_RUN] Would pause container '' @ format_value env container)
              (''http://probe.'' @ format_value env ns @ ''.svc:8080/container/''
                 @ format_value env container)
              ttl pdict cat
       else (Inr (failure ''Container pause requires node agent (not implemented)''), cat))))"

text \<open>
  \<open>_execute_pod_isolate\<close>. The policy document is built from the parameters
  (\<open>_parse_selector\<close> splits the selector, which only a string allows) and written to a
  temporary file; \<open>kubectl apply\<close> is run on it, and the file is removed in a \<open>finally\<close>
  clause, whose exception replaces the result.
\<close>

definition execute_pod_isolate ::
  "actuator_env \<Rightarrow> (string \<times> json) list \<Rightarrow> json \<Rightarrow> (string \<times> json) list \<Rightarrow> MicroActCatalog
     \<Rightarrow> (py_exn + ActuationResult) \<times> MicroActCatalog" where
  "execute_pod_isolate env params ttl pdict cat =
     try_value (getitem params ''namespace'') cat (\<lambda>ns.
     try_value (getitem params ''selector'') cat (\<lambda>selector.
     try_value (case selector of JStr s \<Rightarrow> Inr s | _ \<Rightarrow> Inl AttributeError) cat (\<lambda>sel.
     try_value (write_policy_file env) cat (\<lambda>policy_file.
       let policy_name = ''aswarm-isolate-'' @ str_int (int_of_float (time_time env));
           res = (case run_command env [''kubectl'', ''apply'', ''-f'', policy_file] of
                    (True, output) \<Rightarrow>
                      applied_result env ''networkpolicy_isolate''
                        (format_value env ns @ ''/'' @ policy_name)
                        (''NetworkPolicy/'' @ format_value env ns @ ''/'' @ policy_name)
                        (''Applied network isolation to '' @ sel @ '' in '' @ format_value env ns)
                        (''http://probe.'' @ format_value env ns @ ''.svc:8080/network'')
                        ttl pdict cat
                  | (False, output) \<Rightarrow>
                      (Inr (failure (''Failed to apply NetworkPolicy: '' @ output)), cat))
       in case os_unlink env policy_file of
            None \<Rightarrow> res
          | Some e \<Rightarrow> (Inl e, snd res)))))"

text \<open>
  \<open>MicroActCatalog.execute\<close>, cut in three at its comments. First the validation of the
  parameters, which returns a failure result, nothing when the parameters pass, or raises:
  the comparison of \<open>rate_mbps\<close> and the \<open>strip\<close> of \<open>selector\<close> are not inside a \<open>try\<close>
  statement, the conversion of \<open>pid\<close> is.
\<close>

definition validate_params ::
  "actuator_env \<Rightarrow> MicroAct \<Rightarrow> (string \<times> json) list \<Rightarrow> py_exn + ActuationResult option" where
  "validate_params env action params =
     (let missing = filter (\<lambda>req. \<not> dict_in req params) (act_requires_params action)
      in if missing \<noteq> []
         then Inr (Some (failure (''Missing required parameters: '' @ repr_str_list missing)))
         else
           (case (if dict_in ''rate_mbps'' params
                  then le_zero (dict_get params ''rate_mbps'' JNull) else Inr False) of
              Inl e \<Rightarrow> Inl e
            | Inr True \<Rightarrow> Inr (Some (failure ''Invalid rate_mbps: must be positive''))
            | Inr False \<Rightarrow>
                (case (if dict_in ''selector'' params
                       then not_strip (dict_get params ''selector'' JNull) else Inr False) of
                   Inl e \<Rightarrow> Inl e
                 | Inr True \<Rightarrow> Inr (Some (failure ''Invalid selector: cannot be empty''))
                 | Inr False \<Rightarrow>
                     (if dict_in ''pid'' params
                         \<and> isl (int_conv env (dict_get params ''pid'' JNull))
                      then Inr (Some (failure ''Invalid pid: must be integer''))
                      else Inr None))))"

text \<open>The dispatch on the action id, which is the body of the \<open>try\<close> statement.\<close>

definition dispatch ::
  "actuator_env \<Rightarrow> string \<Rightarrow> (string \<times> json) list \<Rightarrow> json \<Rightarrow> (string \<times> json) list
     \<Rightarrow> MicroActCatalog \<Rightarrow> (py_exn + ActuationResult) \<times> MicroActCatalog" where
  "dispatch env action_id params ttl pdict cat =
     (if action_id = ''networkpolicy_isolate'' then execute_pod_isolate env params ttl pdict cat
      else if action_id = ''egress_rate_limit'' then execute_egress_limit env params ttl pdict cat
      else if action_id = ''token_revoke'' then execute_token_revoke env params ttl pdict cat
      else if action_id = ''log_anomaly'' then execute_log_anomaly env params pdict cat
      else if action_id = ''dns_sinkhole'' then execute_dns_sinkhole env params ttl pdict cat
      else if action_id = ''process_freeze'' then execute_process_freeze env params ttl pdict cat
      else if action_id = ''container_pause'' then execute_container_pause env params ttl pdict cat
      else (Inr (failure (''Action '' @ action_id @ '' not implemented'')), cat))"

text \<open>
  \<open>execute\<close>: the lookup, the ring limit, the validation, the TTL and the proof, and the
  dispatch, whose exceptions become a failure result. \<open>Inl\<close> is an exception that leaves
  \<open>execute\<close>.
\<close>

definition execute ::
  "actuator_env \<Rightarrow> MicroActCatalog \<Rightarrow> string \<Rightarrow> (string \<times> json) list
     \<Rightarrow> (py_exn + ActuationResult) \<times> MicroActCatalog" where
  "execute env cat action_id params =
     (case get_action cat action_id of
        None \<Rightarrow> (Inr (failure (''Unknown action: '' @ action_id)), cat)
      | Some action \<Rightarrow>
          if ring_value (act_ring action) > MAX_RING env
          then (Inr (failure (''Action '' @ action_id @ '' (Ring ''
                               @ str_int (ring_value (act_ring action))
                               @ '') exceeds MAX_RING='' @ str_int (MAX_RING env))), cat)
          else
            (case validate_params env action params of
               Inl e \<Rightarrow> (Inl e, cat)
             | Inr (Some res) \<Rightarrow> (Inr res, cat)
             | Inr None \<Rightarrow>
                 (let ttl = dict_get params ''ttl_seconds'' (JInt (act_ttl_seconds action));
                      pdict = compute_proof env action_id params
                  in case dispatch env action_id params ttl pdict cat of
                       (Inl e, cat') \<Rightarrow>
                         (Inr (failure (''Execution failed: '' @ exn_text env e)), cat')
                     | (Inr res, cat') \<Rightarrow> (Inr res, cat'))))"








text \<open>An environment in dry-run mode with the default ring limit, and two requests.\<close>

definition example_env :: actuator_env where
  "example_env =
     \<lparr>DRY_RUN = True, MAX_RING = 3, time_time = 1700000000, time_monotonic = 1000,
      now_isoformat = ''2025-01-01T00:00:00+00:00'',
      fromtimestamp_isoformat = (\<lambda>t. Inr ''<iso>''),
      repr_value = (\<lambda>v. ''<repr>''),
      int_of_str = (\<lambda>s. None),
      json_dumps_sorted = (\<lambda>params. ''<json>''),
      sha256_hexdigest = (\<lambda>s. replicate 64 CHR ''0''),
      exn_text = (\<lambda>e. ''<exception>''),
      write_policy_file = Inr ''/tmp/policy.yaml'',
      subprocess_run = (\<lambda>cmd. (True, [])),
      os_unlink = (\<lambda>f. None),
      lib = example_lib\<rparr>"

definition example_rate_params :: "json \<Rightarrow> (string \<times> json) list" where
  "example_rate_params rate = [(''host'', JStr ''h1''), (''rate_mbps'', rate)]"


section \<open>Theorems\<close>

subsection \<open>Sentinel scoring\<close>

lemma randint_range:
  assumes "a \<le> b"
  shows "real_of_int a \<le> randint a b r \<and> randint a b r \<le> real_of_int b"
proof -
  have pos: "0 < nat (b - a + 1)" using assms by simp
  have "r mod nat (b - a + 1) < nat (b - a + 1)" using pos by (rule mod_less_divisor)
  then have "int (r mod nat (b - a + 1)) \<le> b - a" using assms by linarith
  then show ?thesis unfolding randint_def by simp
qed

lemma gen_sketch_ports: "0 \<le> dget (fst (generate_packet_sketch r t)) ''scan_ports'' 0"
  using randint_range [of 8 25 "r ''scan_ports''"]
  by (simp add: generate_packet_sketch_def dget_def Let_def map_add_def)

lemma gen_graph_churn:
  "0 \<le> dget (generate_process_graph r t) ''new_procs'' 0
       + dget (generate_process_graph r t) ''network_procs'' 0"
  using randint_range [of 0 3 "r ''new_procs''"] randint_range [of 3 8 "r ''new_procs_anomaly''"]
        randint_range [of 2 5 "r ''network_procs''"]
  by (simp add: generate_process_graph_def dget_def Let_def map_add_def)

lemma gen_sketch_ewma: "ewma (snd (generate_packet_sketch r t)) = ewma t"
  by (simp add: generate_packet_sketch_def Let_def)

lemma score_signal_range:
  assumes "0 \<le> dget sketch ''scan_ports'' 0"
      and "0 \<le> dget graph ''new_procs'' 0 + dget graph ''network_procs'' 0"
      and "case ewma t of None \<Rightarrow> True | Some e \<Rightarrow> 0 \<le> e \<and> e \<le> 1"
  shows "0 \<le> fst (score_signal sketch graph t) \<and> fst (score_signal sketch graph t) \<le> 1"
proof -
  define p where "p = min (dget sketch ''scan_ports'' 0 / 10) 1"
  define c where "c = min ((dget graph ''new_procs'' 0 + dget graph ''network_procs'' 0) / 8) 1"
  define prev where "prev = (case ewma t of None \<Rightarrow> 0 | Some e \<Rightarrow> e)"
  have p: "0 \<le> p" "p \<le> 1" using assms(1) by (simp_all add: p_def)
  have c: "0 \<le> c" "c \<le> 1" using assms(2) by (simp_all add: c_def)
  have prev: "0 \<le> prev" "prev \<le> 1" using assms(3) by (auto simp: prev_def split: option.splits)
  have eq: "fst (score_signal sketch graph t) = 0.4 * (0.7 * p + 0.3 * c) + 0.6 * prev"
    by (simp add: score_signal_def Let_def p_def c_def prev_def split: option.splits)
  have "fst (score_signal sketch graph t) = 0.28 * p + 0.12 * c + 0.6 * prev"
    unfolding eq by (simp add: algebra_simps)
  then show ?thesis using p c prev by simp
qed

lemma tick_range:
  assumes "case ewma t of None \<Rightarrow> True | Some e \<Rightarrow> 0 \<le> e \<and> e \<le> 1"
  shows "0 \<le> fst (tick r t) \<and> fst (tick r t) \<le> 1"
    and "case ewma (snd (tick r t)) of None \<Rightarrow> True | Some e \<Rightarrow> 0 \<le> e \<and> e \<le> 1"
proof -
  obtain sk t1 where g: "generate_packet_sketch r t = (sk, t1)" by (cases "generate_packet_sketch r t")
  have sk: "0 \<le> dget sk ''scan_ports'' 0" using gen_sketch_ports [of r t] g by simp
  have t1: "ewma t1 = ewma t" using gen_sketch_ewma [of r t] g by simp
  have tk: "tick r t = score_signal sk (generate_process_graph r t1) t1"
    by (simp add: tick_def g)
  show "0 \<le> fst (tick r t) \<and> fst (tick r t) \<le> 1"
    unfolding tk using score_signal_range [OF sk gen_graph_churn, of t1 r t1] assms t1 by simp
  then show "case ewma (snd (tick r t)) of None \<Rightarrow> True | Some e \<Rightarrow> 0 \<le> e \<and> e \<le> 1"
    unfolding tk by (simp add: score_signal_def Let_def)
qed

lemma published_scores_range:
  assumes "case ewma t of None \<Rightarrow> True | Some e \<Rightarrow> 0 \<le> e \<and> e \<le> 1"
  shows "\<forall>s \<in> set (published_scores t rs). 0 \<le> s \<and> s \<le> 1"
  using assms
proof (induction rs arbitrary: t)
  case Nil
  then show ?case by simp
next
  case (Cons r rs)
  obtain s t' where tk: "tick r t = (s, t')" by (cases "tick r t")
  have s: "0 \<le> s \<and> s \<le> 1" using tick_range(1) [OF Cons.prems, of r] tk by simp
  have t': "case ewma t' of None \<Rightarrow> True | Some e \<Rightarrow> 0 \<le> e \<and> e \<le> 1"
    using tick_range(2) [OF Cons.prems, of r] tk by simp
  show ?case using s Cons.IH [OF t'] by (simp add: tk)
qed

text \<open>
  Claim C9. Each call of \<open>score_signal\<close> returns 0.4 times the raw score plus 0.6 times
  the previous score (0 before the first call), where the raw score is
  0.7 * min(1, scan_ports / 10) + 0.3 * min(1, (new_procs + network_procs) / 8), and stores
  it as the next previous score; and every score published by the telemetry loop, whatever
  the random draws and the number of simulated anomaly signals, lies in the interval [0, 1].
\<close>

theorem sentinel_score_ewma_bounded:
  "fst (score_signal sketch graph t) =
     0.4 * (0.7 * min 1 (dget sketch ''scan_ports'' 0 / 10)
            + 0.3 * min 1 ((dget graph ''new_procs'' 0 + dget graph ''network_procs'' 0) / 8))
     + 0.6 * (case ewma t of None \<Rightarrow> 0 | Some prev \<Rightarrow> prev)
   \<and> ewma (snd (score_signal sketch graph t)) = Some (fst (score_signal sketch graph t))
   \<and> (\<forall>s \<in> set (published_scores (telemetry_init\<lparr>anomaly_signals := n\<rparr>) rs). 0 \<le> s \<and> s \<le> 1)"
proof -
  have "\<forall>s \<in> set (published_scores (telemetry_init\<lparr>anomaly_signals := n\<rparr>) rs). 0 \<le> s \<and> s \<le> 1"
    by (rule published_scores_range) (simp add: telemetry_init_def)
  then show ?thesis
    by (simp add: score_signal_def Let_def min.commute split: option.splits)
qed

theorem sentinel_score_ewma_bounded_witness:
  "fst (score_signal [''scan_ports'' \<mapsto> 25] [''new_procs'' \<mapsto> 2] telemetry_init) = 31 / 100
   \<and> published_scores (telemetry_init\<lparr>anomaly_signals := 1\<rparr>) [\<lambda>k. 9, \<lambda>k. 0]
       = [59 / 200, 177 / 1000]
   \<and> 0 \<le> published_scores (telemetry_init\<lparr>anomaly_signals := 1\<rparr>) [\<lambda>k. 9, \<lambda>k. 0] ! 1
   \<and> published_scores (telemetry_init\<lparr>anomaly_signals := 1\<rparr>) [\<lambda>k. 9, \<lambda>k. 0] ! 1 \<le> 1"
proof -
  let ?run = "published_scores (telemetry_init\<lparr>anomaly_signals := 1\<rparr>) [\<lambda>k. 9, \<lambda>k. 0]"
  have run: "?run = [59 / 200, 177 / 1000]"
    by (simp add: dget_def telemetry_init_def tick_def generate_packet_sketch_def
          generate_process_graph_def score_signal_def randint_def uniform_def map_add_def Let_def)
  have inst: "fst (score_signal [''scan_ports'' \<mapsto> 25] [''new_procs'' \<mapsto> 2] telemetry_init)
               = 0.4 * (0.7 * min 1 (dget [''scan_ports'' \<mapsto> 25] ''scan_ports'' 0 / 10)
                   + 0.3 * min 1 ((dget [''new_procs'' \<mapsto> 2] ''new_procs'' 0
                                   + dget [''new_procs'' \<mapsto> 2] ''network_procs'' 0) / 8))
                 + 0.6 * (case ewma telemetry_init of None \<Rightarrow> 0 | Some prev \<Rightarrow> prev)"
    and bound: "\<forall>s \<in> set ?run. 0 \<le> s \<and> s \<le> 1"
    using sentinel_score_ewma_bounded
            [of "[''scan_ports'' \<mapsto> 25]" "[''new_procs'' \<mapsto> 2]" telemetry_init 1 "[\<lambda>k. 9, \<lambda>k. 0]"]
    by blast+
  have val: "fst (score_signal [''scan_ports'' \<mapsto> 25] [''new_procs'' \<mapsto> 2] telemetry_init) = 31 / 100"
    unfolding inst by (simp add: dget_def telemetry_init_def)
  have "?run ! 1 \<in> set ?run" unfolding run by simp
  then have "0 \<le> ?run ! 1 \<and> ?run ! 1 \<le> 1" using bound by blast
  then show ?thesis using val run by simp
qed

subsection \<open>Elevation predicate\<close>

text \<open>
  Claim C4. For a decision on window metrics \<open>m\<close>, \<open>should_elevate\<close> grants elevation
  exactly when the backoff has elapsed since the last elevation, the watcher is not yet
  elevated, the witness count reaches the quorum threshold, and either the p95 score reaches
  the fast-path score or the mean score reaches the node score threshold on the evaluation
  that brings the consecutive counter to 2. The checks are made in the order backoff,
  already elevated, quorum, fast path, hysteresis; an evaluation that passes the first three
  and fails both score conditions resets the consecutive counter to zero.
\<close>

theorem should_elevate_predicate:
  "(fst (fst (should_elevate w (Some m) now)) \<longleftrightarrow>
      now - last_elevation w \<ge> elevation_backoff w
      \<and> \<not> elevated w
      \<and> witness_count m \<ge> quorum_threshold w
      \<and> (p95_score m \<ge> fast_path_score w
         \<or> (mean_score m \<ge> node_score_threshold w \<and> consecutive_elevations w + 1 \<ge> 2)))
   \<and> (now - last_elevation w < elevation_backoff w \<longrightarrow>
        should_elevate w (Some m) now = ((False, Backoff), w))
   \<and> (now - last_elevation w \<ge> elevation_backoff w \<and> elevated w \<longrightarrow>
        should_elevate w (Some m) now = ((False, AlreadyElevated), w))
   \<and> (now - last_elevation w \<ge> elevation_backoff w \<and> \<not> elevated w
        \<and> witness_count m < quorum_threshold w \<longrightarrow>
        should_elevate w (Some m) now
          = ((False, QuorumShort (witness_count m) (quorum_threshold w)), w))
   \<and> (now - last_elevation w \<ge> elevation_backoff w \<and> \<not> elevated w
        \<and> witness_count m \<ge> quorum_threshold w \<and> p95_score m \<ge> fast_path_score w \<longrightarrow>
        should_elevate w (Some m) now
          = ((True, FastPath (witness_count m) (p95_score m)), w\<lparr>elevated := True\<rparr>))
   \<and> (now - last_elevation w \<ge> elevation_backoff w \<and> \<not> elevated w
        \<and> witness_count m \<ge> quorum_threshold w \<and> p95_score m < fast_path_score w
        \<and> mean_score m \<ge> node_score_threshold w \<and> consecutive_elevations w + 1 \<ge> 2 \<longrightarrow>
        should_elevate w (Some m) now
          = ((True, Hysteresis (witness_count m) (mean_score m) (consecutive_elevations w + 1)),
             w\<lparr>consecutive_elevations := consecutive_elevations w + 1, elevated := True\<rparr>))
   \<and> (now - last_elevation w \<ge> elevation_backoff w \<and> \<not> elevated w
        \<and> witness_count m \<ge> quorum_threshold w \<and> p95_score m < fast_path_score w
        \<and> mean_score m \<ge> node_score_threshold w \<and> consecutive_elevations w + 1 < 2 \<longrightarrow>
        should_elevate w (Some m) now
          = ((False, Building (consecutive_elevations w + 1)),
             w\<lparr>consecutive_elevations := consecutive_elevations w + 1\<rparr>))
   \<and> (now - last_elevation w \<ge> elevation_backoff w \<and> \<not> elevated w
        \<and> witness_count m \<ge> quorum_threshold w \<and> p95_score m < fast_path_score w
        \<and> mean_score m < node_score_threshold w \<longrightarrow>
        should_elevate w (Some m) now
          = ((False, ResetHysteresis), w\<lparr>consecutive_elevations := 0\<rparr>))"
  by (simp add: should_elevate_def Let_def not_less not_le)

lemma example_watcher_fields:
  "last_elevation DualPathWatcher_default = 0"
  "elevation_backoff DualPathWatcher_default = 2"
  "elevated DualPathWatcher_default = False"
  "quorum_threshold DualPathWatcher_default = 3"
  "fast_path_score DualPathWatcher_default = 9 / 10"
  "node_score_threshold DualPathWatcher_default = 7 / 10"
  "consecutive_elevations DualPathWatcher_default = 0"
  by (simp_all add: DualPathWatcher_default_def DualPathWatcher_init_def)

lemma example_metrics_fields:
  "witness_count (example_metrics wc mean p95) = wc"
  "mean_score (example_metrics wc mean p95) = mean"
  "p95_score (example_metrics wc mean p95) = p95"
  by (simp_all add: example_metrics_def QuorumMetrics_init_def)

theorem should_elevate_predicate_witness:
  "should_elevate DualPathWatcher_default (Some (example_metrics 3 (75 / 100) (95 / 100))) 1
     = ((False, Backoff), DualPathWatcher_default)
   \<and> should_elevate (DualPathWatcher_default\<lparr>elevated := True\<rparr>)
        (Some (example_metrics 3 (75 / 100) (95 / 100))) 10
     = ((False, AlreadyElevated), DualPathWatcher_default\<lparr>elevated := True\<rparr>)
   \<and> should_elevate DualPathWatcher_default (Some (example_metrics 2 (75 / 100) (95 / 100))) 10
     = ((False, QuorumShort 2 3), DualPathWatcher_default)
   \<and> should_elevate DualPathWatcher_default (Some (example_metrics 3 (50 / 100) (95 / 100))) 10
     = ((True, FastPath 3 (95 / 100)), DualPathWatcher_default\<lparr>elevated := True\<rparr>)
   \<and> should_elevate DualPathWatcher_default (Some (example_metrics 3 (75 / 100) (80 / 100))) 10
     = ((False, Building 1), DualPathWatcher_default\<lparr>consecutive_elevations := 1\<rparr>)
   \<and> should_elevate (DualPathWatcher_default\<lparr>consecutive_elevations := 1\<rparr>)
        (Some (example_metrics 3 (75 / 100) (80 / 100))) 10
     = ((True, Hysteresis 3 (75 / 100) 2),
        DualPathWatcher_default\<lparr>consecutive_elevations := 2, elevated := True\<rparr>)
   \<and> should_elevate (DualPathWatcher_default\<lparr>consecutive_elevations := 1\<rparr>)
        (Some (example_metrics 3 (50 / 100) (80 / 100))) 10
     = ((False, ResetHysteresis), DualPathWatcher_default\<lparr>consecutive_elevations := 0\<rparr>)"
proof -
  note f = example_watcher_fields example_metrics_fields
  have c1: "should_elevate DualPathWatcher_default (Some (example_metrics 3 (75 / 100) (95 / 100))) 1
     = ((False, Backoff), DualPathWatcher_default)"
    using should_elevate_predicate
            [of DualPathWatcher_default "example_metrics 3 (75 / 100) (95 / 100)" 1]
    by (simp add: f)
  have c2: "should_elevate (DualPathWatcher_default\<lparr>elevated := True\<rparr>)
        (Some (example_metrics 3 (75 / 100) (95 / 100))) 10
     = ((False, AlreadyElevated), DualPathWatcher_default\<lparr>elevated := True\<rparr>)"
    using should_elevate_predicate
            [of "DualPathWatcher_default\<lparr>elevated := True\<rparr>"
                "example_metrics 3 (75 / 100) (95 / 100)" 10]
    by (simp add: f)
  have c3: "should_elevate DualPathWatcher_default (Some (example_metrics 2 (75 / 100) (95 / 100))) 10
     = ((False, QuorumShort 2 3), DualPathWatcher_default)"
    using should_elevate_predicate
            [of DualPathWatcher_default "example_metrics 2 (75 / 100) (95 / 100)" 10]
    by (simp add: f)
  have c4: "should_elevate DualPathWatcher_default (Some (example_metrics 3 (50 / 100) (95 / 100))) 10
     = ((True, FastPath 3 (95 / 100)), DualPathWatcher_default\<lparr>elevated := True\<rparr>)"
    using should_elevate_predicate
            [of DualPathWatcher_default "example_metrics 3 (50 / 100) (95 / 100)" 10]
    by (simp add: f)
  have c5: "should_elevate DualPathWatcher_default (Some (example_metrics 3 (75 / 100) (80 / 100))) 10
     = ((False, Building 1), DualPathWatcher_default\<lparr>consecutive_elevations := 1\<rparr>)"
    using should_elevate_predicate
            [of DualPathWatcher_default "example_metrics 3 (75 / 100) (80 / 100)" 10]
    by (simp add: f)
  have c6: "should_elevate (DualPathWatcher_default\<lparr>consecutive_elevations := 1\<rparr>)
        (Some (example_metrics 3 (75 / 100) (80 / 100))) 10
     = ((True, Hysteresis 3 (75 / 100) 2),
        DualPathWatcher_default\<lparr>consecutive_elevations := 2, elevated := True\<rparr>)"
    using should_elevate_predicate
            [of "DualPathWatcher_default\<lparr>consecutive_elevations := 1\<rparr>"
                "example_metrics 3 (75 / 100) (80 / 100)" 10]
    by (simp add: f)
  have c7: "should_elevate (DualPathWatcher_default\<lparr>consecutive_elevations := 1\<rparr>)
        (Some (example_metrics 3 (50 / 100) (80 / 100))) 10
     = ((False, ResetHysteresis), DualPathWatcher_default\<lparr>consecutive_elevations := 0\<rparr>)"
    using should_elevate_predicate
            [of "DualPathWatcher_default\<lparr>consecutive_elevations := 1\<rparr>"
                "example_metrics 3 (50 / 100) (80 / 100)" 10]
    by (simp add: f)
  show ?thesis using c1 c2 c3 c4 c5 c6 c7 by blast
qed

subsection \<open>Quorum statistics\<close>












subsection \<open>Elevation artifacts\<close>

lemma str_int_409: "str_int 409 = ''409''"
  by (simp add: str_int_def str_nat.simps)

lemma conflict_text: "str_contains ''409'' (exn_str (ApiException 409 rest))"
  by (simp add: str_int_409)

lemma bg_calls:
  "io_calls (create_elevation_artifact_bg w m run_id ts reason api)
     = [create_namespaced_config_map (namespace w) (elevation_config_map w m run_id ts reason)]"
  by (simp add: create_elevation_artifact_bg_def Let_def split: option.split)

lemma bg_conflict:
  assumes "\<And>c. api c = None \<or> (\<exists>rest. api c = Some (ApiException 409 rest))"
  shows "io_errors (create_elevation_artifact_bg w m run_id ts reason api) = []
         \<and> io_uncaught (create_elevation_artifact_bg w m run_id ts reason api) = None"
proof -
  define c where "c = create_namespaced_config_map (namespace w)
                        (elevation_config_map w m run_id ts reason)"
  have "api c = None \<or> (\<exists>rest. api c = Some (ApiException 409 rest))" by (rule assms)
  then show ?thesis
    unfolding create_elevation_artifact_bg_def Let_def c_def [symmetric]
    using conflict_text by auto
qed

lemma fastpath_calls:
  "io_calls (create_fastpath_elevation_artifact L w ev api)
     = [create_namespaced_config_map (namespace w) (fastpath_config_map L w ev)]"
  by (simp add: create_fastpath_elevation_artifact_def Let_def split: option.split api_exn.split)

lemma fastpath_conflict:
  assumes "\<And>c. api c = None \<or> (\<exists>rest. api c = Some (ApiException 409 rest))"
  shows "io_errors (create_fastpath_elevation_artifact L w ev api) = []
         \<and> io_uncaught (create_fastpath_elevation_artifact L w ev api) = None"
proof -
  define c where "c = create_namespaced_config_map (namespace w) (fastpath_config_map L w ev)"
  have "api c = None \<or> (\<exists>rest. api c = Some (ApiException 409 rest))" by (rule assms)
  then show ?thesis
    unfolding create_fastpath_elevation_artifact_def Let_def c_def [symmetric]
    by auto
qed

lemma fastpath_event_shape:
  assumes "fastpath_elevation_event d a sc ts = Inr ev"
  shows "map fst ev = [''elevation'', ''decision_ts_server'', ''source'', ''node'', ''score'',
                       ''witness_count'', ''selector'', ''event_type'', ''latency_ms'', ''run_id'']
         \<and> jget d ''run_id'' (JStr []) = Inr (case map_of ev ''run_id'' of None \<Rightarrow> JStr [] | Some v \<Rightarrow> v)"
  using assms unfolding fastpath_elevation_event_def
  by (auto split: sum.splits)

lemma handle_fastpath_cases:
  assumes "fst (handle_fastpath_signal L w d now_iso perf api) \<noteq> w"
  shows "\<exists>a sc ev. fastpath_elevation_event d a sc now_iso = Inr ev
           \<and> handle_fastpath_signal L w d now_iso perf api
               = (w\<lparr>last_elevation := perf, elevated := True\<rparr>,
                  create_fastpath_elevation_artifact L w ev api)"
  using assms unfolding handle_fastpath_signal_def
  by (auto split: sum.splits option.splits if_splits)

lemma on_lease_elevates:
  assumes "compute_sliding_window_quorum L
             (w\<lparr>signals := (if length (signals w @ [s]) > 1000
                             then drop (length (signals w @ [s]) - 500) (signals w @ [s])
                             else signals w @ [s])\<rparr>) wall run_id = Some m"
      and "should_elevate
             (w\<lparr>signals := (if length (signals w @ [s]) > 1000
                             then drop (length (signals w @ [s]) - 500) (signals w @ [s])
                             else signals w @ [s])\<rparr>) (Some m) perf = ((True, r), w2)"
  shows "snd (on_lease_signal L w s run_id wall now_iso perf perf' api)
           = create_elevation_artifact_bg w2 m run_id now_iso (reason_str L r) api"
  using assms
  by (simp add: on_lease_signal_def Let_def)

lemma elevation_config_map_fields:
  assumes "rid \<noteq> []"
  shows "cm_name (elevation_config_map w m (Some rid) ts reason) = ''aswarm-elevated-'' @ rid"
    and "map fst (cm_data (elevation_config_map w m (Some rid) ts reason)) = [''elevation.json'']"
    and "elevation_json_keys (elevation_config_map w m (Some rid) ts reason)
           = [''run_id'', ''decision_ts_server'', ''witness_count'', ''mean_score'', ''p95_score'',
              ''threshold'', ''window_ms'', ''reason'']"
    and "map_of (cm_data (elevation_config_map w m (Some rid) ts reason)) ''elevation.json''
           = Some (JObj [(''run_id'', JStr rid),
                         (''decision_ts_server'', JStr ts),
                         (''witness_count'', JInt (witness_count m)),
                         (''mean_score'', JFloat (mean_score m)),
                         (''p95_score'', JFloat (p95_score m)),
                         (''threshold'', JInt (quorum_threshold w)),
                         (''window_ms'', JInt (int_of_float (window_s w * 1000))),
                         (''reason'', JStr reason)])"
  using assms by (simp_all add: elevation_config_map_def elevation_json_keys_def Let_def)

lemma fastpath_config_map_fields:
  assumes "map fst ev = ks"
      and "(case map_of ev ''run_id'' of None \<Rightarrow> JStr [] | Some v \<Rightarrow> v) = JStr rid" and "rid \<noteq> []"
  shows "cm_name (fastpath_config_map L w ev) = ''aswarm-elevated-fastpath-'' @ rid"
    and "map fst (cm_data (fastpath_config_map L w ev)) = [''elevation.json'']"
    and "elevation_json_keys (fastpath_config_map L w ev) = ks"
  using assms by (simp_all add: fastpath_config_map_def elevation_json_keys_def Let_def)

text \<open>
  Claim C6, as amended. An elevation decided on the lease path is written, by one
  create-only call, as the config map \<open>aswarm-elevated-<runid>\<close> whose single data field
  \<open>elevation.json\<close> holds run_id, decision_ts_server, witness_count, mean_score, p95_score,
  threshold, window_ms and reason. An elevation triggered by a fast-path signal is
  written, by one create-only call, as the config map
  \<open>aswarm-elevated-fastpath-<runid>\<close> whose single data field \<open>elevation.json\<close> holds
  elevation, decision_ts_server, source, node, score, witness_count, selector, event_type,
  latency_ms and run_id. On both paths an answer of HTTP 409 to the creation logs no error
  and raises nothing.
\<close>

theorem elevation_artifact_emission:
  assumes "rid \<noteq> []"
  shows
    "(compute_sliding_window_quorum L
        (w\<lparr>signals := (if length (signals w @ [s]) > 1000
                        then drop (length (signals w @ [s]) - 500) (signals w @ [s])
                        else signals w @ [s])\<rparr>) wall (Some rid) = Some m
      \<and> should_elevate
          (w\<lparr>signals := (if length (signals w @ [s]) > 1000
                          then drop (length (signals w @ [s]) - 500) (signals w @ [s])
                          else signals w @ [s])\<rparr>) (Some m) perf = ((True, r), w2)
      \<longrightarrow>
        (\<forall>c \<in> set (io_calls (snd (on_lease_signal L w s (Some rid) wall now_iso perf perf' api))).
            is_create c)
        \<and> map cm_name (created_maps
              (io_calls (snd (on_lease_signal L w s (Some rid) wall now_iso perf perf' api))))
            = [''aswarm-elevated-'' @ rid]
        \<and> map (map fst \<circ> cm_data) (created_maps
              (io_calls (snd (on_lease_signal L w s (Some rid) wall now_iso perf perf' api))))
            = [[''elevation.json'']]
        \<and> map elevation_json_keys (created_maps
              (io_calls (snd (on_lease_signal L w s (Some rid) wall now_iso perf perf' api))))
            = [[''run_id'', ''decision_ts_server'', ''witness_count'', ''mean_score'',
                ''p95_score'', ''threshold'', ''window_ms'', ''reason'']]
        \<and> ((\<forall>c. api c = None \<or> (\<exists>rest. api c = Some (ApiException 409 rest))) \<longrightarrow>
             io_errors (snd (on_lease_signal L w s (Some rid) wall now_iso perf perf' api)) = []
             \<and> io_uncaught (snd (on_lease_signal L w s (Some rid) wall now_iso perf perf' api))
                 = None))
     \<and> (fst (handle_fastpath_signal L w d now_iso perf api) \<noteq> w
        \<and> jget d ''run_id'' (JStr []) = Inr (JStr rid)
      \<longrightarrow>
        (\<forall>c \<in> set (io_calls (snd (handle_fastpath_signal L w d now_iso perf api))). is_create c)
        \<and> map cm_name (created_maps (io_calls (snd (handle_fastpath_signal L w d now_iso perf api))))
            = [''aswarm-elevated-fastpath-'' @ rid]
        \<and> map (map fst \<circ> cm_data)
              (created_maps (io_calls (snd (handle_fastpath_signal L w d now_iso perf api))))
            = [[''elevation.json'']]
        \<and> map elevation_json_keys
              (created_maps (io_calls (snd (handle_fastpath_signal L w d now_iso perf api))))
            = [[''elevation'', ''decision_ts_server'', ''source'', ''node'', ''score'',
                ''witness_count'', ''selector'', ''event_type'', ''latency_ms'', ''run_id'']]
        \<and> ((\<forall>c. api c = None \<or> (\<exists>rest. api c = Some (ApiException 409 rest))) \<longrightarrow>
             io_errors (snd (handle_fastpath_signal L w d now_iso perf api)) = []
             \<and> io_uncaught (snd (handle_fastpath_signal L w d now_iso perf api)) = None))"
proof (intro conjI impI)
  let ?w1 = "w\<lparr>signals := (if length (signals w @ [s]) > 1000
                        then drop (length (signals w @ [s]) - 500) (signals w @ [s])
                        else signals w @ [s])\<rparr>"
  let ?lease = "snd (on_lease_signal L w s (Some rid) wall now_iso perf perf' api)"
  assume h: "compute_sliding_window_quorum L ?w1 wall (Some rid) = Some m
      \<and> should_elevate ?w1 (Some m) perf = ((True, r), w2)"
  have eq: "?lease = create_elevation_artifact_bg w2 m (Some rid) now_iso (reason_str L r) api"
    using on_lease_elevates [where L = L and w = w and s = s and wall = wall
        and run_id = "Some rid" and m = m and perf = perf and r = r and ?w2.0 = w2] h by blast
  note f = elevation_config_map_fields [OF assms]
  show "\<forall>c \<in> set (io_calls ?lease). is_create c" unfolding eq bg_calls by simp
  show "map cm_name (created_maps (io_calls ?lease)) = [''aswarm-elevated-'' @ rid]"
    unfolding eq bg_calls by (simp add: f)
  show "map (map fst \<circ> cm_data) (created_maps (io_calls ?lease)) = [[''elevation.json'']]"
    unfolding eq bg_calls by (simp add: f)
  show "map elevation_json_keys (created_maps (io_calls ?lease))
          = [[''run_id'', ''decision_ts_server'', ''witness_count'', ''mean_score'',
              ''p95_score'', ''threshold'', ''window_ms'', ''reason'']]"
    unfolding eq bg_calls by (simp add: f)
  {
    assume a: "\<forall>c. api c = None \<or> (\<exists>rest. api c = Some (ApiException 409 rest))"
    have b: "io_errors ?lease = [] \<and> io_uncaught ?lease = None"
      unfolding eq by (rule bg_conflict) (use a in blast)
    show "io_errors ?lease = []" using b by simp
    show "io_uncaught ?lease = None" using b by simp
  }
next
  let ?fp = "snd (handle_fastpath_signal L w d now_iso perf api)"
  assume h: "fst (handle_fastpath_signal L w d now_iso perf api) \<noteq> w
        \<and> jget d ''run_id'' (JStr []) = Inr (JStr rid)"
  then obtain a sc ev where ev: "fastpath_elevation_event d a sc now_iso = Inr ev"
    and eq0: "handle_fastpath_signal L w d now_iso perf api
               = (w\<lparr>last_elevation := perf, elevated := True\<rparr>,
                  create_fastpath_elevation_artifact L w ev api)"
    using handle_fastpath_cases [of L w d now_iso perf api] by blast
  have eq: "?fp = create_fastpath_elevation_artifact L w ev api" using eq0 by simp
  have keys: "map fst ev = [''elevation'', ''decision_ts_server'', ''source'', ''node'', ''score'',
                       ''witness_count'', ''selector'', ''event_type'', ''latency_ms'', ''run_id'']"
    and rid: "(case map_of ev ''run_id'' of None \<Rightarrow> JStr [] | Some v \<Rightarrow> v) = JStr rid"
    using fastpath_event_shape [OF ev] h by simp_all
  note f = fastpath_config_map_fields [OF keys rid assms]
  show "\<forall>c \<in> set (io_calls ?fp). is_create c" unfolding eq fastpath_calls by simp
  show "map cm_name (created_maps (io_calls ?fp)) = [''aswarm-elevated-fastpath-'' @ rid]"
    unfolding eq fastpath_calls by (simp add: f)
  show "map (map fst \<circ> cm_data) (created_maps (io_calls ?fp)) = [[''elevation.json'']]"
    unfolding eq fastpath_calls by (simp add: f)
  show "map elevation_json_keys (created_maps (io_calls ?fp))
          = [[''elevation'', ''decision_ts_server'', ''source'', ''node'', ''score'',
              ''witness_count'', ''selector'', ''event_type'', ''latency_ms'', ''run_id'']]"
    unfolding eq fastpath_calls by (simp add: f)
  {
    assume a: "\<forall>c. api c = None \<or> (\<exists>rest. api c = Some (ApiException 409 rest))"
    have b: "io_errors ?fp = [] \<and> io_uncaught ?fp = None"
      unfolding eq by (rule fastpath_conflict) (use a in blast)
    show "io_errors ?fp = []" using b by simp
    show "io_uncaught ?fp = None" using b by simp
  }
qed

lemma example_lease_quorum:
  "compute_sliding_window_quorum example_lib
     (example_watcher1\<lparr>signals :=
        (if length (signals example_watcher1 @ [example_signal ''node-a'' 0.95 100]) > 1000
         then drop (length (signals example_watcher1 @ [example_signal ''node-a'' 0.95 100]) - 500)
                (signals example_watcher1 @ [example_signal ''node-a'' 0.95 100])
         else signals example_watcher1 @ [example_signal ''node-a'' 0.95 100])\<rparr>)
     100 (Some ''run-1'')
   = Some (QuorumMetrics_init 1 1 (95 / 100) (95 / 100) (100 - 80 / 1000) 100)"
  by (simp add: compute_sliding_window_quorum_def window_signals_def example_watcher1_def
        DualPathWatcher_init_def example_signal_def Let_def p95_index_def float_sum_def
        example_lib_def)

lemma example_lease_decision:
  "should_elevate
     (example_watcher1\<lparr>signals :=
        (if length (signals example_watcher1 @ [example_signal ''node-a'' 0.95 100]) > 1000
         then drop (length (signals example_watcher1 @ [example_signal ''node-a'' 0.95 100]) - 500)
                (signals example_watcher1 @ [example_signal ''node-a'' 0.95 100])
         else signals example_watcher1 @ [example_signal ''node-a'' 0.95 100])\<rparr>)
     (Some (QuorumMetrics_init 1 1 (95 / 100) (95 / 100) (100 - 80 / 1000) 100)) 10
   = ((True, FastPath 1 (95 / 100)),
      example_watcher1\<lparr>signals := [example_signal ''node-a'' 0.95 100], elevated := True\<rparr>)"
  by (simp add: should_elevate_def example_watcher1_def DualPathWatcher_init_def
        QuorumMetrics_init_def Let_def)

lemma example_fastpath_decision:
  "fst (handle_fastpath_signal example_lib example_watcher1 example_fastpath_payload ts 10 api)
     \<noteq> example_watcher1"
  by (simp add: handle_fastpath_signal_def fastpath_elevation_event_def jget_def
        example_fastpath_payload_def example_watcher1_def DualPathWatcher_init_def)

lemma example_fastpath_run_id:
  "jget example_fastpath_payload ''run_id'' (JStr []) = Inr (JStr ''run-1'')"
  by (simp add: jget_def example_fastpath_payload_def)

theorem elevation_artifact_emission_witness:
  "map cm_name (created_maps (io_calls (snd
       (on_lease_signal example_lib example_watcher1 (example_signal ''node-a'' 0.95 100)
          (Some ''run-1'') 100 ''2025-01-01T00:00:00+00:00'' 10 11 example_api_conflict))))
     = [''aswarm-elevated-run-1'']
   \<and> io_errors (snd
       (on_lease_signal example_lib example_watcher1 (example_signal ''node-a'' 0.95 100)
          (Some ''run-1'') 100 ''2025-01-01T00:00:00+00:00'' 10 11 example_api_conflict)) = []
   \<and> map cm_name (created_maps (io_calls (snd
       (handle_fastpath_signal example_lib example_watcher1 example_fastpath_payload
          ''2025-01-01T00:00:00+00:00'' 10 example_api_conflict))))
     = [''aswarm-elevated-fastpath-run-1'']
   \<and> io_errors (snd
       (handle_fastpath_signal example_lib example_watcher1 example_fastpath_payload
          ''2025-01-01T00:00:00+00:00'' 10 example_api_conflict)) = []"
proof -
  have rid: "''run-1'' \<noteq> []" by simp
  have api: "\<forall>c. example_api_conflict c = None
                \<or> (\<exists>rest. example_api_conflict c = Some (ApiException 409 rest))"
    by (simp add: example_api_conflict_def)
  note inst = elevation_artifact_emission [OF rid,
      where w = example_watcher1 and s = "example_signal ''node-a'' 0.95 100" and wall = 100
        and m = "QuorumMetrics_init 1 1 (95 / 100) (95 / 100) (100 - 80 / 1000) 100"
        and perf = 10 and r = "FastPath 1 (95 / 100)"
        and ?w2.0 = "example_watcher1\<lparr>signals := [example_signal ''node-a'' 0.95 100],
                                      elevated := True\<rparr>"
        and L = example_lib and now_iso = "''2025-01-01T00:00:00+00:00''" and perf' = 11
        and api = example_api_conflict and d = example_fastpath_payload]
  note lease = mp [OF inst [THEN conjunct1]
      conjI [OF example_lease_quorum example_lease_decision]]
  note fast = mp [OF inst [THEN conjunct2]
      conjI [OF example_fastpath_decision example_fastpath_run_id]]
  have l1: "map cm_name (created_maps (io_calls (snd
       (on_lease_signal example_lib example_watcher1 (example_signal ''node-a'' 0.95 100)
          (Some ''run-1'') 100 ''2025-01-01T00:00:00+00:00'' 10 11 example_api_conflict))))
     = [''aswarm-elevated-'' @ ''run-1'']"
    using lease by (elim conjE)
  have l2: "io_errors (snd
       (on_lease_signal example_lib example_watcher1 (example_signal ''node-a'' 0.95 100)
          (Some ''run-1'') 100 ''2025-01-01T00:00:00+00:00'' 10 11 example_api_conflict)) = []"
    using lease api by (elim conjE) simp
  have f1: "map cm_name (created_maps (io_calls (snd
       (handle_fastpath_signal example_lib example_watcher1 example_fastpath_payload
          ''2025-01-01T00:00:00+00:00'' 10 example_api_conflict))))
     = [''aswarm-elevated-fastpath-'' @ ''run-1'']"
    using fast by (elim conjE)
  have f2: "io_errors (snd
       (handle_fastpath_signal example_lib example_watcher1 example_fastpath_payload
          ''2025-01-01T00:00:00+00:00'' 10 example_api_conflict)) = []"
    using fast api by (elim conjE) simp
  show ?thesis using l1 l2 f1 f2 by simp
qed

theorem elevation_artifact_counterexample:
  "''confidence'' \<notin> set (concat (map elevation_json_keys (created_maps (io_calls (snd
       (on_lease_signal example_lib example_watcher1 (example_signal ''node-a'' 0.95 100)
          (Some ''run-1'') 100 ''2025-01-01T00:00:00+00:00'' 10 11 example_api_ok))))))
   \<and> map cm_name (created_maps (io_calls (snd
       (handle_fastpath_signal example_lib example_watcher1 example_fastpath_payload
          ''2025-01-01T00:00:00+00:00'' 10 example_api_ok))))
     = [''aswarm-elevated-fastpath-run-1'']
   \<and> map elevation_json_keys (created_maps (io_calls (snd
       (handle_fastpath_signal example_lib example_watcher1 example_fastpath_payload
          ''2025-01-01T00:00:00+00:00'' 10 example_api_ok))))
     = [[''elevation'', ''decision_ts_server'', ''source'', ''node'', ''score'',
         ''witness_count'', ''selector'', ''event_type'', ''latency_ms'', ''run_id'']]"
proof -
  have lease: "snd (on_lease_signal example_lib example_watcher1 (example_signal ''node-a'' 0.95 100)
          (Some ''run-1'') 100 ''2025-01-01T00:00:00+00:00'' 10 11 example_api_ok)
     = create_elevation_artifact_bg
         (example_watcher1\<lparr>signals := [example_signal ''node-a'' 0.95 100], elevated := True\<rparr>)
         (QuorumMetrics_init 1 1 (95 / 100) (95 / 100) (100 - 80 / 1000) 100) (Some ''run-1'')
         ''2025-01-01T00:00:00+00:00'' (reason_str example_lib (FastPath 1 (95 / 100)))
         example_api_ok"
    by (rule on_lease_elevates [OF example_lease_quorum example_lease_decision])
  have fp: "snd (handle_fastpath_signal example_lib example_watcher1 example_fastpath_payload
          ''2025-01-01T00:00:00+00:00'' 10 example_api_ok)
     = create_fastpath_elevation_artifact example_lib example_watcher1
         [(''elevation'', JBool True),
          (''decision_ts_server'', JStr ''2025-01-01T00:00:00+00:00''),
          (''source'', JStr ''fastpath''),
          (''node'', JStr ''node-a''),
          (''score'', JFloat 0.95),
          (''witness_count'', JInt 4),
          (''selector'', JStr ''app=web''),
          (''event_type'', JStr ''fastpath''),
          (''latency_ms'', JInt 0),
          (''run_id'', JStr ''run-1'')] example_api_ok"
    by (simp add: handle_fastpath_signal_def fastpath_elevation_event_def jget_def
          example_fastpath_payload_def example_watcher1_def DualPathWatcher_init_def)
  show ?thesis
    unfolding lease fp bg_calls fastpath_calls
    by (simp add: elevation_config_map_def fastpath_config_map_def elevation_json_keys_def Let_def)
qed

subsection \<open>Fast-path sender\<close>

lemma seq16_range: "0 \<le> (x::int) AND 0xFFFF \<and> x AND 0xFFFF < 65536"
proof -
  have "0 \<le> x AND 0xFFFF" by (simp add: and_nonnegative_int_iff)
  moreover have "x AND 0xFFFF \<le> 0xFFFF" by (rule AND_upper2) simp
  ultimately show ?thesis by simp
qed

lemma nonce_small:
  assumes "0 \<le> seq16" "seq16 < 65536" "0 \<le> seq32" "seq32 < 65536" "0 \<le> (rb::int)" "rb < 2 ^ 32"
  shows "0 \<le> rb XOR (seq16 OR push_bit 16 seq32) \<and> rb XOR (seq16 OR push_bit 16 seq32) < 2 ^ 32"
proof -
  have p: "0 \<le> push_bit 16 seq32" "push_bit 16 seq32 < 2 ^ 32"
    using assms by (simp_all add: push_bit_eq_mult)
  have s: "seq16 < 2 ^ 32" using assms by simp
  have o1: "0 \<le> seq16 OR push_bit 16 seq32" using assms p by simp
  have o2: "seq16 OR push_bit 16 seq32 < 2 ^ 32" using assms(1) s p(2) by (rule OR_upper)
  have x1: "0 \<le> rb XOR (seq16 OR push_bit 16 seq32)" using assms o1 by simp
  have x2: "rb XOR (seq16 OR push_bit 16 seq32) < 2 ^ 32" using assms(5,6) o2 by (rule XOR_upper)
  show ?thesis using x1 x2 by simp
qed

lemma nonce_large:
  assumes "0 \<le> seq16" "65536 \<le> seq32" "0 \<le> (rb::int)" "rb < 2 ^ 32"
  shows "2 ^ 32 \<le> rb XOR (seq16 OR push_bit 16 seq32)"
proof -
  let ?x = "seq16 OR push_bit 16 seq32"
  have p: "(2::int) ^ 32 \<le> push_bit 16 seq32" using assms by (simp add: push_bit_eq_mult)
  have "push_bit 16 seq32 \<le> push_bit 16 seq32 OR seq16" using assms(1) by (rule or_greater_eq)
  then have x: "2 ^ 32 \<le> ?x" using p by (simp add: or.commute)
  have nn: "0 \<le> rb XOR ?x" using assms x by simp
  have "drop_bit 32 (rb XOR ?x) = drop_bit 32 rb XOR drop_bit 32 ?x" by (rule drop_bit_xor)
  moreover have "drop_bit 32 rb = 0" using assms by (simp add: drop_bit_eq_div)
  moreover have "1 \<le> drop_bit 32 ?x" using x by (simp add: drop_bit_eq_div pos_imp_zdiv_pos_iff)
  ultimately have "1 \<le> (rb XOR ?x) div 2 ^ 32" by (simp add: drop_bit_eq_div)
  then show ?thesis using nn by (simp add: pos_imp_zdiv_pos_iff)
qed

lemma randbits32_range: "0 \<le> randbits32 r \<and> randbits32 r < 2 ^ 32"
proof -
  have "r mod 2 ^ 32 < 2 ^ 32" by simp
  then have "int (r mod 2 ^ 32) < 2 ^ 32" by (metis of_nat_less_iff of_nat_numeral of_nat_power)
  then show ?thesis by (simp add: randbits32_def)
qed

lemma pack_fields_ok:
  assumes "\<forall>f \<in> set fs. 0 \<le> snd f \<and> snd f < 256 ^ fst f"
  shows "pack_fields fs = Inr (concat (map (\<lambda>f. pack_be (fst f) (snd f)) fs))"
  using assms by (induction fs) (auto simp: pack_field_def)

lemma pack_fields_error: "pack_fields fs = Inl e \<Longrightarrow> e = StructError"
  by (induction fs arbitrary: e) (auto simp: pack_field_def split: if_splits sum.splits)

lemma pack_fields_fail:
  assumes "f \<in> set fs" and "\<not> (0 \<le> snd f \<and> snd f < 256 ^ fst f)"
  shows "pack_fields fs = Inl StructError"
proof -
  have "\<exists>e. pack_fields fs = Inl e"
    using assms
  proof (induction fs)
    case Nil
    then show ?case by simp
  next
    case (Cons g gs)
    obtain k v where g: "g = (k, v)" by (cases g)
    show ?case
    proof (cases "f = g")
      case True
      then show ?thesis using Cons.prems(2) g by (auto simp: pack_field_def)
    next
      case False
      then have "f \<in> set gs" using Cons.prems(1) by simp
      then obtain e where "pack_fields gs = Inl e" using Cons.IH Cons.prems(2) by blast
      then show ?thesis using g by (auto split: sum.splits)
    qed
  qed
  then show ?thesis using pack_fields_error by blast
qed

lemma build_packet_overflow:
  assumes "snd_protocol_version s = V3" and "65536 \<le> snd_sequence s - 1"
  shows "build_packet L s (x AND 0xFFFF) payload ts r = Inl StructError"
proof -
  have "2 ^ 32 \<le> nonce32 s (x AND 0xFFFF) r"
    unfolding nonce32_def Let_def
    using nonce_large [of "x AND 0xFFFF" "snd_sequence s - 1" "randbits32 r"]
      seq16_range [of x] randbits32_range [of r] assms(2) by simp
  then have bad: "\<not> (0 \<le> snd (4::nat, nonce32 s (x AND 0xFFFF) r)
                    \<and> snd (4::nat, nonce32 s (x AND 0xFFFF) r) < 256 ^ fst (4::nat, nonce32 s (x AND 0xFFFF) r))"
    by simp
  have "pack_fields [(1, V3), (1, TYPE_ELEVATION), (8, ts), (4, snd_src_id s), (2, x AND 0xFFFF),
                   (4, nonce32 s (x AND 0xFFFF) r), (2, int (length payload)), (1, snd_key_id s)]
          = Inl StructError"
    by (rule pack_fields_fail [OF _ bad]) simp
  then show ?thesis using assms(1) by (simp add: build_packet_def)
qed

lemma send_elevation_overflow:
  assumes "snd_protocol_version s = V3" and "65536 \<le> snd_sequence s"
  shows "\<exists>e. send_elevation L s payload ts r = (Inl e, s\<lparr>snd_sequence := snd_sequence s + 1\<rparr>)"
  using build_packet_overflow [of "s\<lparr>snd_sequence := snd_sequence s + 1\<rparr>" L "snd_sequence s" payload ts r]
    assms
  by (simp add: send_elevation_def Let_def)

lemma send_all_overflow:
  assumes "snd_protocol_version s = V3" and "65536 \<le> snd_sequence s"
  shows "\<forall>res \<in> set (send_all L s reqs). \<exists>e. res = Inl e"
  using assms
proof (induction reqs arbitrary: s)
  case Nil
  then show ?case by simp
next
  case (Cons q reqs)
  obtain payload ts r where q: "q = (payload, ts, r)" by (cases q)
  let ?s' = "s\<lparr>snd_sequence := snd_sequence s + 1\<rparr>"
  obtain e where e: "send_elevation L s payload ts r = (Inl e, ?s')"
    using send_elevation_overflow [OF Cons.prems] by blast
  have "\<forall>res \<in> set (send_all L ?s' reqs). \<exists>e. res = Inl e"
    by (rule Cons.IH) (use Cons.prems in simp_all)
  then show ?case by (simp add: q e)
qed

lemma byte_of_int: "uint (word_of_int v :: byte) = v mod 256"
  by (simp add: uint_word_of_int take_bit_eq_mod)

lemma byte_mod: "(word_of_int v :: byte) = word_of_int (v mod 256)"
  by (metis byte_of_int word_of_int_uint)

lemma pack_be_1: "pack_be (Suc 0) v = [word_of_int (v mod 256)]"
  using byte_mod [of v] by simp

lemma pack_be_2: "pack_be 2 v = [word_of_int (v div 256 mod 256), word_of_int (v mod 256)]"
  using byte_mod [of v] byte_mod [of "v div 256"] by (simp add: numeral_eq_Suc)

lemma pack_be_4: "pack_be 4 v = pack_be 2 (v div 256 div 256) @ pack_be 2 v"
  by (simp add: numeral_eq_Suc)

lemma pack_be_8: "pack_be 8 v = pack_be 4 (v div 256 div 256 div 256 div 256) @ pack_be 4 v"
  by (simp add: numeral_eq_Suc)

lemma example_pack_ts:
  "pack_be 8 1700000000000 = [0x00, 0x00, 0x01, 0x8B, 0xCF, 0xE5, 0x68, 0x00]"
  unfolding pack_be_8 pack_be_4 pack_be_2 by simp

lemma build_packet_value:
  assumes "snd_protocol_version s = V3"
      and "\<forall>f \<in> set [(1, V3), (1, TYPE_ELEVATION), (8, ts), (4, snd_src_id s), (2, seq16),
                   (4, nonce32 s seq16 r), (2, int (length payload)), (1::nat, snd_key_id s)].
             0 \<le> snd f \<and> snd f < 256 ^ fst f"
  shows "build_packet L s seq16 payload ts r
         = Inr ((MAGIC @ pack_be 1 V3 @ pack_be 1 TYPE_ELEVATION @ pack_be 8 ts
                  @ pack_be 4 (snd_src_id s) @ pack_be 2 seq16 @ pack_be 4 (nonce32 s seq16 r)
                  @ pack_be 2 (int (length payload)) @ pack_be 1 (snd_key_id s) @ payload)
                @ hmac_sha256 L (snd_hmac_key s)
                    (MAGIC @ pack_be 1 V3 @ pack_be 1 TYPE_ELEVATION @ pack_be 8 ts
                      @ pack_be 4 (snd_src_id s) @ pack_be 2 seq16 @ pack_be 4 (nonce32 s seq16 r)
                      @ pack_be 2 (int (length payload)) @ pack_be 1 (snd_key_id s) @ payload))"
  unfolding build_packet_def Let_def
  using assms(1) pack_fields_ok [OF assms(2)] by simp

text \<open>
  Claim C10, as amended. For a version 3 sender whose key id, source id and clock fit
  their header fields (one byte, four bytes, eight bytes) and a payload within the budget:
  while the sequence counter is below \<open>2^16\<close> the nonce, the random draw XOR
  \<open>seq16 | (sequence << 16)\<close>, fits in 32 bits and \<open>send_elevation\<close> returns the packet
  made of the magic, the packed header fields, the payload and the HMAC of all that; once the
  counter has reached \<open>2^16\<close> the nonce is at least \<open>2^32\<close>, packing the header raises
  \<open>struct.error\<close>, the counter is still incremented, and every later call of
  \<open>send_elevation\<close> raises as well.
\<close>

theorem sender_sequence_limit:
  assumes "snd_protocol_version s = V3"
      and "0 \<le> snd_key_id s \<and> snd_key_id s \<le> 255"
      and "0 \<le> snd_src_id s \<and> snd_src_id s < 2 ^ 32"
      and "0 \<le> ts \<and> ts < 2 ^ 64"
      and "int (length payload) \<le> payload_budget s"
  shows "(0 \<le> snd_sequence s \<and> snd_sequence s < 65536 \<longrightarrow>
            0 \<le> nonce32 (s\<lparr>snd_sequence := snd_sequence s + 1\<rparr>) (snd_sequence s AND 0xFFFF) r
            \<and> nonce32 (s\<lparr>snd_sequence := snd_sequence s + 1\<rparr>) (snd_sequence s AND 0xFFFF) r < 2 ^ 32
            \<and> nonce32 (s\<lparr>snd_sequence := snd_sequence s + 1\<rparr>) (snd_sequence s AND 0xFFFF) r
                = randbits32 r XOR ((snd_sequence s AND 0xFFFF) OR push_bit 16 (snd_sequence s))
            \<and> (\<exists>pkt. send_elevation L s payload ts r
                        = (Inr pkt, s\<lparr>snd_sequence := snd_sequence s + 1\<rparr>))
            \<and> send_elevation L s payload ts r
                = (Inr ((MAGIC @ pack_be 1 V3 @ pack_be 1 TYPE_ELEVATION @ pack_be 8 ts
                          @ pack_be 4 (snd_src_id s) @ pack_be 2 (snd_sequence s AND 0xFFFF)
                          @ pack_be 4 (randbits32 r XOR ((snd_sequence s AND 0xFFFF)
                                                          OR push_bit 16 (snd_sequence s)))
                          @ pack_be 2 (int (length payload)) @ pack_be 1 (snd_key_id s) @ payload)
                        @ hmac_sha256 L (snd_hmac_key s)
                            (MAGIC @ pack_be 1 V3 @ pack_be 1 TYPE_ELEVATION @ pack_be 8 ts
                              @ pack_be 4 (snd_src_id s) @ pack_be 2 (snd_sequence s AND 0xFFFF)
                              @ pack_be 4 (randbits32 r XOR ((snd_sequence s AND 0xFFFF)
                                                              OR push_bit 16 (snd_sequence s)))
                              @ pack_be 2 (int (length payload)) @ pack_be 1 (snd_key_id s)
                              @ payload)),
                   s\<lparr>snd_sequence := snd_sequence s + 1\<rparr>))
       \<and> (65536 \<le> snd_sequence s \<longrightarrow>
            2 ^ 32 \<le> nonce32 (s\<lparr>snd_sequence := snd_sequence s + 1\<rparr>) (snd_sequence s AND 0xFFFF) r
            \<and> send_elevation L s payload ts r
                 = (Inl StructError, s\<lparr>snd_sequence := snd_sequence s + 1\<rparr>)
            \<and> (\<forall>reqs. \<forall>res \<in> set (send_all L s reqs). \<exists>e. res = Inl e))"
proof (intro conjI impI)
  let ?s' = "s\<lparr>snd_sequence := snd_sequence s + 1\<rparr>"
  let ?seq16 = "snd_sequence s AND 0xFFFF"
  assume small: "0 \<le> snd_sequence s \<and> snd_sequence s < 65536"
  have n: "0 \<le> nonce32 ?s' ?seq16 r \<and> nonce32 ?s' ?seq16 r < 2 ^ 32"
    unfolding nonce32_def Let_def
    using nonce_small [of ?seq16 "snd_sequence s" "randbits32 r"] seq16_range [of "snd_sequence s"]
      randbits32_range [of r] small by simp
  show "0 \<le> nonce32 ?s' ?seq16 r" using n by simp
  show "nonce32 ?s' ?seq16 r < 2 ^ 32" using n by simp
  show nv: "nonce32 ?s' ?seq16 r = randbits32 r XOR (?seq16 OR push_bit 16 (snd_sequence s))"
    by (simp add: nonce32_def Let_def)
  have len: "int (length payload) \<le> 1141"
    using assms(1,5)
    by (simp add: payload_budget_def header_size_def MAX_PACKET_SIZE_def V3_HEADER_SIZE_def
          HMAC_SIZE_def)
  have f: "\<forall>f \<in> set [(1, V3), (1, TYPE_ELEVATION), (8, ts), (4, snd_src_id ?s'), (2, ?seq16),
                   (4, nonce32 ?s' ?seq16 r), (2, int (length payload)), (1::nat, snd_key_id ?s')].
          0 \<le> snd f \<and> snd f < 256 ^ fst f"
    using assms(2,3,4) n len seq16_range [of "snd_sequence s"]
    by (simp add: V3_def TYPE_ELEVATION_def)
  have v': "snd_protocol_version ?s' = V3" using assms(1) by simp
  note bp = build_packet_value [where L = L and payload = payload, OF v' f]
  have budget: "\<not> int (length payload) > payload_budget ?s'"
    using assms(5) by (simp add: payload_budget_def header_size_def)
  show se: "send_elevation L s payload ts r
                = (Inr ((MAGIC @ pack_be 1 V3 @ pack_be 1 TYPE_ELEVATION @ pack_be 8 ts
                          @ pack_be 4 (snd_src_id s) @ pack_be 2 (snd_sequence s AND 0xFFFF)
                          @ pack_be 4 (randbits32 r XOR ((snd_sequence s AND 0xFFFF)
                                                          OR push_bit 16 (snd_sequence s)))
                          @ pack_be 2 (int (length payload)) @ pack_be 1 (snd_key_id s) @ payload)
                        @ hmac_sha256 L (snd_hmac_key s)
                            (MAGIC @ pack_be 1 V3 @ pack_be 1 TYPE_ELEVATION @ pack_be 8 ts
                              @ pack_be 4 (snd_src_id s) @ pack_be 2 (snd_sequence s AND 0xFFFF)
                              @ pack_be 4 (randbits32 r XOR ((snd_sequence s AND 0xFFFF)
                                                              OR push_bit 16 (snd_sequence s)))
                              @ pack_be 2 (int (length payload)) @ pack_be 1 (snd_key_id s)
                              @ payload)),
                   s\<lparr>snd_sequence := snd_sequence s + 1\<rparr>)"
    unfolding send_elevation_def Let_def if_not_P [OF budget] bp nv by simp
  show "\<exists>pkt. send_elevation L s payload ts r = (Inr pkt, ?s')"
    unfolding se by blast
next
  let ?s' = "s\<lparr>snd_sequence := snd_sequence s + 1\<rparr>"
  let ?seq16 = "snd_sequence s AND 0xFFFF"
  assume large: "65536 \<le> snd_sequence s"
  show "2 ^ 32 \<le> nonce32 ?s' ?seq16 r"
    unfolding nonce32_def Let_def
    using nonce_large [of ?seq16 "snd_sequence s" "randbits32 r"] seq16_range [of "snd_sequence s"]
      randbits32_range [of r] large by simp
  have "build_packet L ?s' ?seq16 payload ts r = Inl StructError"
    by (rule build_packet_overflow) (use assms(1) large in simp_all)
  then show "send_elevation L s payload ts r = (Inl StructError, ?s')"
    using assms(5) by (simp add: send_elevation_def Let_def payload_budget_def header_size_def)
  show "\<forall>reqs. \<forall>res \<in> set (send_all L s reqs). \<exists>e. res = Inl e"
    using send_all_overflow [OF assms(1) large] by blast
qed

theorem sender_sequence_limit_witness:
  "snd_sequence example_sender < 65536
   \<and> send_elevation example_lib example_sender example_payload 1700000000000 7
       = (Inr ([0x41, 0x53, 0x57, 0x4D, 0x03, 0x01,
                0x00, 0x00, 0x01, 0x8B, 0xCF, 0xE5, 0x68, 0x00,
                0x0A, 0x0B, 0x0C, 0x0D, 0x00, 0x05, 0x00, 0x05, 0x00, 0x02,
                0x00, 0x0D, 0x01]
               @ example_payload @ replicate 32 0),
          example_sender\<lparr>snd_sequence := 6\<rparr>)
   \<and> 65536 \<le> snd_sequence (example_sender\<lparr>snd_sequence := 65536\<rparr>)
   \<and> send_elevation example_lib (example_sender\<lparr>snd_sequence := 65536\<rparr>) example_payload
         1700000000000 7
       = (Inl StructError, example_sender\<lparr>snd_sequence := 65537\<rparr>)"
proof -
  have v: "snd_protocol_version example_sender = V3"
          "snd_protocol_version (example_sender\<lparr>snd_sequence := 65536\<rparr>) = V3"
    by (simp_all add: example_sender_def V3_def)
  have k: "0 \<le> snd_key_id example_sender \<and> snd_key_id example_sender \<le> 255"
          "0 \<le> snd_key_id (example_sender\<lparr>snd_sequence := 65536\<rparr>)
           \<and> snd_key_id (example_sender\<lparr>snd_sequence := 65536\<rparr>) \<le> 255"
    by (simp_all add: example_sender_def)
  have i: "0 \<le> snd_src_id example_sender \<and> snd_src_id example_sender < 2 ^ 32"
          "0 \<le> snd_src_id (example_sender\<lparr>snd_sequence := 65536\<rparr>)
           \<and> snd_src_id (example_sender\<lparr>snd_sequence := 65536\<rparr>) < 2 ^ 32"
    by (simp_all add: example_sender_def)
  have t: "0 \<le> (1700000000000::int) \<and> (1700000000000::int) < 2 ^ 64" by simp
  have p: "int (length example_payload) \<le> payload_budget example_sender"
          "int (length example_payload) \<le> payload_budget (example_sender\<lparr>snd_sequence := 65536\<rparr>)"
    by (simp_all add: example_payload_def payload_budget_def header_size_def example_sender_def
          V3_def MAX_PACKET_SIZE_def V3_HEADER_SIZE_def HMAC_SIZE_def)
  have s5: "snd_sequence example_sender = 5" by (simp add: example_sender_def)
  have lt: "0 \<le> snd_sequence example_sender \<and> snd_sequence example_sender < 65536"
    by (simp add: s5)
  have len: "int (length example_payload) = 13" by (simp add: example_payload_def)
  have f: "snd_src_id example_sender = 168496141" "snd_key_id example_sender = 1"
          "snd_hmac_key example_sender = [0x6B, 0x65, 0x79]"
    by (simp_all add: example_sender_def)
  have nonce: "randbits32 7 XOR (((5::int) AND 0xFFFF) OR push_bit 16 5) = 327682"
    by (simp add: randbits32_def push_bit_eq_mult)
  have s16: "(5::int) AND 0xFFFF = 5" by simp
  note inst = sender_sequence_limit [OF v(1) k(1) i(1) t p(1), of 7 example_lib, THEN conjunct1]
  note sm = mp [OF inst lt, THEN conjunct2, THEN conjunct2, THEN conjunct2, THEN conjunct2]
  have small: "send_elevation example_lib example_sender example_payload 1700000000000 7
       = (Inr ([0x41, 0x53, 0x57, 0x4D, 0x03, 0x01,
                0x00, 0x00, 0x01, 0x8B, 0xCF, 0xE5, 0x68, 0x00,
                0x0A, 0x0B, 0x0C, 0x0D, 0x00, 0x05, 0x00, 0x05, 0x00, 0x02,
                0x00, 0x0D, 0x01]
               @ example_payload @ replicate 32 0),
          example_sender\<lparr>snd_sequence := 6\<rparr>)"
    unfolding sm s5 len f nonce s16 example_pack_ts pack_be_4 pack_be_2
    by (simp add: pack_be_1 MAGIC_def V3_def TYPE_ELEVATION_def example_lib_def randbits32_def
          push_bit_eq_mult del: pack_be.simps)
  have large: "send_elevation example_lib (example_sender\<lparr>snd_sequence := 65536\<rparr>)
         example_payload 1700000000000 7
       = (Inl StructError, example_sender\<lparr>snd_sequence := 65536\<rparr>
            \<lparr>snd_sequence := snd_sequence (example_sender\<lparr>snd_sequence := 65536\<rparr>) + 1\<rparr>)"
    using sender_sequence_limit [OF v(2) k(2) i(2) t p(2), of 7 example_lib] by simp
  show ?thesis using small large s5 by simp
qed

theorem sender_sequence_counterexample:
  "snd_protocol_version (example_sender\<lparr>snd_key_id := 256\<rparr>) = V3
   \<and> snd_sequence (example_sender\<lparr>snd_key_id := 256\<rparr>) = 5
   \<and> send_elevation example_lib (example_sender\<lparr>snd_key_id := 256\<rparr>) example_payload
         1700000000000 7
       = (Inl StructError, example_sender\<lparr>snd_key_id := 256, snd_sequence := 6\<rparr>)"
proof -
  have "pack_fields [(1, V3), (1, TYPE_ELEVATION), (8, 1700000000000), (4, 168496141), (2, 5),
           (4, nonce32 (example_sender\<lparr>snd_key_id := 256, snd_sequence := 6\<rparr>) 5 7),
           (2, 13), (1::nat, 256)] = Inl StructError"
    by (rule pack_fields_fail [where f = "(1, 256)"]) simp_all
  then show ?thesis
    by (simp add: send_elevation_def build_packet_def Let_def example_sender_def V3_def
          payload_budget_def header_size_def MAX_PACKET_SIZE_def V3_HEADER_SIZE_def HMAC_SIZE_def
          example_payload_def)
qed

subsection \<open>Per-source replay window\<close>

lemma check_sequence_None:
  assumes "seqs src = Some (H, seen)"
  shows "check_sequence seqs src seq = None \<longleftrightarrow> seq \<le> H - 256 \<or> seq |\<in>| seen"
  using assms by (simp add: check_sequence_def Let_def)

lemma check_sequence_Some:
  assumes "seqs src = Some (H, seen)" and "H - 256 < seq" and "seq |\<notin>| seen"
  shows "\<exists>seen'. check_sequence seqs src seq = Some (seqs(src \<mapsto> (max H seq, seen')))
                 \<and> seq |\<in>| seen'"
proof -
  let ?h = "if seq > H then seq else H"
  have keep: "?h - 255 \<le> seq" using assms(2) by auto
  have m: "?h = max H seq" by auto
  show ?thesis
    using assms keep unfolding m
    by (auto simp: check_sequence_def Let_def)
qed

lemma check_sequence_once:
  assumes "seqs src = Some (H, seen)" and "H - 256 < seq" and "seq |\<notin>| seen"
  shows "\<exists>seqs'. check_sequence seqs src seq = Some seqs' \<and> check_sequence seqs' src seq = None"
proof -
  obtain seen' where s: "check_sequence seqs src seq = Some (seqs(src \<mapsto> (max H seq, seen')))"
    and m: "seq |\<in>| seen'"
    using check_sequence_Some [where seqs = seqs and src = src, OF assms] by blast
  have "check_sequence (seqs(src \<mapsto> (max H seq, seen'))) src seq = None"
    using m by (simp add: check_sequence_None [of _ src "max H seq" seen'])
  then show ?thesis using s by simp
qed

text \<open>
  Claim C2, as amended. For a source whose highest sequence seen is \<open>H\<close>: a packet with
  sequence \<open>H - 255\<close> that has not been seen is accepted by the per-source check, and a
  second packet with that sequence is then rejected as a replay; a packet with sequence
  \<open>H - 256\<close>, and one with sequence \<open>H - 257\<close>, is rejected as a replay whether it has
  been seen or not.
\<close>

theorem replay_window_boundary:
  assumes "seqs src = Some (H, seen)"
  shows "(seq = H - 255 \<and> seq |\<notin>| seen \<longrightarrow>
            (\<exists>seqs'. check_sequence seqs src seq = Some seqs'
                      \<and> check_sequence seqs' src seq = None))
         \<and> (seq = H - 256 \<longrightarrow> check_sequence seqs src seq = None)
         \<and> (seq = H - 257 \<longrightarrow> check_sequence seqs src seq = None)"
proof (intro conjI impI)
  assume "seq = H - 255 \<and> seq |\<notin>| seen"
  then show "\<exists>seqs'. check_sequence seqs src seq = Some seqs' \<and> check_sequence seqs' src seq = None"
    using check_sequence_once [where seqs = seqs and src = src and seq = seq, OF assms] by auto
next
  assume "seq = H - 256"
  then show "check_sequence seqs src seq = None" using check_sequence_None [where seqs = seqs and src = src, OF assms] by simp
next
  assume "seq = H - 257"
  then show "check_sequence seqs src seq = None" using check_sequence_None [where seqs = seqs and src = src, OF assms] by simp
qed

theorem replay_window_boundary_witness:
  "example_sequences 7 = Some (300, {|300|})
   \<and> (45::int) = 300 - 255 \<and> (45::int) |\<notin>| {|300|}
   \<and> (\<exists>seqs'. check_sequence example_sequences 7 45 = Some seqs'
               \<and> check_sequence seqs' 7 45 = None)
   \<and> check_sequence example_sequences 7 44 = None
   \<and> check_sequence example_sequences 7 43 = None"
proof -
  have a: "example_sequences 7 = Some (300, {|300|})" by (simp add: example_sequences_def)
  have b: "(45::int) = 300 - 255 \<and> (45::int) |\<notin>| {|300|}" by simp
  have c: "(44::int) = 300 - 256" by simp
  have d: "(43::int) = 300 - 257" by simp
  note r45 = replay_window_boundary [where seqs = example_sequences and src = 7 and seq = 45, OF a]
  note r44 = replay_window_boundary [where seqs = example_sequences and src = 7 and seq = 44, OF a]
  note r43 = replay_window_boundary [where seqs = example_sequences and src = 7 and seq = 43, OF a]
  have e45: "\<exists>seqs'. check_sequence example_sequences 7 45 = Some seqs'
               \<and> check_sequence seqs' 7 45 = None"
    using r45 [THEN conjunct1] b by blast
  have e44: "check_sequence example_sequences 7 44 = None"
    using r44 [THEN conjunct2, THEN conjunct1] c by blast
  have e43: "check_sequence example_sequences 7 43 = None"
    using r43 [THEN conjunct2, THEN conjunct2] d by blast
  show ?thesis using a b e45 e44 e43 by blast
qed

theorem replay_window_counterexample:
  "example_sequences 7 = Some (300, {|300|})
   \<and> (44::int) = 300 - 256 \<and> (44::int) |\<notin>| {|300|}
   \<and> check_sequence example_sequences 7 44 = None"
  by (simp add: check_sequence_def example_sequences_def Let_def)

subsection \<open>Terminal counters of the listener\<close>

lemma deliver_payload_stats:
  "case deliver_payload L now addr h age payload l of
     (out, l') \<Rightarrow> lsn_stats l' = stats_after out (lsn_stats l)
                  \<and> (\<forall>c. counter_of out = Some c \<longrightarrow> c \<in> set terminal_counters)"
  unfolding deliver_payload_def Let_def terminal_counters_def
  by (simp split: option.split json.split sum.split bool.split)

lemma check_replay_stats:
  "case check_replay L now data addr h age payload l of
     (out, l') \<Rightarrow> lsn_stats l' = stats_after out (lsn_stats l)
                  \<and> (\<forall>c. counter_of out = Some c \<longrightarrow> c \<in> set terminal_counters)"
proof (cases "check_sequence (lsn_src_sequences l) (hdr_src_id h) (hdr_seq16 h)")
  case None
  then show ?thesis by (simp add: check_replay_def terminal_counters_def)
next
  case (Some seqs)
  show ?thesis
  proof (cases "take 16 (sha256 L data) |\<in>| lsn_replay_cache l")
    case True
    then show ?thesis using Some by (simp add: check_replay_def Let_def terminal_counters_def)
  next
    case False
    let ?l2 = "l\<lparr>lsn_src_sequences := seqs,
                      lsn_replay_cache := finsert (take 16 (sha256 L data)) (lsn_replay_cache l),
                      lsn_replay_expire :=
                        lsn_replay_expire l @ [(take 16 (sha256 L data), now + lsn_stale_window_sec l)]\<rparr>"
    have eq: "check_replay L now data addr h age payload l
                = deliver_payload L now addr h age payload ?l2"
      using False Some by (simp add: check_replay_def Let_def)
    show ?thesis
      unfolding eq using deliver_payload_stats [where L = L and now = now and addr = addr and h = h
          and age = age and payload = payload and l = ?l2] by simp
  qed
qed

lemma process_packet_stats:
  "case process_packet L now data addr l of
     (out, l') \<Rightarrow> lsn_stats l' = stats_after out (lsn_stats l)
                  \<and> (\<forall>c. counter_of out = Some c \<longrightarrow> c \<in> set terminal_counters)"
  unfolding process_packet_def Let_def
  using check_replay_stats [where L = L and now = now and data = data and addr = addr
          and h = "unpack_header data"
          and age = "\<bar>int_of_float (float_mul L now 1000) - hdr_ts_unix_ms (unpack_header data)\<bar>"
          and payload = "take (nat (hdr_payload_len (unpack_header data))) (drop HEADER_SIZE data)"
          and l = l]
  by (simp add: terminal_counters_def split: option.split)

lemma deliver_payload_not_silent: "fst (deliver_payload L now addr h age payload l) \<noteq> Silent"
  unfolding deliver_payload_def Let_def
  by (simp split: option.split json.split sum.split bool.split)

lemma check_replay_not_silent: "fst (check_replay L now data addr h age payload l) \<noteq> Silent"
  unfolding check_replay_def Let_def
  by (simp add: deliver_payload_not_silent split: option.split)

lemma process_packet_silent:
  "fst (process_packet L now data addr l) = Silent \<longleftrightarrow>
     length data < HEADER_SIZE + HMAC_SIZE
     \<or> (hdr_magic (unpack_header data) = MAGIC \<and> hdr_version (unpack_header data) = VERSION
        \<and> hdr_pkt_type (unpack_header data) = TYPE_ELEVATION
        \<and> (nat (hdr_payload_len (unpack_header data)) > MAX_PAYLOAD
           \<or> length data \<noteq> HEADER_SIZE + nat (hdr_payload_len (unpack_header data)) + HMAC_SIZE))"
  unfolding process_packet_def Let_def
  by (simp add: check_replay_not_silent split: option.split)

lemma increment_counters:
  "counters (increment c n st) c' = counters st c' + (if c' = c then n else 0)"
  by (simp add: increment_def Let_def)

lemma receive_datagram_counters:
  "case receive_datagram now data addr l of
     (queued, l') \<Rightarrow>
       counters (lsn_stats l') Received = counters (lsn_stats l) Received + 1
       \<and> (\<forall>c \<in> set terminal_counters.
             counters (lsn_stats l') c
               = counters (lsn_stats l) c + (if c = Rate_limited \<and> \<not> queued
                    \<and> (lsn_allowed_networks l = [] \<or> (\<exists>net \<in> set (lsn_allowed_networks l). net (fst addr)))
                  then 1 else 0))"
  unfolding receive_datagram_def allow_ip_def push_def Let_def terminal_counters_def
  by (auto simp: increment_counters split: prod.splits option.splits)

lemma wall_ts_stale_raises:
  "(\<exists>e. wall_ts_stale L now w v = Inl e) \<longleftrightarrow>
     jtruthy v
     \<and> (case v of
          JStr s \<Rightarrow> (\<exists>e. fromisoformat L (replace_Z s) = Inl e \<and> e \<noteq> ValueError \<and> e \<noteq> TypeError)
        | JInt i \<Rightarrow> float_of_int L i = None
        | _ \<Rightarrow> False)"
  by (cases v) (auto simp: wall_ts_stale_def to_float_def Let_def split: sum.splits option.splits)

lemma deliver_payload_raises:
  "(\<exists>e. fst (deliver_payload L now addr h age payload l) = Raised e) \<longleftrightarrow>
     (case json_loads L payload of
        Inl e \<Rightarrow> e \<noteq> JSONDecodeError \<and> e \<noteq> UnicodeDecodeError
      | Inr (JObj kvs) \<Rightarrow>
          (\<exists>e. wall_ts_stale L now (lsn_stale_window_sec l)
                 (case map_of kvs ''wall_ts'' of None \<Rightarrow> JNull | Some v \<Rightarrow> v) = Inl e)
      | Inr _ \<Rightarrow> True)"
  unfolding deliver_payload_def Let_def
  by (simp split: option.split json.split sum.split bool.split)

lemma check_replay_raises:
  "(\<exists>e. fst (check_replay L now data addr h age payload l) = Raised e) \<longleftrightarrow>
     check_sequence (lsn_src_sequences l) (hdr_src_id h) (hdr_seq16 h) \<noteq> None
     \<and> take 16 (sha256 L data) |\<notin>| lsn_replay_cache l
     \<and> (case json_loads L payload of
          Inl e \<Rightarrow> e \<noteq> JSONDecodeError \<and> e \<noteq> UnicodeDecodeError
        | Inr (JObj kvs) \<Rightarrow>
            (\<exists>e. wall_ts_stale L now (lsn_stale_window_sec l)
                   (case map_of kvs ''wall_ts'' of None \<Rightarrow> JNull | Some v \<Rightarrow> v) = Inl e)
        | Inr _ \<Rightarrow> True)"
proof (cases "check_sequence (lsn_src_sequences l) (hdr_src_id h) (hdr_seq16 h)")
  case None
  then show ?thesis by (simp add: check_replay_def)
next
  case (Some seqs)
  show ?thesis
  proof (cases "take 16 (sha256 L data) |\<in>| lsn_replay_cache l")
    case True
    then show ?thesis using Some by (simp add: check_replay_def Let_def)
  next
    case False
    let ?l2 = "l\<lparr>lsn_src_sequences := seqs,
                      lsn_replay_cache := finsert (take 16 (sha256 L data)) (lsn_replay_cache l),
                      lsn_replay_expire :=
                        lsn_replay_expire l @ [(take 16 (sha256 L data), now + lsn_stale_window_sec l)]\<rparr>"
    have eq: "check_replay L now data addr h age payload l
                = deliver_payload L now addr h age payload ?l2"
      using False Some by (simp add: check_replay_def Let_def)
    have sw: "lsn_stale_window_sec ?l2 = lsn_stale_window_sec l" by simp
    show ?thesis
      unfolding eq deliver_payload_raises sw using False Some by simp
  qed
qed

lemma check_replay_returns:
  "(\<forall>e. fst (check_replay L now data addr h age payload l) \<noteq> Raised e) \<longleftrightarrow>
     \<not> (check_sequence (lsn_src_sequences l) (hdr_src_id h) (hdr_seq16 h) \<noteq> None
        \<and> take 16 (sha256 L data) |\<notin>| lsn_replay_cache l
        \<and> (case json_loads L payload of
             Inl e \<Rightarrow> e \<noteq> JSONDecodeError \<and> e \<noteq> UnicodeDecodeError
           | Inr (JObj kvs) \<Rightarrow>
               (\<exists>e. wall_ts_stale L now (lsn_stale_window_sec l)
                      (case map_of kvs ''wall_ts'' of None \<Rightarrow> JNull | Some v \<Rightarrow> v) = Inl e)
           | Inr _ \<Rightarrow> True))"
  using check_replay_raises [of L now data addr h age payload l] by blast

lemma process_packet_raises:
  "(\<exists>e. fst (process_packet L now data addr l) = Raised e) \<longleftrightarrow>
     HEADER_SIZE + HMAC_SIZE \<le> length data
     \<and> hdr_magic (unpack_header data) = MAGIC
     \<and> hdr_version (unpack_header data) = VERSION
     \<and> hdr_pkt_type (unpack_header data) = TYPE_ELEVATION
     \<and> nat (hdr_payload_len (unpack_header data)) \<le> MAX_PAYLOAD
     \<and> length data = HEADER_SIZE + nat (hdr_payload_len (unpack_header data)) + HMAC_SIZE
     \<and> (\<exists>key. lsn_hmac_keys l (hdr_key_id (unpack_header data)) = Some key
              \<and> drop (HEADER_SIZE + nat (hdr_payload_len (unpack_header data))) data
                  = hmac_sha256 L key
                      (take (HEADER_SIZE + nat (hdr_payload_len (unpack_header data))) data))
     \<and> \<bar>int_of_float (float_mul L now 1000) - hdr_ts_unix_ms (unpack_header data)\<bar> \<le> 5000
     \<and> check_sequence (lsn_src_sequences l) (hdr_src_id (unpack_header data))
           (hdr_seq16 (unpack_header data)) \<noteq> None
     \<and> take 16 (sha256 L data) |\<notin>| lsn_replay_cache l
     \<and> (case json_loads L (take (nat (hdr_payload_len (unpack_header data)))
                              (drop HEADER_SIZE data)) of
          Inl e \<Rightarrow> e \<noteq> JSONDecodeError \<and> e \<noteq> UnicodeDecodeError
        | Inr (JObj kvs) \<Rightarrow>
            (\<exists>e. wall_ts_stale L now (lsn_stale_window_sec l)
                   (case map_of kvs ''wall_ts'' of None \<Rightarrow> JNull | Some v \<Rightarrow> v) = Inl e)
        | Inr _ \<Rightarrow> True)"
  unfolding process_packet_def Let_def
  by (simp add: check_replay_raises check_replay_returns split: option.split)

text \<open>
  Claim C3, as amended. Every datagram handed to \<open>_process_packet\<close> increments at most
  one terminal counter, by one, and changes no other counter. It increments exactly one
  unless the call returns in silence or raises, and then it changes none. It returns in
  silence exactly when the datagram is shorter than header plus HMAC, or has the right
  magic, version and type but declares a payload above \<open>MAX_PAYLOAD\<close> or has another
  length than the declared one. It raises exactly when the datagram has passed the size,
  magic, version, type, key, age, HMAC, sequence and replay-cache checks and either the
  decoding of its payload raises something else than \<open>JSONDecodeError\<close> or
  \<open>UnicodeDecodeError\<close>, or the payload decodes to something else than an object, or to
  an object on whose \<open>wall_ts\<close> the conversion raises something else than \<open>ValueError\<close>
  or \<open>TypeError\<close>: a non-zero integer that \<open>float\<close> cannot convert, or a non-empty
  string on which \<open>fromisoformat\<close> or \<open>timestamp\<close> raises another exception. In the receive loop every datagram increments
  \<open>received\<close>; among the terminal counters only \<open>rate_limited\<close> can change there, by
  one, exactly when the datagram passes the allow-list and is refused by the rate limiter.
\<close>

theorem one_terminal_counter:
  "(case process_packet L now data addr l of
      (out, l') \<Rightarrow>
        (\<forall>c. counter_of out = Some c \<longrightarrow>
            c \<in> set terminal_counters
            \<and> (\<forall>c'. counters (lsn_stats l') c'
                      = counters (lsn_stats l) c' + (if c' = c then 1 else 0)))
        \<and> (counter_of out = None \<longrightarrow> counters (lsn_stats l') = counters (lsn_stats l))
        \<and> (counter_of out = None \<longleftrightarrow> out = Silent \<or> (\<exists>e. out = Raised e))
        \<and> (out = Silent \<longleftrightarrow>
             length data < HEADER_SIZE + HMAC_SIZE
             \<or> (hdr_magic (unpack_header data) = MAGIC
                \<and> hdr_version (unpack_header data) = VERSION
                \<and> hdr_pkt_type (unpack_header data) = TYPE_ELEVATION
                \<and> (nat (hdr_payload_len (unpack_header data)) > MAX_PAYLOAD
                   \<or> length data
                        \<noteq> HEADER_SIZE + nat (hdr_payload_len (unpack_header data)) + HMAC_SIZE)))
        \<and> ((\<exists>e. out = Raised e) \<longleftrightarrow>
             HEADER_SIZE + HMAC_SIZE \<le> length data
             \<and> hdr_magic (unpack_header data) = MAGIC
             \<and> hdr_version (unpack_header data) = VERSION
             \<and> hdr_pkt_type (unpack_header data) = TYPE_ELEVATION
             \<and> nat (hdr_payload_len (unpack_header data)) \<le> MAX_PAYLOAD
             \<and> length data = HEADER_SIZE + nat (hdr_payload_len (unpack_header data)) + HMAC_SIZE
             \<and> (\<exists>key. lsn_hmac_keys l (hdr_key_id (unpack_header data)) = Some key
                      \<and> drop (HEADER_SIZE + nat (hdr_payload_len (unpack_header data))) data
                          = hmac_sha256 L key
                              (take (HEADER_SIZE + nat (hdr_payload_len (unpack_header data)))
                                 data))
             \<and> \<bar>int_of_float (float_mul L now 1000) - hdr_ts_unix_ms (unpack_header data)\<bar>
                 \<le> 5000
             \<and> check_sequence (lsn_src_sequences l) (hdr_src_id (unpack_header data))
                   (hdr_seq16 (unpack_header data)) \<noteq> None
             \<and> take 16 (sha256 L data) |\<notin>| lsn_replay_cache l
             \<and> (case json_loads L (take (nat (hdr_payload_len (unpack_header data)))
                                      (drop HEADER_SIZE data)) of
                  Inl e \<Rightarrow> e \<noteq> JSONDecodeError \<and> e \<noteq> UnicodeDecodeError
                | Inr (JObj kvs) \<Rightarrow>
                    (\<exists>e. wall_ts_stale L now (lsn_stale_window_sec l)
                           (case map_of kvs ''wall_ts'' of None \<Rightarrow> JNull | Some v \<Rightarrow> v) = Inl e)
                | Inr _ \<Rightarrow> True)))
   \<and> (\<forall>v w. (\<exists>e. wall_ts_stale L now w v = Inl e) \<longleftrightarrow>
          jtruthy v
          \<and> (case v of
               JStr s \<Rightarrow> (\<exists>e. fromisoformat L (replace_Z s) = Inl e
                              \<and> e \<noteq> ValueError \<and> e \<noteq> TypeError)
             | JInt i \<Rightarrow> float_of_int L i = None
             | _ \<Rightarrow> False))
   \<and> (case receive_datagram now data addr l of
        (queued, l') \<Rightarrow>
          counters (lsn_stats l') Received = counters (lsn_stats l) Received + 1
          \<and> (\<forall>c \<in> set terminal_counters.
                counters (lsn_stats l') c
                  = counters (lsn_stats l) c
                    + (if c = Rate_limited \<and> \<not> queued
                          \<and> (lsn_allowed_networks l = []
                             \<or> (\<exists>net \<in> set (lsn_allowed_networks l). net (fst addr)))
                       then 1 else 0)))"
proof -
  obtain out l' where r: "process_packet L now data addr l = (out, l')"
    by (cases "process_packet L now data addr l")
  have st: "lsn_stats l' = stats_after out (lsn_stats l)"
    and tc: "\<forall>c. counter_of out = Some c \<longrightarrow> c \<in> set terminal_counters"
    using process_packet_stats [where L = L and now = now and data = data and addr = addr and l = l]
    by (simp_all add: r)
  have a: "\<forall>c. counter_of out = Some c \<longrightarrow>
            c \<in> set terminal_counters
            \<and> (\<forall>c'. counters (lsn_stats l') c'
                      = counters (lsn_stats l) c' + (if c' = c then 1 else 0))"
    using tc unfolding st by (cases out) (simp_all add: increment_counters)
  have b: "counter_of out = None \<longrightarrow> counters (lsn_stats l') = counters (lsn_stats l)"
    unfolding st by (cases out) simp_all
  have c: "counter_of out = None \<longleftrightarrow> out = Silent \<or> (\<exists>e. out = Raised e)"
    by (cases out) auto
  have d: "out = Silent \<longleftrightarrow>
             length data < HEADER_SIZE + HMAC_SIZE
             \<or> (hdr_magic (unpack_header data) = MAGIC
                \<and> hdr_version (unpack_header data) = VERSION
                \<and> hdr_pkt_type (unpack_header data) = TYPE_ELEVATION
                \<and> (nat (hdr_payload_len (unpack_header data)) > MAX_PAYLOAD
                   \<or> length data
                        \<noteq> HEADER_SIZE + nat (hdr_payload_len (unpack_header data)) + HMAC_SIZE))"
    using process_packet_silent [where L = L and now = now and data = data and addr = addr and l = l]
    by (simp add: r)
  note e = process_packet_raises [where L = L and now = now and data = data and addr = addr
      and l = l, unfolded r fst_conv]
  have f: "\<forall>v w. (\<exists>e. wall_ts_stale L now w v = Inl e) \<longleftrightarrow>
          jtruthy v
          \<and> (case v of
               JStr s \<Rightarrow> (\<exists>e. fromisoformat L (replace_Z s) = Inl e
                              \<and> e \<noteq> ValueError \<and> e \<noteq> TypeError)
             | JInt i \<Rightarrow> float_of_int L i = None
             | _ \<Rightarrow> False)"
    using wall_ts_stale_raises by blast
  note g = receive_datagram_counters [where now = now and data = data and addr = addr and l = l]
  have p: "case (out, l') of
      (out, l') \<Rightarrow>
        (\<forall>c. counter_of out = Some c \<longrightarrow>
            c \<in> set terminal_counters
            \<and> (\<forall>c'. counters (lsn_stats l') c'
                      = counters (lsn_stats l) c' + (if c' = c then 1 else 0)))
        \<and> (counter_of out = None \<longrightarrow> counters (lsn_stats l') = counters (lsn_stats l))
        \<and> (counter_of out = None \<longleftrightarrow> out = Silent \<or> (\<exists>e. out = Raised e))
        \<and> (out = Silent \<longleftrightarrow>
             length data < HEADER_SIZE + HMAC_SIZE
             \<or> (hdr_magic (unpack_header data) = MAGIC
                \<and> hdr_version (unpack_header data) = VERSION
                \<and> hdr_pkt_type (unpack_header data) = TYPE_ELEVATION
                \<and> (nat (hdr_payload_len (unpack_header data)) > MAX_PAYLOAD
                   \<or> length data
                        \<noteq> HEADER_SIZE + nat (hdr_payload_len (unpack_header data)) + HMAC_SIZE)))
        \<and> ((\<exists>e. out = Raised e) \<longleftrightarrow>
             HEADER_SIZE + HMAC_SIZE \<le> length data
             \<and> hdr_magic (unpack_header data) = MAGIC
             \<and> hdr_version (unpack_header data) = VERSION
             \<and> hdr_pkt_type (unpack_header data) = TYPE_ELEVATION
             \<and> nat (hdr_payload_len (unpack_header data)) \<le> MAX_PAYLOAD
             \<and> length data = HEADER_SIZE + nat (hdr_payload_len (unpack_header data)) + HMAC_SIZE
             \<and> (\<exists>key. lsn_hmac_keys l (hdr_key_id (unpack_header data)) = Some key
                      \<and> drop (HEADER_SIZE + nat (hdr_payload_len (unpack_header data))) data
                          = hmac_sha256 L key
                              (take (HEADER_SIZE + nat (hdr_payload_len (unpack_header data)))
                                 data))
             \<and> \<bar>int_of_float (float_mul L now 1000) - hdr_ts_unix_ms (unpack_header data)\<bar>
                 \<le> 5000
             \<and> check_sequence (lsn_src_sequences l) (hdr_src_id (unpack_header data))
                   (hdr_seq16 (unpack_header data)) \<noteq> None
             \<and> take 16 (sha256 L data) |\<notin>| lsn_replay_cache l
             \<and> (case json_loads L (take (nat (hdr_payload_len (unpack_header data)))
                                      (drop HEADER_SIZE data)) of
                  Inl e \<Rightarrow> e \<noteq> JSONDecodeError \<and> e \<noteq> UnicodeDecodeError
                | Inr (JObj kvs) \<Rightarrow>
                    (\<exists>e. wall_ts_stale L now (lsn_stale_window_sec l)
                           (case map_of kvs ''wall_ts'' of None \<Rightarrow> JNull | Some v \<Rightarrow> v) = Inl e)
                | Inr _ \<Rightarrow> True))"
    unfolding prod.case using a b c d e by (intro conjI)
  show ?thesis
    unfolding r using p f g by (intro conjI)
qed

lemma zero_magic: "replicate 4 (0::byte) \<noteq> [65, 83, 87, 77]"
proof -
  have "replicate 4 (0::byte) = [0, 0, 0, 0]" by (simp add: numeral_eq_Suc)
  then show ?thesis by simp
qed

lemma example_bad_magic:
  "process_packet example_lib 1700000000 (replicate 59 0) (''10.0.0.1'', 5000) example_listener
     = (Counted Invalid_magic,
        example_listener\<lparr>lsn_stats := increment Invalid_magic 1 (lsn_stats example_listener)\<rparr>)"
  by (simp add: process_packet_def unpack_header_def field_def HEADER_SIZE_def HMAC_SIZE_def
        MAGIC_def Let_def zero_magic)

theorem one_terminal_counter_witness:
  "process_packet example_lib 1700000000 (replicate 59 0) (''10.0.0.1'', 5000) example_listener
     = (Counted Invalid_magic,
        example_listener\<lparr>lsn_stats := increment Invalid_magic 1 (lsn_stats example_listener)\<rparr>)
   \<and> Invalid_magic \<in> set terminal_counters
   \<and> counters (lsn_stats (snd (process_packet example_lib 1700000000 (replicate 59 0)
                                   (''10.0.0.1'', 5000) example_listener))) Invalid_magic
       = counters (lsn_stats example_listener) Invalid_magic + 1
   \<and> counters (lsn_stats (snd (process_packet example_lib 1700000000 (replicate 59 0)
                                   (''10.0.0.1'', 5000) example_listener))) Valid
       = counters (lsn_stats example_listener) Valid"
proof -
  note inst = one_terminal_counter [where L = example_lib and now = 1700000000
      and data = "replicate 59 0" and addr = "(''10.0.0.1'', 5000)" and l = example_listener,
      THEN conjunct1, unfolded example_bad_magic, simplified]
  have t: "Invalid_magic \<in> set terminal_counters" using inst by blast
  have c: "\<forall>c'. counters (increment Invalid_magic 1 (lsn_stats example_listener)) c'
                 = counters (lsn_stats example_listener) c' + (if c' = Invalid_magic then 1 else 0)"
    using inst by simp
  show ?thesis using t c by (simp add: example_bad_magic)
qed

theorem one_terminal_counter_counterexample:
  "receive_datagram 1700000000 (replicate 10 0) (''10.0.0.1'', 5000) example_listener
     = (True,
        example_listener
          \<lparr>lsn_stats := increment Received 1 (lsn_stats example_listener),
            lsn_buckets := [''10.0.0.1'' \<mapsto> (99, 1700000000)],
            lsn_ring_buffer :=
              \<lparr>capacity = 10000,
               buffer = [\<lparr>entry_data = replicate 10 0, entry_addr = (''10.0.0.1'', 5000),
                          entry_recv_time = 1700000000\<rparr>],
               dropped_count = 0\<rparr>\<rparr>)
   \<and> process_entry example_lib 1700000000
         \<lparr>entry_data = replicate 10 0, entry_addr = (''10.0.0.1'', 5000),
          entry_recv_time = 1700000000\<rparr>
         (snd (receive_datagram 1700000000 (replicate 10 0) (''10.0.0.1'', 5000) example_listener))
       = (Silent,
          snd (receive_datagram 1700000000 (replicate 10 0) (''10.0.0.1'', 5000) example_listener))
   \<and> map (counters (lsn_stats
             (snd (receive_datagram 1700000000 (replicate 10 0) (''10.0.0.1'', 5000)
                     example_listener))))
         terminal_counters
       = [0, 0, 0, 0, 0, 0, 0, 0, 0, 0, 0, 0]"
proof -
  have r: "receive_datagram 1700000000 (replicate 10 0) (''10.0.0.1'', 5000) example_listener
     = (True,
        example_listener
          \<lparr>lsn_stats := increment Received 1 (lsn_stats example_listener),
            lsn_buckets := [''10.0.0.1'' \<mapsto> (99, 1700000000)],
            lsn_ring_buffer :=
              \<lparr>capacity = 10000,
               buffer = [\<lparr>entry_data = replicate 10 0, entry_addr = (''10.0.0.1'', 5000),
                          entry_recv_time = 1700000000\<rparr>],
               dropped_count = 0\<rparr>\<rparr>)"
    by (simp add: receive_datagram_def allow_ip_def push_def example_listener_def Let_def)
  show ?thesis
    unfolding r
    by (simp add: process_entry_def process_packet_def HEADER_SIZE_def HMAC_SIZE_def
          example_listener_def increment_def terminal_counters_def Let_def)
qed

lemma deliver_payload_overflow:
  assumes "json_loads L payload = Inr (JObj [(''wall_ts'', JInt i)])"
      and "i \<noteq> 0" and "float_of_int L i = None"
  shows "deliver_payload L now addr h age payload l = (Raised OverflowError, l)"
  using assms by (simp add: deliver_payload_def wall_ts_stale_def to_float_def Let_def)

lemma example_overflow_raises:
  "deliver_payload example_overflow_lib 1700000001 example_addr h age example_payload_overflow
     example_listener
   = (Raised OverflowError, example_listener)"
proof (rule deliver_payload_overflow)
  show "json_loads example_overflow_lib example_payload_overflow
          = Inr (JObj [(''wall_ts'', JInt (10 ^ 309))])"
    by (simp add: example_overflow_lib_def)
  show "(10 ^ 309 :: int) \<noteq> 0" by simp
  show "float_of_int example_overflow_lib (10 ^ 309) = None"
    by (simp add: example_overflow_lib_def example_lib_def)
qed

subsection \<open>Round trip of the version 3 protocol\<close>

lemma length_pack_be [simp]: "length (pack_be k v) = k"
  by (induction k arbitrary: v) simp_all

lemma unpack_be_snoc: "unpack_be (xs @ [b]) = unpack_be xs * 256 + uint b"
  by (simp add: unpack_be_def)

lemma unpack_pack_be:
  assumes "0 \<le> v" and "v < 256 ^ k"
  shows "unpack_be (pack_be k v) = v"
  using assms
proof (induction k arbitrary: v)
  case 0
  then show ?case by (simp add: unpack_be_def)
next
  case (Suc k)
  have d: "0 \<le> v div 256" using Suc.prems(1) by simp
  have u: "v < 256 * 256 ^ k" using Suc.prems(2) by simp
  have "v = 256 * (v div 256) + v mod 256" by simp
  moreover have "0 \<le> v mod 256" by simp
  ultimately have "256 * (v div 256) \<le> v" by linarith
  then have e: "v div 256 < 256 ^ k" using u by linarith
  have "unpack_be (pack_be (Suc k) v) = (v div 256) * 256 + v mod 256"
    using Suc.IH [OF d e] by (simp add: unpack_be_snoc byte_of_int)
  then show ?case by simp
qed
lemma length_MAGIC [simp]: "length MAGIC = 4"
  by (simp add: MAGIC_def)

lemma pack_fields_Inr:
  assumes "pack_fields fs = Inr bs"
  shows "(\<forall>f \<in> set fs. 0 \<le> snd f \<and> snd f < 256 ^ fst f)
         \<and> bs = concat (map (\<lambda>f. pack_be (fst f) (snd f)) fs)"
  using assms
proof (induction fs arbitrary: bs)
  case Nil
  then show ?case by simp
next
  case (Cons g gs)
  obtain k v where g: "g = (k, v)" by (cases g)
  from Cons.prems g obtain rest where
    r: "0 \<le> v \<and> v < 256 ^ k" "pack_fields gs = Inr rest" "bs = pack_be k v @ rest"
    by (auto simp: pack_field_def split: if_splits sum.splits)
  from Cons.IH [OF r(2)] show ?case using r g by simp
qed

lemma unpack_byte:
  assumes "0 \<le> a \<and> a < 256"
  shows "unpack_be [word_of_int a] = a"
  using assms by (simp add: unpack_be_def byte_of_int)

lemma unpack_header_packet:
  assumes "0 \<le> a \<and> a < 256" "0 \<le> b \<and> b < 256" "0 \<le> c \<and> c < 256 ^ 8" "0 \<le> d \<and> d < 256 ^ 4"
          "0 \<le> e \<and> e < 256 ^ 2" "0 \<le> f \<and> f < 256 ^ 4" "0 \<le> g \<and> g < 256 ^ 2" "0 \<le> h \<and> h < 256"
  shows "unpack_header (MAGIC @ pack_be 1 a @ pack_be 1 b @ pack_be 8 c @ pack_be 4 d @ pack_be 2 e
                          @ pack_be 4 f @ pack_be 2 g @ pack_be 1 h @ rest)
         = \<lparr>hdr_magic = MAGIC, hdr_version = a, hdr_pkt_type = b, hdr_ts_unix_ms = c,
            hdr_src_id = d, hdr_seq16 = e, hdr_nonce32 = f, hdr_payload_len = g, hdr_key_id = h\<rparr>"
proof -
  have u: "unpack_be (pack_be 1 a) = a" "unpack_be (pack_be 1 b) = b" "unpack_be (pack_be 8 c) = c"
     "unpack_be (pack_be 4 d) = d" "unpack_be (pack_be 2 e) = e" "unpack_be (pack_be 4 f) = f"
     "unpack_be (pack_be 2 g) = g" "unpack_be (pack_be 1 h) = h"
    using assms unpack_pack_be [of a 1] unpack_pack_be [of b 1] unpack_pack_be [of h 1]
    by (simp_all add: unpack_pack_be)
  show ?thesis
    unfolding unpack_header_def field_def HEADER_SIZE_def Let_def
    using assms by (simp add: u unpack_byte)
qed
lemma build_packet_v3:
  assumes "build_packet L s seq16 payload ts r = Inr pkt" and "snd_protocol_version s = V3"
  shows "pkt = (MAGIC @ pack_be 1 V3 @ pack_be 1 TYPE_ELEVATION @ pack_be 8 ts
                 @ pack_be 4 (snd_src_id s) @ pack_be 2 seq16 @ pack_be 4 (nonce32 s seq16 r)
                 @ pack_be 2 (int (length payload)) @ pack_be 1 (snd_key_id s) @ payload)
               @ hmac_sha256 L (snd_hmac_key s)
                   (MAGIC @ pack_be 1 V3 @ pack_be 1 TYPE_ELEVATION @ pack_be 8 ts
                    @ pack_be 4 (snd_src_id s) @ pack_be 2 seq16 @ pack_be 4 (nonce32 s seq16 r)
                    @ pack_be 2 (int (length payload)) @ pack_be 1 (snd_key_id s) @ payload)"
    and "0 \<le> ts \<and> ts < 256 ^ 8" and "0 \<le> snd_src_id s \<and> snd_src_id s < 256 ^ 4"
    and "0 \<le> seq16 \<and> seq16 < 256 ^ 2"
    and "0 \<le> nonce32 s seq16 r \<and> nonce32 s seq16 r < 256 ^ 4"
    and "0 \<le> snd_key_id s \<and> snd_key_id s < 256"
proof -
  let ?fs = "[(1, V3), (1, TYPE_ELEVATION), (8, ts), (4, snd_src_id s), (2, seq16),
              (4, nonce32 s seq16 r), (2, int (length payload)), (1::nat, snd_key_id s)]"
  obtain packed where p: "pack_fields ?fs = Inr packed"
    and pkt: "pkt = ((MAGIC @ packed) @ payload) @ hmac_sha256 L (snd_hmac_key s) ((MAGIC @ packed) @ payload)"
    using assms by (auto simp: build_packet_def Let_def split: sum.splits)
  note q = pack_fields_Inr [OF p]
  have packed: "packed = pack_be 1 V3 @ pack_be 1 TYPE_ELEVATION @ pack_be 8 ts
                 @ pack_be 4 (snd_src_id s) @ pack_be 2 seq16 @ pack_be 4 (nonce32 s seq16 r)
                 @ pack_be 2 (int (length payload)) @ pack_be 1 (snd_key_id s)"
    using q by simp
  show "pkt = (MAGIC @ pack_be 1 V3 @ pack_be 1 TYPE_ELEVATION @ pack_be 8 ts
                 @ pack_be 4 (snd_src_id s) @ pack_be 2 seq16 @ pack_be 4 (nonce32 s seq16 r)
                 @ pack_be 2 (int (length payload)) @ pack_be 1 (snd_key_id s) @ payload)
               @ hmac_sha256 L (snd_hmac_key s)
                   (MAGIC @ pack_be 1 V3 @ pack_be 1 TYPE_ELEVATION @ pack_be 8 ts
                    @ pack_be 4 (snd_src_id s) @ pack_be 2 seq16 @ pack_be 4 (nonce32 s seq16 r)
                    @ pack_be 2 (int (length payload)) @ pack_be 1 (snd_key_id s) @ payload)"
    unfolding pkt packed by simp
  show "0 \<le> ts \<and> ts < 256 ^ 8" using q by simp
  show "0 \<le> snd_src_id s \<and> snd_src_id s < 256 ^ 4" using q by simp
  show "0 \<le> seq16 \<and> seq16 < 256 ^ 2" using q by simp
  show "0 \<le> nonce32 s seq16 r \<and> nonce32 s seq16 r < 256 ^ 4" using q by simp
  show "0 \<le> snd_key_id s \<and> snd_key_id s < 256" using q by simp
qed

lemma check_replay_seen:
  assumes "lsn_src_sequences l (hdr_src_id h) = Some (H, seen)" and "hdr_seq16 h |\<in>| seen"
  shows "fst (check_replay L now data addr h age payload l) = Counted Replays"
proof -
  have "check_sequence (lsn_src_sequences l) (hdr_src_id h) (hdr_seq16 h) = None"
    using assms check_sequence_None [where seqs = "lsn_src_sequences l"
        and src = "hdr_src_id h" and H = H and seen = seen] by simp
  then show ?thesis by (simp add: check_replay_def)
qed

lemma deliver_payload_object:
  assumes "json_loads L payload = Inr (JObj kvs)"
      and "wall_ts_stale L now (lsn_stale_window_sec l)
             (case map_of kvs ''wall_ts'' of None \<Rightarrow> JNull | Some v \<Rightarrow> v) = Inr False"
  shows "deliver_payload L now addr h age payload l
         = (Delivered
              (JObj (dict_set kvs ''_fastpath''
                 (JObj [(''source_ip'', JStr (fst addr)),
                        (''source_port'', JInt (snd addr)),
                        (''src_id'', JStr (hex08 (hdr_src_id h))),
                        (''seq16'', JInt (hdr_seq16 h)),
                        (''nonce32'', JStr (hex08 (hdr_nonce32 h))),
                        (''key_id'', JInt (hdr_key_id h)),
                        (''ts_unix_ms'', JInt (hdr_ts_unix_ms h)),
                        (''age_ms'', JInt age)])))
              addr,
            l\<lparr>lsn_stats := increment Valid 1 (lsn_stats l)\<rparr>)"
  using assms by (simp add: deliver_payload_def Let_def)

lemma check_replay_fresh:
  assumes "lsn_src_sequences l (hdr_src_id h) = None" and "0 \<le> hdr_seq16 h"
      and "take 16 (sha256 L data) |\<notin>| lsn_replay_cache l"
  shows "check_replay L now data addr h age payload l
         = deliver_payload L now addr h age payload
             (l\<lparr>lsn_src_sequences :=
                   (lsn_src_sequences l)(hdr_src_id h \<mapsto> (hdr_seq16 h, {|hdr_seq16 h|})),
                 lsn_replay_cache := finsert (take 16 (sha256 L data)) (lsn_replay_cache l),
                 lsn_replay_expire :=
                   lsn_replay_expire l @ [(take 16 (sha256 L data), now + lsn_stale_window_sec l)]\<rparr>)"
proof -
  have "check_sequence (lsn_src_sequences l) (hdr_src_id h) (hdr_seq16 h)
          = Some ((lsn_src_sequences l)(hdr_src_id h \<mapsto> (hdr_seq16 h, {|hdr_seq16 h|})))"
    using assms(1,2) by (auto simp: check_sequence_def Let_def fcard_finsert_if fcard_fempty)
  then show ?thesis using assms(3) by (simp add: check_replay_def Let_def)
qed
lemma unpack_header_built:
  assumes b: "build_packet L s seq16 payload ts r = Inr pkt"
      and v: "snd_protocol_version s = V3"
      and sz: "length payload + V3_HEADER_SIZE + HMAC_SIZE \<le> MAX_PACKET_SIZE"
  shows "unpack_header pkt
         = \<lparr>hdr_magic = MAGIC, hdr_version = V3, hdr_pkt_type = TYPE_ELEVATION,
            hdr_ts_unix_ms = ts, hdr_src_id = snd_src_id s, hdr_seq16 = seq16,
            hdr_nonce32 = nonce32 s seq16 r, hdr_payload_len = int (length payload),
            hdr_key_id = snd_key_id s\<rparr>"
proof -
  note bp = build_packet_v3 [OF b v]
  have lp: "0 \<le> int (length payload) \<and> int (length payload) < 256 ^ 2"
    using sz by (simp add: V3_HEADER_SIZE_def HMAC_SIZE_def MAX_PACKET_SIZE_def)
  have c: "0 \<le> V3 \<and> V3 < 256" "0 \<le> TYPE_ELEVATION \<and> TYPE_ELEVATION < 256"
    by (simp_all add: V3_def TYPE_ELEVATION_def)
  have "pkt = MAGIC @ pack_be 1 V3 @ pack_be 1 TYPE_ELEVATION @ pack_be 8 ts
                 @ pack_be 4 (snd_src_id s) @ pack_be 2 seq16 @ pack_be 4 (nonce32 s seq16 r)
                 @ pack_be 2 (int (length payload)) @ pack_be 1 (snd_key_id s)
                 @ (payload @ hmac_sha256 L (snd_hmac_key s)
                   (MAGIC @ pack_be 1 V3 @ pack_be 1 TYPE_ELEVATION @ pack_be 8 ts
                    @ pack_be 4 (snd_src_id s) @ pack_be 2 seq16 @ pack_be 4 (nonce32 s seq16 r)
                    @ pack_be 2 (int (length payload)) @ pack_be 1 (snd_key_id s) @ payload))"
    by (simp only: bp(1) append_assoc)
  then show ?thesis
    using unpack_header_packet [OF c(1) c(2) bp(2) bp(3) bp(4) bp(5) lp bp(6)] by simp
qed

lemma process_packet_built:
  assumes b: "build_packet L s seq16 payload ts r = Inr pkt"
      and v: "snd_protocol_version s = V3"
      and sz: "length payload + V3_HEADER_SIZE + HMAC_SIZE \<le> MAX_PACKET_SIZE"
      and hl: "\<And>k m. length (hmac_sha256 L k m) = HMAC_SIZE"
      and key: "lsn_hmac_keys l (snd_key_id s) = Some (snd_hmac_key s)"
  shows "process_packet L now pkt addr l
         = (if 5000 < \<bar>int_of_float (float_mul L now 1000) - ts\<bar>
            then (Counted Stale, l\<lparr>lsn_stats := increment Stale 1 (lsn_stats l)\<rparr>)
            else check_replay L now pkt addr (unpack_header pkt)
                   \<bar>int_of_float (float_mul L now 1000) - ts\<bar> payload l)"
proof -
  define H where "H = MAGIC @ pack_be 1 V3 @ pack_be 1 TYPE_ELEVATION @ pack_be 8 ts
                 @ pack_be 4 (snd_src_id s) @ pack_be 2 seq16 @ pack_be 4 (nonce32 s seq16 r)
                 @ pack_be 2 (int (length payload)) @ pack_be 1 (snd_key_id s)"
  define mac where "mac = hmac_sha256 L (snd_hmac_key s) (H @ payload)"
  note bp = build_packet_v3 [OF b v]
  have pkt: "pkt = H @ payload @ mac" using bp(1) by (simp add: H_def mac_def)
  have lenH: "length H = 27" by (simp add: H_def)
  have lenm: "length mac = 32" using hl by (simp add: mac_def HMAC_SIZE_def)
  have lp: "length payload \<le> 1141"
    using sz by (simp add: V3_HEADER_SIZE_def HMAC_SIZE_def MAX_PACKET_SIZE_def)
  note hdr = unpack_header_built [OF b v sz]
  have len: "length pkt = 27 + length payload + 32" by (simp add: pkt lenH lenm)
  have p1: "take (length payload) (drop 27 pkt) = payload" by (simp add: pkt lenH)
  have p2: "drop (27 + length payload) pkt = mac" by (simp add: pkt lenH)
  have p3: "take (27 + length payload) pkt = H @ payload" by (simp add: pkt lenH)
  show ?thesis
    unfolding process_packet_def Let_def hdr
    using key lp
    by (simp add: len p1 p2 p3 HEADER_SIZE_def HMAC_SIZE_def MAX_PAYLOAD_def VERSION_def V3_def
          TYPE_ELEVATION_def mac_def)
qed

lemma example_nonce: "nonce32 example_sender 4 7 = 262147"
  by (simp add: nonce32_def example_sender_def randbits32_def push_bit_eq_mult)

lemma hex08_src: "hex08 168496141 = ''0a0b0c0d''"
  by (simp add: hex08_def hex_nat.simps)

lemma hex08_nonce: "hex08 262147 = ''00040003''"
proof -
  have h: "hex_nat (nat 262147) = ''40003''" by (simp add: hex_nat.simps)
  have r: "replicate 3 CHR ''0'' = ''000''" by (simp add: numeral_eq_Suc)
  show ?thesis unfolding hex08_def Let_def h by (simp add: r)
qed

lemma example_age:
  "\<bar>int_of_float (float_mul example_json_lib 1700000001 1000) - 1700000000000\<bar> = 1000"
  by (simp add: int_of_float_def example_json_lib_def example_lib_def)

lemma example_build_empty:
  "build_packet example_json_lib example_sender 4 [0x7B, 0x7D] 1700000000000 7
     = Inr example_packet_empty"
  unfolding build_packet_def Let_def
  by (simp add: example_sender_def V3_def TYPE_ELEVATION_def pack_field_def
        nonce32_def randbits32_def push_bit_eq_mult
        example_pack_ts pack_be_4 pack_be_2 pack_be_1 MAGIC_def example_packet_empty_def
        example_header_def example_json_lib_def example_lib_def del: pack_be.simps)

lemma example_build_stale:
  "build_packet example_json_lib example_sender 4 example_payload 1700000000000 7
     = Inr example_packet_stale"
  unfolding build_packet_def Let_def
  by (simp add: example_sender_def V3_def TYPE_ELEVATION_def pack_field_def
        nonce32_def randbits32_def push_bit_eq_mult
        example_pack_ts pack_be_4 pack_be_2 pack_be_1 MAGIC_def example_packet_stale_def
        example_header_def example_json_lib_def example_lib_def example_payload_def
        del: pack_be.simps)

text \<open>
  Claim C1, as amended. A packet built by the version 3 \<open>_build_packet\<close> from a payload
  that fits in 1200 bytes with header and HMAC, processed by \<open>_process_packet\<close> of a
  listener that holds the sender's key under its key id, has no sequence entry for the
  source and does not have the packet hash in its replay cache, within 5 s of the header
  timestamp, is delivered to the callback, provided that the payload decodes to a JSON
  object on whose \<open>wall_ts\<close> the secondary staleness check returns and does not find the
  packet stale (it is absent, falsy, not convertible with a \<open>ValueError\<close> or \<open>TypeError\<close>,
  or not older than the stale window). The callback receives the decoded object with the
  key \<open>_fastpath\<close> set to the transport metadata, in which \<open>src_id\<close>, \<open>seq16\<close>,
  \<open>key_id\<close> and \<open>ts_unix_ms\<close> are the values the sender wrote into the header.
  Processing the same packet again on the resulting state, at any time and from any
  address, does not deliver it: it is counted as stale when its age exceeds 5 s and as a
  replay otherwise.
\<close>

theorem fastpath_round_trip:
  assumes "build_packet L s seq16 payload ts r = Inr pkt"
      and "snd_protocol_version s = V3"
      and "length payload + V3_HEADER_SIZE + HMAC_SIZE \<le> MAX_PACKET_SIZE"
      and "\<And>k m. length (hmac_sha256 L k m) = HMAC_SIZE"
      and "lsn_hmac_keys l (snd_key_id s) = Some (snd_hmac_key s)"
      and "\<bar>int_of_float (float_mul L now 1000) - ts\<bar> \<le> 5000"
      and "lsn_src_sequences l (snd_src_id s) = None"
      and "take 16 (sha256 L pkt) |\<notin>| lsn_replay_cache l"
      and "json_loads L payload = Inr (JObj kvs)"
      and "wall_ts_stale L now (lsn_stale_window_sec l)
             (case map_of kvs ''wall_ts'' of None \<Rightarrow> JNull | Some v \<Rightarrow> v) = Inr False"
  shows "fst (process_packet L now pkt addr l)
           = Delivered
               (JObj (dict_set kvs ''_fastpath''
                  (JObj [(''source_ip'', JStr (fst addr)),
                         (''source_port'', JInt (snd addr)),
                         (''src_id'', JStr (hex08 (snd_src_id s))),
                         (''seq16'', JInt seq16),
                         (''nonce32'', JStr (hex08 (nonce32 s seq16 r))),
                         (''key_id'', JInt (snd_key_id s)),
                         (''ts_unix_ms'', JInt ts),
                         (''age_ms'', JInt \<bar>int_of_float (float_mul L now 1000) - ts\<bar>)])))
               addr
         \<and> (\<forall>now2 addr2.
               fst (process_packet L now2 pkt addr2 (snd (process_packet L now pkt addr l)))
                 = (if 5000 < \<bar>int_of_float (float_mul L now2 1000) - ts\<bar> then Counted Stale
                    else Counted Replays))"
proof -
  let ?h = "\<lparr>hdr_magic = MAGIC, hdr_version = V3, hdr_pkt_type = TYPE_ELEVATION,
            hdr_ts_unix_ms = ts, hdr_src_id = snd_src_id s, hdr_seq16 = seq16,
            hdr_nonce32 = nonce32 s seq16 r, hdr_payload_len = int (length payload),
            hdr_key_id = snd_key_id s\<rparr>"
  let ?age = "\<bar>int_of_float (float_mul L now 1000) - ts\<bar>"
  let ?l1 = "l\<lparr>lsn_src_sequences :=
                   (lsn_src_sequences l)(hdr_src_id ?h \<mapsto> (hdr_seq16 ?h, {|hdr_seq16 ?h|})),
                 lsn_replay_cache := finsert (take 16 (sha256 L pkt)) (lsn_replay_cache l),
                 lsn_replay_expire :=
                   lsn_replay_expire l @ [(take 16 (sha256 L pkt), now + lsn_stale_window_sec l)]\<rparr>"
  let ?l2 = "?l1\<lparr>lsn_stats := increment Valid 1 (lsn_stats ?l1)\<rparr>"
  note hdr = unpack_header_built [OF assms(1,2,3)]
  note seq = build_packet_v3(4) [OF assms(1,2)]
  have a: "process_packet L now pkt addr l = check_replay L now pkt addr ?h ?age payload l"
    using process_packet_built [OF assms(1,2,3,4,5)] assms(6) by (simp only: hdr) simp
  have b: "check_replay L now pkt addr ?h ?age payload l
             = deliver_payload L now addr ?h ?age payload ?l1"
    by (rule check_replay_fresh) (use assms(7,8) seq in simp_all)
  have c: "deliver_payload L now addr ?h ?age payload ?l1
             = (Delivered
                    (JObj (dict_set kvs ''_fastpath''
                       (JObj [(''source_ip'', JStr (fst addr)),
                              (''source_port'', JInt (snd addr)),
                              (''src_id'', JStr (hex08 (snd_src_id s))),
                              (''seq16'', JInt seq16),
                              (''nonce32'', JStr (hex08 (nonce32 s seq16 r))),
                              (''key_id'', JInt (snd_key_id s)),
                              (''ts_unix_ms'', JInt ts),
                              (''age_ms'', JInt ?age)])))
                    addr, ?l2)"
    using deliver_payload_object [where L = L and payload = payload and kvs = kvs and now = now
        and l = ?l1 and addr = addr and h = ?h and age = ?age] assms(9,10)
    by simp
  have key2: "lsn_hmac_keys ?l2 (snd_key_id s) = Some (snd_hmac_key s)"
    using assms(5) by simp
  have r: "fst (check_replay L now2 pkt addr2 (unpack_header pkt) age2 payload ?l2)
             = Counted Replays" for now2 addr2 age2
    by (rule check_replay_seen [where H = seq16 and seen = "{|seq16|}"]) (simp_all add: hdr)
  have d: "fst (process_packet L now2 pkt addr2 ?l2)
             = (if 5000 < \<bar>int_of_float (float_mul L now2 1000) - ts\<bar> then Counted Stale
                else Counted Replays)" for now2 addr2
    unfolding process_packet_built [OF assms(1,2,3,4) key2] using r by simp
  show ?thesis
    unfolding a b c using d by simp
qed

theorem fastpath_round_trip_witness:
  "build_packet example_json_lib example_sender 4 [0x7B, 0x7D] 1700000000000 7
     = Inr example_packet_empty
   \<and> fst (process_packet example_json_lib 1700000001 example_packet_empty example_addr
            example_listener)
       = Delivered
           (JObj [(''_fastpath'',
                   JObj [(''source_ip'', JStr ''10.0.0.5''),
                         (''source_port'', JInt 40000),
                         (''src_id'', JStr ''0a0b0c0d''),
                         (''seq16'', JInt 4),
                         (''nonce32'', JStr ''00040003''),
                         (''key_id'', JInt 1),
                         (''ts_unix_ms'', JInt 1700000000000),
                         (''age_ms'', JInt 1000)])])
           example_addr
   \<and> fst (process_packet example_json_lib 1700000002 example_packet_empty example_addr
            (snd (process_packet example_json_lib 1700000001 example_packet_empty example_addr
                    example_listener)))
       = Counted Replays"
proof -
  note b = example_build_empty
  have v: "snd_protocol_version example_sender = V3" by (simp add: example_sender_def V3_def)
  have sz: "length [0x7B, 0x7D :: byte] + V3_HEADER_SIZE + HMAC_SIZE \<le> MAX_PACKET_SIZE"
    by (simp add: V3_HEADER_SIZE_def HMAC_SIZE_def MAX_PACKET_SIZE_def)
  have hl: "\<And>k m. length (hmac_sha256 example_json_lib k m) = HMAC_SIZE"
    by (simp add: example_json_lib_def example_lib_def HMAC_SIZE_def)
  have key: "lsn_hmac_keys example_listener (snd_key_id example_sender)
               = Some (snd_hmac_key example_sender)"
    by (simp add: example_listener_def example_sender_def)
  have age: "\<bar>int_of_float (float_mul example_json_lib 1700000001 1000) - 1700000000000\<bar> \<le> 5000"
    unfolding example_age by simp
  have fresh: "lsn_src_sequences example_listener (snd_src_id example_sender) = None"
    by (simp add: example_listener_def)
  have cache: "take 16 (sha256 example_json_lib example_packet_empty)
                 |\<notin>| lsn_replay_cache example_listener"
    by (simp add: example_listener_def)
  have js: "json_loads example_json_lib [0x7B, 0x7D] = Inr (JObj [])"
    by (simp add: example_json_lib_def example_payload_def)
  have ws: "wall_ts_stale example_json_lib 1700000001 (lsn_stale_window_sec example_listener)
               (case map_of [] ''wall_ts'' of None \<Rightarrow> JNull | Some v \<Rightarrow> v) = Inr False"
    by (simp add: wall_ts_stale_def)
  note inst = fastpath_round_trip [where addr = example_addr, OF b v sz hl key age fresh cache js ws]
  have e: "snd_src_id example_sender = 168496141" "snd_key_id example_sender = 1"
    by (simp_all add: example_sender_def)
  have p: "fst (process_packet example_json_lib 1700000001 example_packet_empty example_addr
                  example_listener)
       = Delivered
           (JObj [(''_fastpath'',
                   JObj [(''source_ip'', JStr ''10.0.0.5''),
                         (''source_port'', JInt 40000),
                         (''src_id'', JStr ''0a0b0c0d''),
                         (''seq16'', JInt 4),
                         (''nonce32'', JStr ''00040003''),
                         (''key_id'', JInt 1),
                         (''ts_unix_ms'', JInt 1700000000000),
                         (''age_ms'', JInt 1000)])])
           example_addr"
    unfolding inst [THEN conjunct1] e example_nonce hex08_src hex08_nonce example_age
    by (simp add: example_addr_def)
  have age2: "\<not> 5000 < \<bar>int_of_float (float_mul example_json_lib 1700000002 1000) - 1700000000000\<bar>"
    by (simp add: int_of_float_def example_json_lib_def example_lib_def)
  have q: "fst (process_packet example_json_lib 1700000002 example_packet_empty example_addr
            (snd (process_packet example_json_lib 1700000001 example_packet_empty example_addr
                    example_listener)))
       = Counted Replays"
    using inst [THEN conjunct2, THEN spec [where x = 1700000002],
        THEN spec [where x = example_addr]]
      age2 by simp
  show ?thesis using b p q by (intro conjI)
qed

theorem fastpath_round_trip_counterexample:
  "build_packet example_json_lib example_sender 4 example_payload 1700000000000 7
     = Inr example_packet_stale
   \<and> length example_payload + V3_HEADER_SIZE + HMAC_SIZE \<le> MAX_PACKET_SIZE
   \<and> lsn_hmac_keys example_listener (snd_key_id example_sender)
       = Some (snd_hmac_key example_sender)
   \<and> lsn_src_sequences example_listener = Map.empty
   \<and> lsn_replay_cache example_listener = {||}
   \<and> json_loads example_json_lib example_payload = Inr (JObj [(''wall_ts'', JInt 1)])
   \<and> fst (process_packet example_json_lib 1700000001 example_packet_stale example_addr
            example_listener)
       = Counted Stale"
proof -
  have len: "length example_payload = 13" by (simp add: example_payload_def)
  note b = example_build_stale
  have v: "snd_protocol_version example_sender = V3" by (simp add: example_sender_def V3_def)
  have sz: "length example_payload + V3_HEADER_SIZE + HMAC_SIZE \<le> MAX_PACKET_SIZE"
    by (simp add: len V3_HEADER_SIZE_def HMAC_SIZE_def MAX_PACKET_SIZE_def)
  have hl: "\<And>k m. length (hmac_sha256 example_json_lib k m) = HMAC_SIZE"
    by (simp add: example_json_lib_def example_lib_def HMAC_SIZE_def)
  have key: "lsn_hmac_keys example_listener (snd_key_id example_sender)
               = Some (snd_hmac_key example_sender)"
    by (simp add: example_listener_def example_sender_def)
  have age: "\<not> 5000 < \<bar>int_of_float (float_mul example_json_lib 1700000001 1000) - 1700000000000\<bar>"
    unfolding example_age by simp
  have js: "json_loads example_json_lib example_payload = Inr (JObj [(''wall_ts'', JInt 1)])"
    by (simp add: example_json_lib_def)
  have st: "wall_ts_stale example_json_lib 1700000001 60 (JInt 1) = Inr True"
    by (simp add: wall_ts_stale_def to_float_def example_json_lib_def example_lib_def Let_def)
  have d: "fst (deliver_payload example_json_lib 1700000001 example_addr h a example_payload l)
             = Counted Stale" if "lsn_stale_window_sec l = 60" for h a l
    using that st by (simp add: deliver_payload_def js Let_def)
  note hdr = unpack_header_built [OF b v sz]
  have f1: "lsn_src_sequences example_listener (hdr_src_id (unpack_header example_packet_stale))
              = None"
    by (simp add: example_listener_def)
  have f2: "0 \<le> hdr_seq16 (unpack_header example_packet_stale)" by (simp add: hdr)
  have f3: "take 16 (sha256 example_json_lib example_packet_stale)
              |\<notin>| lsn_replay_cache example_listener"
    by (simp add: example_listener_def)
  have c: "fst (check_replay example_json_lib 1700000001 example_packet_stale example_addr
                  (unpack_header example_packet_stale)
                  \<bar>int_of_float (float_mul example_json_lib 1700000001 1000) - 1700000000000\<bar> example_payload
                  example_listener) = Counted Stale"
    unfolding check_replay_fresh [OF f1 f2 f3] by (rule d) (simp add: example_listener_def)
  have p: "fst (process_packet example_json_lib 1700000001 example_packet_stale example_addr
                  example_listener)
             = Counted Stale"
    unfolding process_packet_built [OF b v sz hl key] if_not_P [OF age] by (rule c)
  have m: "lsn_src_sequences example_listener = Map.empty"
    and n: "lsn_replay_cache example_listener = {||}"
    by (simp_all add: example_listener_def)
  show ?thesis using b sz key m n js p by (intro conjI)
qed

subsection \<open>Micro-act catalog\<close>

lemma example_get_action:
  "get_action MicroActCatalog_init ''egress_rate_limit''
     = Some \<lparr>act_id = ''egress_rate_limit'', act_ring = RING_2, act_name = ''Egress Rate Limit'',
             act_description = ''Apply per-host egress bandwidth limit via tc/eBPF'',
             act_ttl_seconds = 300, act_supports_probe = True,
             act_requires_params = [''host'', ''rate_mbps''],
             act_optional_params = [''interface'', ''ttl_seconds'']\<rparr>"
  by (simp add: get_action_def MicroActCatalog_init_def registered_actions_def register_def)


lemma validate_params_raises:
  "(\<exists>e. validate_params env action params = Inl e) \<longleftrightarrow>
     (\<forall>req \<in> set (act_requires_params action). dict_in req params)
     \<and> ((dict_in ''rate_mbps'' params \<and> jnum (dict_get params ''rate_mbps'' JNull) = None)
        \<or> ((dict_in ''rate_mbps'' params \<longrightarrow>
               (\<exists>x. jnum (dict_get params ''rate_mbps'' JNull) = Some x \<and> 0 < x))
           \<and> dict_in ''selector'' params
           \<and> (\<forall>s. dict_get params ''selector'' JNull \<noteq> JStr s)))"
proof -
  have m: "filter (\<lambda>req. \<not> dict_in req params) (act_requires_params action) = []
             \<longleftrightarrow> (\<forall>req \<in> set (act_requires_params action). dict_in req params)"
    by (simp add: filter_empty_conv)
  have s: "(\<exists>e. not_strip v = Inl e) \<longleftrightarrow> (\<forall>s. v \<noteq> JStr s)" for v
    by (cases v) (simp_all add: not_strip_def)
  show ?thesis
  proof (cases "filter (\<lambda>req. \<not> dict_in req params) (act_requires_params action) = []")
    case False
    then show ?thesis using m by (simp add: validate_params_def Let_def)
  next
    case True
    note t = True
    show ?thesis
    proof (cases "dict_in ''rate_mbps'' params")
      case True
      show ?thesis
      proof (cases "jnum (dict_get params ''rate_mbps'' JNull)")
        case None
        then show ?thesis using t True m by (simp add: validate_params_def Let_def le_zero_def)
      next
        case (Some x)
        show ?thesis
        proof (cases "x \<le> 0")
          case True
          then show ?thesis using t \<open>dict_in ''rate_mbps'' params\<close> Some m
            by (simp add: validate_params_def Let_def le_zero_def)
        next
          case False
          show ?thesis
          proof (cases "dict_in ''selector'' params")
            case True
            then show ?thesis using t \<open>dict_in ''rate_mbps'' params\<close> Some False m
              s [of "dict_get params ''selector'' JNull"]
              by (cases "not_strip (dict_get params ''selector'' JNull)")
                 (auto simp: validate_params_def Let_def le_zero_def split: bool.splits)
          next
            case nsel: False
            then show ?thesis using t \<open>dict_in ''rate_mbps'' params\<close> Some False m
              by (simp add: validate_params_def Let_def le_zero_def)
          qed
        qed
      qed
    next
      case False
      note nr = False
      show ?thesis
      proof (cases "dict_in ''selector'' params")
        case True
        then show ?thesis using t nr m s [of "dict_get params ''selector'' JNull"]
          by (cases "not_strip (dict_get params ''selector'' JNull)")
             (auto simp: validate_params_def Let_def split: bool.splits)
      next
        case False
        then show ?thesis using t nr m by (simp add: validate_params_def Let_def)
      qed
    qed
  qed
qed

lemma execute_raises:
  "(\<exists>e. fst (execute env cat action_id params) = Inl e) \<longleftrightarrow>
     (\<exists>action. get_action cat action_id = Some action
        \<and> ring_value (act_ring action) \<le> MAX_RING env
        \<and> (\<exists>e. validate_params env action params = Inl e))"
proof (cases "get_action cat action_id")
  case None
  then show ?thesis by (simp add: execute_def)
next
  case (Some action)
  show ?thesis
  proof (cases "ring_value (act_ring action) > MAX_RING env")
    case True
    then show ?thesis using Some by (simp add: execute_def)
  next
    case False
    show ?thesis
    proof (cases "validate_params env action params")
      case (Inl e)
      then show ?thesis using Some False by (simp add: execute_def)
    next
      case (Inr r)
      show ?thesis
      proof (cases r)
        case None
        obtain x c where d: "dispatch env action_id params
            (dict_get params ''ttl_seconds'' (JInt (act_ttl_seconds action)))
            (compute_proof env action_id params) cat = (x, c)"
          by (cases "dispatch env action_id params
            (dict_get params ''ttl_seconds'' (JInt (act_ttl_seconds action)))
            (compute_proof env action_id params) cat")
        show ?thesis using Some False Inr None d
          by (cases x) (simp_all add: execute_def Let_def)
      next
        case (Some res)
        then show ?thesis using \<open>get_action cat action_id = Some action\<close> False Inr
          by (simp add: execute_def)
      qed
    qed
  qed
qed

text \<open>
  Claim C7 at the request \<open>execute("egress_rate_limit", {"host": "h1", "rate_mbps": "10"})\<close>
  on a new catalog: the comparison \<open>"10" <= 0\<close> of the validation raises \<open>TypeError\<close>,
  which leaves \<open>execute\<close>; so does the \<open>AttributeError\<close> of \<open>strip\<close> on a selector that
  is not a string. The same requests with a number and a string return a result.
\<close>

theorem execute_raises_type_error:
  "execute example_env MicroActCatalog_init ''egress_rate_limit'' (example_rate_params (JStr ''10''))
     = (Inl TypeError, MicroActCatalog_init)
   \<and> execute example_env MicroActCatalog_init ''egress_rate_limit''
         [(''host'', JStr ''h1''), (''rate_mbps'', JInt 10), (''selector'', JInt 5)]
     = (Inl AttributeError, MicroActCatalog_init)
   \<and> execute example_env MicroActCatalog_init ''egress_rate_limit'' (example_rate_params (JInt 0))
     = (Inr (failure ''Invalid rate_mbps: must be positive''), MicroActCatalog_init)
   \<and> execute example_env MicroActCatalog_init ''egress_rate_limit''
         [(''host'', JStr ''h1''), (''pid'', JStr ''x''), (''rate_mbps'', JInt 10)]
     = (Inr (failure ''Invalid pid: must be integer''), MicroActCatalog_init)"
proof -
  have a: "execute example_env MicroActCatalog_init ''egress_rate_limit''
             (example_rate_params (JStr ''10'')) = (Inl TypeError, MicroActCatalog_init)"
    unfolding execute_def example_get_action
    by (simp add: example_env_def validate_params_def example_rate_params_def dict_in_def
          dict_get_def le_zero_def Let_def)
  have b: "execute example_env MicroActCatalog_init ''egress_rate_limit''
         [(''host'', JStr ''h1''), (''rate_mbps'', JInt 10), (''selector'', JInt 5)]
     = (Inl AttributeError, MicroActCatalog_init)"
    unfolding execute_def example_get_action
    by (simp add: example_env_def validate_params_def dict_in_def
          dict_get_def le_zero_def not_strip_def Let_def)
  have c: "execute example_env MicroActCatalog_init ''egress_rate_limit''
             (example_rate_params (JInt 0))
     = (Inr (failure ''Invalid rate_mbps: must be positive''), MicroActCatalog_init)"
    unfolding execute_def example_get_action
    by (simp add: example_env_def validate_params_def example_rate_params_def dict_in_def
          dict_get_def le_zero_def Let_def)
  have d: "execute example_env MicroActCatalog_init ''egress_rate_limit''
         [(''host'', JStr ''h1''), (''pid'', JStr ''x''), (''rate_mbps'', JInt 10)]
     = (Inr (failure ''Invalid pid: must be integer''), MicroActCatalog_init)"
    unfolding execute_def example_get_action
    by (simp add: example_env_def validate_params_def dict_in_def
          dict_get_def le_zero_def int_conv_def Let_def)
  show ?thesis using a b c d by (intro conjI)
qed


















end
